(* ===== verification/Prelude.thy ===== *)
theory Prelude
  imports Main "HOL-Library.Monad_Syntax"
begin

text \<open>
  Shared vocabulary of the txAdmin development: the character classes of
  JavaScript regular expressions restricted to the 8-bit characters of
  \<^typ>\<open>char\<close> (\<open>\s\<close>, \<open>\d\<close>, \<open>\w\<close>, line terminators), the ASCII case folding
  that the \<open>i\<close> flag performs on ASCII literals, \<open>parseInt\<close> on a digit string
  (\<open>dec_val\<close>) and the decimal rendering of a number in a template literal
  (\<open>dec_string\<close>), \<open>String.prototype.trim\<close> and
  \<open>String.prototype.includes\<close>.  The collection \<open>js_char_defs\<close> unfolds
  the character classes so that \<open>simp\<close> decides them on literal characters.
\<close>

named_theorems js_char_defs "definitions of the JavaScript character classes"

type_synonym 'a parser = "string \<Rightarrow> ('a \<times> string) option"
type_synonym 'a matcher = "string \<Rightarrow> ('a \<times> nat) option"

section \<open>Character classes\<close>

text \<open>
  \<open>\s\<close> of ECMAScript is WhiteSpace and LineTerminator; on 8-bit characters
  these are TAB, LF, VT, FF, CR, SPACE and NO-BREAK SPACE (0xA0).  The same
  set is what \<open>trim\<close> removes.  \<open>.\<close> matches every character but a
  LineTerminator; on 8-bit characters those are LF and CR.
\<close>

definition is_ws :: "char \<Rightarrow> bool" where
  [js_char_defs]: "is_ws c \<longleftrightarrow> of_char c \<in> {9, 10, 11, 12, 13, 32, 160 :: nat}"

definition is_lt :: "char \<Rightarrow> bool" where
  [js_char_defs]: "is_lt c \<longleftrightarrow> c = CHR 0x0A \<or> c = CHR 0x0D"

definition is_digit :: "char \<Rightarrow> bool" where
  [js_char_defs]: "is_digit c \<longleftrightarrow> 48 \<le> (of_char c :: nat) \<and> (of_char c :: nat) \<le> 57"

definition is_word :: "char \<Rightarrow> bool" where
  [js_char_defs]: "is_word c \<longleftrightarrow> is_digit c
     \<or> (65 \<le> (of_char c :: nat) \<and> (of_char c :: nat) \<le> 90)
     \<or> (97 \<le> (of_char c :: nat) \<and> (of_char c :: nat) \<le> 122)
     \<or> c = CHR ''_''"

definition to_lower :: "char \<Rightarrow> char" where
  [js_char_defs]: "to_lower c =
     (if 65 \<le> (of_char c :: nat) \<and> (of_char c :: nat) \<le> 90
      then char_of (of_char c + (32 :: nat)) else c)"

section \<open>Numbers and strings\<close>

text \<open>\<open>parseInt\<close> of a non-empty string of decimal digits.\<close>

definition digit_val :: "char \<Rightarrow> nat" where
  "digit_val c = of_char c - 48"

definition dec_val :: "string \<Rightarrow> nat" where
  "dec_val ds = foldl (\<lambda>n c. 10 * n + digit_val c) 0 ds"

text \<open>The decimal text of a number, as \<open>${n}\<close> renders a non-negative integer.\<close>

fun dec_string :: "nat \<Rightarrow> string" where
  "dec_string n =
     (if n < 10 then [char_of (48 + n)] else dec_string (n div 10) @ [char_of (48 + n mod 10)])"

declare dec_string.simps [simp del]

definition js_trim :: "string \<Rightarrow> string" where
  "js_trim s = rev (dropWhile is_ws (rev (dropWhile is_ws s)))"

text \<open>\<open>s.includes(pat)\<close>: a scan over the start positions of \<open>s\<close>.\<close>

fun js_includes :: "string \<Rightarrow> string \<Rightarrow> bool" where
  "js_includes [] pat = (pat = [])"
| "js_includes (c # s) pat = (take (length pat) (c # s) = pat \<or> js_includes s pat)"

text \<open>\<open>Array.prototype.join(sep)\<close> on an array of strings.\<close>

fun js_join :: "string \<Rightarrow> string list \<Rightarrow> string" where
  "js_join sep [] = []"
| "js_join sep [x] = x"
| "js_join sep (x # y # zs) = x @ sep @ js_join sep (y # zs)"

text \<open>\<open>String.prototype.split(d)\<close> with a one-character separator: the pieces
  between the occurrences of \<open>d\<close>; the empty string splits into one empty piece.\<close>

fun js_split :: "char \<Rightarrow> string \<Rightarrow> string list" where
  "js_split d [] = [[]]"
| "js_split d (c # cs) =
     (if c = d then [] # js_split d cs else (let r = js_split d cs in (c # hd r) # tl r))"

section \<open>Lemmas\<close>

text \<open>The digit characters, so that \<open>simp\<close> prints numbers.\<close>

lemma char_of_digits [simp]:
  "char_of (48::nat) = CHR ''0''" "char_of (49::nat) = CHR ''1''" "char_of (50::nat) = CHR ''2''"
  "char_of (51::nat) = CHR ''3''" "char_of (52::nat) = CHR ''4''" "char_of (53::nat) = CHR ''5''"
  "char_of (54::nat) = CHR ''6''" "char_of (55::nat) = CHR ''7''" "char_of (56::nat) = CHR ''8''"
  "char_of (57::nat) = CHR ''9''"
  by code_simp+

lemma find_Some_mem: "find P xs = Some x \<Longrightarrow> x \<in> set xs \<and> P x"
  by (auto simp: find_Some_iff)

lemma is_digit_not_ws [simp]: "is_digit c \<Longrightarrow> \<not> is_ws c"
  by (auto simp: is_digit_def is_ws_def)

lemma is_digit_not_lt [simp]: "is_digit c \<Longrightarrow> \<not> is_lt c"
  by (auto simp: is_digit_def is_lt_def)

lemma is_word_not_ws [simp]: "is_word c \<Longrightarrow> \<not> is_ws c"
  by (auto simp: is_word_def is_digit_def is_ws_def)

lemma is_lt_is_ws [simp]: "is_lt c \<Longrightarrow> is_ws c"
  by (auto simp: is_lt_def is_ws_def)

lemma is_word_not_lt [simp]: "is_word c \<Longrightarrow> \<not> is_lt c"
  by (auto simp: is_word_def is_digit_def is_lt_def)

lemma takeWhile_not_lt_digit:
  "takeWhile (\<lambda>c. \<not> is_lt c) t = [] \<Longrightarrow> takeWhile is_digit t = []"
  by (cases t) auto

lemma js_trim_id:
  "xs \<noteq> [] \<Longrightarrow> \<not> is_ws (hd xs) \<Longrightarrow> \<not> is_ws (last xs) \<Longrightarrow> js_trim xs = xs"
proof -
  assume "xs \<noteq> []" "\<not> is_ws (hd xs)" "\<not> is_ws (last xs)"
  then have "dropWhile is_ws xs = xs" and "dropWhile is_ws (rev xs) = rev xs"
    by (simp_all add: dropWhile_eq_self_iff hd_rev)
  then show ?thesis by (simp add: js_trim_def)
qed

lemma dec_val_append:
  "dec_val (xs @ ys) = dec_val xs * 10 ^ length ys + dec_val ys"
proof (induction ys rule: rev_induct)
  case Nil
  then show ?case by (simp add: dec_val_def)
next
  case (snoc y ys)
  then show ?case by (simp add: dec_val_def algebra_simps)
qed

lemma dec_val_single [simp]: "dec_val [c] = digit_val c"
  by (simp add: dec_val_def)

lemma digit_val_bound: "is_digit c \<Longrightarrow> digit_val c < 10"
  unfolding is_digit_def digit_val_def by linarith

lemma dec_val_bound: "\<forall>c \<in> set ds. is_digit c \<Longrightarrow> dec_val ds < 10 ^ length ds"
proof (induction ds rule: rev_induct)
  case Nil
  then show ?case by (simp add: dec_val_def)
next
  case (snoc d ds)
  then have "dec_val ds < 10 ^ length ds" and "digit_val d < 10"
    by (auto intro: digit_val_bound)
  then have "dec_val ds * 10 + digit_val d < 10 ^ length ds * 10"
    by linarith
  then show ?case by (simp add: dec_val_append mult.commute)
qed

lemma digit_val_char_of [simp]: "(n::nat) < 10 \<Longrightarrow> digit_val (char_of (48 + n)) = n"
  by (simp add: digit_val_def)

lemma is_digit_char_of [simp]: "(n::nat) < 10 \<Longrightarrow> is_digit (char_of (48 + n))"
  by (simp add: is_digit_def)

lemma dec_string_digits: "\<forall>c \<in> set (dec_string n). is_digit c"
  by (induction n rule: dec_string.induct) (subst dec_string.simps, simp)

lemma dec_string_not_lt [simp]: "c \<in> set (dec_string n) \<Longrightarrow> \<not> is_lt c"
  using dec_string_digits by auto

lemma dec_string_hd_not_ws [simp]: "\<not> is_ws (hd (dec_string n))"
proof -
  have "dec_string n \<noteq> []" by (subst dec_string.simps) simp
  then have "is_digit (hd (dec_string n))" using dec_string_digits hd_in_set by blast
  then show ?thesis by simp
qed

lemma dec_string_not_Nil [simp]: "dec_string n \<noteq> []"
  by (subst dec_string.simps) simp

text \<open>Printing a number and reading it back with \<open>parseInt\<close> gives the number.\<close>

lemma dec_val_dec_string [simp]: "dec_val (dec_string n) = n"
proof (induction n rule: dec_string.induct)
  case (1 n)
  show ?case
  proof (cases "n < 10")
    case True
    then show ?thesis by (subst dec_string.simps) simp
  next
    case False
    with "1.IH" have "dec_val (dec_string (n div 10)) = n div 10" by simp
    with False show ?thesis
      by (subst dec_string.simps) (simp add: dec_val_append)
  qed
qed

lemma length_dec_string: "n < 10 ^ k \<Longrightarrow> 0 < k \<Longrightarrow> length (dec_string n) \<le> k"
proof (induction n arbitrary: k rule: dec_string.induct)
  case (1 n)
  show ?case
  proof (cases "n < 10")
    case True
    with "1.prems" show ?thesis by (subst dec_string.simps) simp
  next
    case False
    from "1.prems" obtain k' where k: "k = Suc k'"
      by (cases k) auto
    with False "1.prems" have "0 < k'"
      by (cases k') auto
    from "1.prems"(1) k have "n < 10 ^ k' * 10" by (simp add: mult.commute)
    then have "n div 10 < 10 ^ k'" by (rule less_mult_imp_div_less)
    with "1.IH" False \<open>0 < k'\<close> have "length (dec_string (n div 10)) \<le> k'" by simp
    with False k show ?thesis by (subst dec_string.simps) simp
  qed
qed

lemma js_includes_iff: "js_includes s pat \<longleftrightarrow> (\<exists>a b. s = a @ pat @ b)"
proof (induction s)
  case Nil
  then show ?case by simp
next
  case (Cons c s)
  have "take (length pat) (c # s) = pat \<longleftrightarrow> (\<exists>b. c # s = pat @ b)"
    by (metis append_eq_conv_conj)
  moreover have "(\<exists>a b. c # s = a @ pat @ b) \<longleftrightarrow>
      (\<exists>b. c # s = pat @ b) \<or> (\<exists>a b. s = a @ pat @ b)"
    by (auto simp: Cons_eq_append_conv)
  ultimately show ?case using Cons.IH by simp
qed

text \<open>\<open>forEach\<close> with \<open>out.push\<close> is a left fold that appends.\<close>

lemma foldl_append_concat:
  "foldl (\<lambda>out x. out @ f x) acc xs = acc @ concat (map f xs)"
  by (induction xs arbitrary: acc) simp_all

lemma map_filter_Cons_mem:
  "List.map_filter f xs = y # ys \<Longrightarrow> \<exists>x \<in> set xs. f x = Some y"
  by (induction xs) (auto split: option.splits)

lemma concat_map_singleton:
  "\<forall>x \<in> set xs. f x = [g x] \<Longrightarrow> concat (map f xs) = map g xs"
  by (induction xs) simp_all

text \<open>Splitting a joined list gives the list back when no piece holds the separator.\<close>

lemma js_split_not_Nil [simp]: "js_split d s \<noteq> []"
  by (induction s) (simp_all add: Let_def)

lemma js_split_append:
  "d \<notin> set x \<Longrightarrow> js_split d (x @ y) = (let r = js_split d y in (x @ hd r) # tl r)"
  by (induction x) (auto simp: Let_def)

lemma js_split_join:
  "xs \<noteq> [] \<Longrightarrow> \<forall>x \<in> set xs. d \<notin> set x \<Longrightarrow> js_split d (js_join [d] xs) = xs"
proof (induction "[d]" xs rule: js_join.induct)
  case (2 x)
  then show ?case using js_split_append [of d x "[]"] by simp
next
  case (3 x y zs)
  then have "js_split d (js_join [d] (y # zs)) = y # zs" by simp
  with 3 show ?case by (simp add: js_split_append Let_def)
qed simp

lemma foldl_invariant:
  "P acc \<Longrightarrow> (\<And>acc x. P acc \<Longrightarrow> x \<in> set xs \<Longrightarrow> P (f acc x)) \<Longrightarrow> P (foldl f acc xs)"
  by (induction xs arbitrary: acc) simp_all

end
