(* ===== verification/Regex_Scan.thy ===== *)
theory Regex_Scan
  imports Prelude
begin

text \<open>
  The matching machinery behind \<open>getFXServerPort\<close>
  (\<open>src/src/extras/helpers.js\<close>, lines 146--163): the pieces of a
  regular expression as parsers of type \<^typ>\<open>'a parser\<close> (greedy
  quantifiers, a case-insensitive ASCII literal, an optional quote, \<open>.*$\<close>),
  and the loop \<open>while (match = re.exec(text))\<close> of a regular expression
  with the flags \<open>gim\<close> as \<open>exec_all\<close>.  \<open>exec_all\<close> is a
  \<^theory_text>\<open>partial_function\<close> in the option monad: a regular expression that
  matched the empty string would leave \<open>lastIndex\<close> where it was and the
  JavaScript loop would never end, which is the value \<open>None\<close> here.  The
  theorem \<open>exec_all_total\<close> shows that the loop returns for every matcher
  that consumes at least one character.
\<close>

section \<open>Regular-expression pieces as parsers\<close>

text \<open>\<open>X*\<close>, greedy.\<close>

definition p_many :: "(char \<Rightarrow> bool) \<Rightarrow> string parser" where
  "p_many P s = Some (takeWhile P s, dropWhile P s)"

text \<open>\<open>X+\<close>, greedy.\<close>

definition p_many1 :: "(char \<Rightarrow> bool) \<Rightarrow> string parser" where
  "p_many1 P s = (if takeWhile P s = [] then None else Some (takeWhile P s, dropWhile P s))"

text \<open>\<open>X{1,k}\<close>, greedy.\<close>

definition p_upto :: "nat \<Rightarrow> (char \<Rightarrow> bool) \<Rightarrow> string parser" where
  "p_upto k P s =
     (let ds = take k (takeWhile P s) in if ds = [] then None else Some (ds, drop (length ds) s))"

text \<open>A literal character.\<close>

definition p_char :: "char \<Rightarrow> unit parser" where
  "p_char c s = (case s of d # r \<Rightarrow> if d = c then Some ((), r) else None | [] \<Rightarrow> None)"

text \<open>\<open>[...]?\<close>, greedy.\<close>

definition p_opt :: "(char \<Rightarrow> bool) \<Rightarrow> unit parser" where
  "p_opt P s = (case s of d # r \<Rightarrow> if P d then Some ((), r) else Some ((), s) | [] \<Rightarrow> Some ((), s))"

text \<open>
  A lower-case ASCII literal under the \<open>i\<close> flag: a character of the text
  matches when its ASCII lower case is the literal's character.
\<close>

definition p_lit_ci :: "string \<Rightarrow> unit parser" where
  "p_lit_ci lit s =
     (if length lit \<le> length s \<and> map to_lower (take (length lit) s) = lit
      then Some ((), drop (length lit) s) else None)"

text \<open>\<open>.*$\<close> under the \<open>m\<close> flag: the rest of the line, up to a line terminator.\<close>

definition p_rest_of_line :: "string parser" where
  "p_rest_of_line s = Some (takeWhile (\<lambda>c. \<not> is_lt c) s, dropWhile (\<lambda>c. \<not> is_lt c) s)"

section \<open>The exec loop of a global, multiline regular expression\<close>

text \<open>
  \<open>exec_all m bol s\<close> scans the text \<open>s\<close> from its start; \<open>bol\<close> says whether
  the current position is a \<open>^\<close> position (the start of the input or just
  after a line terminator).  At such a position the matcher \<open>m\<close> is tried;
  a match \<open>(x, n)\<close> is recorded and the scan resumes after its \<open>n\<close>
  characters, as \<open>lastIndex\<close> does; otherwise the scan moves one character
  on.  At the end of the text \<open>exec\<close> returns \<open>null\<close> and the loop stops.
\<close>

partial_function (option) exec_all :: "'a matcher \<Rightarrow> bool \<Rightarrow> string \<Rightarrow> 'a list option" where
  "exec_all m bol s =
     (case (if bol then m s else None) of
        Some (x, n) \<Rightarrow>
          Option.bind (exec_all m (if n = 0 then bol else is_lt (s ! (n - 1))) (drop n s))
            (\<lambda>xs. Some (x # xs))
      | None \<Rightarrow> (case s of [] \<Rightarrow> Some [] | c # cs \<Rightarrow> exec_all m (is_lt c) cs))"

declare exec_all.simps [code]

text \<open>A matcher consumes: every match is non-empty and lies within the text.\<close>

definition consuming :: "'a matcher \<Rightarrow> bool" where
  "consuming m \<longleftrightarrow> (\<forall>s x n. m s = Some (x, n) \<longrightarrow> 0 < n \<and> n \<le> length s)"

text \<open>A parser turned into a matcher: the match is the consumed prefix.\<close>

definition to_matcher :: "'b parser \<Rightarrow> (string \<Rightarrow> 'b \<Rightarrow> 'a) \<Rightarrow> 'a matcher" where
  "to_matcher p f s =
     (case p s of None \<Rightarrow> None
      | Some (v, r) \<Rightarrow> Some (f (take (length s - length r) s) v, length s - length r))"

section \<open>Lemmas on the pieces\<close>

text \<open>Every piece returns a suffix of its input; the consuming pieces a proper one.\<close>

named_theorems parser_shrinks "length bounds of the remainders returned by parsers"

lemma p_many_len [parser_shrinks]: "p_many P s = Some (x, r) \<Longrightarrow> length r \<le> length s"
  by (auto simp: p_many_def length_dropWhile_le)

lemma p_many1_len [parser_shrinks]: "p_many1 P s = Some (x, r) \<Longrightarrow> length r < length s"
  by (cases s) (auto simp: p_many1_def length_dropWhile_le le_imp_less_Suc split: if_splits)

lemma p_upto_len [parser_shrinks]: "p_upto k P s = Some (x, r) \<Longrightarrow> length r < length s"
  by (cases s) (auto simp: p_upto_def Let_def split: if_splits)

lemma p_char_len [parser_shrinks]: "p_char c s = Some (x, r) \<Longrightarrow> length r < length s"
  by (auto simp: p_char_def split: list.splits if_splits)

lemma p_opt_len [parser_shrinks]: "p_opt P s = Some (x, r) \<Longrightarrow> length r \<le> length s"
  by (auto simp: p_opt_def split: list.splits if_splits)

lemma p_lit_ci_len [parser_shrinks]:
  "p_lit_ci lit s = Some (x, r) \<Longrightarrow> lit \<noteq> [] \<Longrightarrow> length r < length s"
  by (cases lit) (auto simp: p_lit_ci_def split: if_splits)

lemma p_rest_of_line_len [parser_shrinks]: "p_rest_of_line s = Some (x, r) \<Longrightarrow> length r \<le> length s"
  by (auto simp: p_rest_of_line_def length_dropWhile_le)

text \<open>What each piece does on a text that starts with what it accepts.\<close>

named_theorems parser_steps "the pieces applied to a text of known shape"

lemma p_many_append [parser_steps]:
  "\<forall>c \<in> set xs. P c \<Longrightarrow> takeWhile P t = [] \<Longrightarrow> p_many P (xs @ t) = Some (xs, t)"
  by (simp add: p_many_def takeWhile_append2 dropWhile_append2 takeWhile_eq_Nil_iff
      dropWhile_eq_self_iff)

lemma p_many1_append [parser_steps]:
  "xs \<noteq> [] \<Longrightarrow> \<forall>c \<in> set xs. P c \<Longrightarrow> takeWhile P t = [] \<Longrightarrow> p_many1 P (xs @ t) = Some (xs, t)"
  by (simp add: p_many1_def takeWhile_append2 dropWhile_append2 takeWhile_eq_Nil_iff
      dropWhile_eq_self_iff)

lemma p_upto_append [parser_steps]:
  "xs \<noteq> [] \<Longrightarrow> length xs \<le> k \<Longrightarrow> \<forall>c \<in> set xs. P c \<Longrightarrow> takeWhile P t = []
   \<Longrightarrow> p_upto k P (xs @ t) = Some (xs, t)"
  by (simp add: p_upto_def takeWhile_append2)

lemma p_many_stop [parser_steps]: "takeWhile P t = [] \<Longrightarrow> p_many P t = Some ([], t)"
  by (simp add: p_many_def dropWhile_eq_self_iff takeWhile_eq_Nil_iff)

lemma p_many1_Cons [parser_steps]:
  "P c \<Longrightarrow> takeWhile P t = [] \<Longrightarrow> p_many1 P (c # t) = Some ([c], t)"
  by (simp add: p_many1_def dropWhile_eq_self_iff takeWhile_eq_Nil_iff)

lemma p_char_Cons [parser_steps]: "p_char c (c # t) = Some ((), t)"
  by (simp add: p_char_def)

lemma p_opt_Cons [parser_steps]: "P c \<Longrightarrow> p_opt P (c # t) = Some ((), t)"
  by (simp add: p_opt_def)

lemma p_lit_ci_append [parser_steps]:
  "map to_lower lit = lit \<Longrightarrow> p_lit_ci lit (lit @ t) = Some ((), t)"
  by (simp add: p_lit_ci_def)

lemma p_rest_of_line_stop [parser_steps]:
  "takeWhile (\<lambda>c. \<not> is_lt c) t = [] \<Longrightarrow> p_rest_of_line t = Some ([], t)"
  by (simp add: p_rest_of_line_def dropWhile_eq_self_iff takeWhile_eq_Nil_iff)

text \<open>What the pieces return.\<close>

named_theorems parser_outputs "shape of the values returned by parsers"

lemma p_many1_out [parser_outputs]:
  "p_many1 P s = Some (x, r) \<Longrightarrow> x \<noteq> [] \<and> (\<forall>c \<in> set x. P c)"
  by (auto simp: p_many1_def split: if_splits dest: set_takeWhileD)

lemma p_upto_out [parser_outputs]:
  "p_upto k P s = Some (x, r) \<Longrightarrow> x \<noteq> [] \<and> length x \<le> k \<and> (\<forall>c \<in> set x. P c)"
  by (auto simp: p_upto_def Let_def split: if_splits dest: in_set_takeD set_takeWhileD)

lemma to_matcher_consuming:
  assumes "\<And>s v r. p s = Some (v, r) \<Longrightarrow> length r < length s"
  shows "consuming (to_matcher p f)"
  using assms by (fastforce simp: consuming_def to_matcher_def split: option.splits)

section \<open>The loop returns\<close>

text \<open>
  For a consuming matcher the scan moves forward on every round, so it
  returns on every text: induction on the length of the text that is left.
\<close>

lemma exec_all_total:
  assumes m: "consuming m"
  shows "\<exists>r. exec_all m bol s = Some r"
proof (induction "length s" arbitrary: bol s rule: less_induct)
  case less
  show ?case
  proof (cases "if bol then m s else None")
    case None
    show ?thesis
    proof (cases s)
      case Nil
      with None show ?thesis by (cases bol) (simp_all add: exec_all.simps)
    next
      case (Cons c cs)
      with less obtain r where r: "exec_all m (is_lt c) cs = Some r" by fastforce
      have "exec_all m bol s = exec_all m (is_lt c) cs"
        using None Cons by (subst exec_all.simps) (cases bol; simp)
      with r show ?thesis by simp
    qed
  next
    case (Some a)
    obtain x n where a: "a = (x, n)" by fastforce
    with Some m have "0 < n" "n \<le> length s"
      by (auto simp: consuming_def split: if_splits)
    then have "length (drop n s) < length s" by simp
    with less obtain r where r: "exec_all m (is_lt (s ! (n - 1))) (drop n s) = Some r" by blast
    have "exec_all m bol s =
        Option.bind (exec_all m (is_lt (s ! (n - 1))) (drop n s)) (\<lambda>xs. Some (x # xs))"
      using Some a \<open>0 < n\<close> by (subst exec_all.simps) simp
    with r show ?thesis by simp
  qed
qed

text \<open>Every value the loop collects is a match of the matcher (partial correctness).\<close>

lemma exec_all_results:
  assumes "exec_all m bol s = Some xs"
  shows "\<forall>x \<in> set xs. \<exists>s' n. m s' = Some (x, n)"
proof (rule exec_all.raw_induct
    [where P = "\<lambda>m bol s xs. \<forall>x \<in> set xs. \<exists>s' n. m s' = Some (x, n)", OF _ assms])
  fix f :: "'a matcher \<Rightarrow> bool \<Rightarrow> string \<Rightarrow> 'a list option" and m bol s xs
  assume IH: "\<And>m bol s xs. f m bol s = Some xs \<Longrightarrow> \<forall>x \<in> set xs. \<exists>s' n. m s' = Some (x, n)"
    and eq: "(case (if bol then m s else None) of
        Some (x, n) \<Rightarrow>
          Option.bind (f m (if n = 0 then bol else is_lt (s ! (n - 1))) (drop n s))
            (\<lambda>xs. Some (x # xs))
      | None \<Rightarrow> (case s of [] \<Rightarrow> Some [] | c # cs \<Rightarrow> f m (is_lt c) cs)) = Some xs"
  show "\<forall>x \<in> set xs. \<exists>s' n. m s' = Some (x, n)"
  proof (cases "if bol then m s else None")
    case None
    with eq IH show ?thesis by (auto split: list.splits)
  next
    case (Some a)
    with eq IH show ?thesis
      by (cases a) (fastforce simp: bind_eq_Some_conv split: if_splits)
  qed
qed

section \<open>The loop over lines of known shape\<close>

text \<open>Where no match is tried, the scan walks to the next line start.\<close>

lemma exec_all_skip_line:
  "\<forall>c \<in> set l. \<not> is_lt c \<Longrightarrow> is_lt c \<Longrightarrow> exec_all m False (l @ c # t) = exec_all m True t"
proof (induction l)
  case Nil
  then show ?case by (simp add: exec_all.simps)
next
  case (Cons d l)
  then show ?case by (subst exec_all.simps) simp
qed

lemma exec_all_skip_last_line:
  "\<forall>c \<in> set l. \<not> is_lt c \<Longrightarrow> exec_all m False l = Some []"
proof (induction l)
  case Nil
  then show ?case by (simp add: exec_all.simps)
next
  case (Cons d l)
  then show ?case by (subst exec_all.simps) simp
qed

text \<open>A line the matcher matches up to its end contributes exactly its match.\<close>

lemma exec_all_match_line:
  assumes "m (l @ c # t) = Some (x, length l)" and "l \<noteq> []"
    and "\<forall>d \<in> set l. \<not> is_lt d" and "is_lt c"
  shows "exec_all m True (l @ c # t) = map_option (Cons x) (exec_all m True t)"
proof -
  have "\<not> is_lt ((l @ c # t) ! (length l - 1))"
    using assms(2,3) by (simp add: nth_append)
  then have "exec_all m True (l @ c # t) =
      Option.bind (exec_all m False (c # t)) (\<lambda>xs. Some (x # xs))"
    using assms(1,2) by (subst exec_all.simps) simp
  also have "exec_all m False (c # t) = exec_all m True t"
    using exec_all_skip_line [of "[]" c m t] assms(4) by simp
  finally show ?thesis by (cases "exec_all m True t") simp_all
qed

text \<open>A line the matcher rejects at its start contributes nothing.\<close>

lemma exec_all_reject_line:
  assumes "m (l @ c # t) = None"
    and "\<forall>d \<in> set l. \<not> is_lt d" and "is_lt c"
  shows "exec_all m True (l @ c # t) = exec_all m True t"
proof (cases l)
  case Nil
  with assms show ?thesis by (subst exec_all.simps) simp
next
  case (Cons d l')
  with assms have "exec_all m True (l @ c # t) = exec_all m False (l' @ c # t)"
    by (subst exec_all.simps) simp
  also have "\<dots> = exec_all m True t"
    using assms(2,3) Cons by (simp add: exec_all_skip_line)
  finally show ?thesis .
qed

end
