(* ===== verification/Cfg_Extract.thy ===== *)
theory Cfg_Extract
  imports Regex_Scan
begin

text \<open>
  The directive extractor of \<open>getFXServerPort\<close>
  (\<open>src/src/extras/helpers.js\<close>, lines 146--166).  The two regular
  expressions
  \<^verbatim>\<open>
  /^\s*sv_maxclients\s+(\d+).*$/gim
  /^\s*endpoint_add_(\w+)\s+["']?([0-9]{1,3}\.[0-9]{1,3}\.[0-9]{1,3}\.[0-9]{1,3})\:([0-9]{1,5})["']?.*$/gim
  \<close>
  are the parsers \<open>maxclients_p\<close> and \<open>endpoint_p\<close>, read left to right.
  Each quantifier is taken greedily and never given back; this is the
  backtracking matcher's first success, because in both expressions every
  quantified class is followed by a token that its class cannot match
  (\<open>\s*\<close> by a letter, \<open>\w+\<close> by \<open>\s\<close>, \<open>\s+\<close> by a quote or a digit,
  \<open>[0-9]{1,3}\<close> by a dot or a colon) or by \<open>["']?.*$\<close>, which matches from
  every position.  The endpoint object built in the loop is the record
  \<open>endpoint\<close>; \<open>extract_endpoints\<close> and \<open>extract_maxClients\<close> are the two
  while loops.
\<close>

section \<open>Data\<close>

text \<open>The object pushed by the endpoint loop (lines 154--159).\<close>

record endpoint =
  line :: string
  type :: string
  iface :: string
  port :: nat

definition is_quote :: "char \<Rightarrow> bool" where
  [js_char_defs]: "is_quote c \<longleftrightarrow> c = CHR 0x22 \<or> c = CHR 0x27"

section \<open>The endpoint regular expression\<close>

text \<open>\<open>([0-9]{1,3}\.[0-9]{1,3}\.[0-9]{1,3}\.[0-9]{1,3})\<close>, the text of the group.\<close>

definition p_ipv4 :: "string parser" where
  "p_ipv4 s = do {
     (a, s1) \<leftarrow> p_upto 3 is_digit s;
     (_, s2) \<leftarrow> p_char (CHR ''.'') s1;
     (b, s3) \<leftarrow> p_upto 3 is_digit s2;
     (_, s4) \<leftarrow> p_char (CHR ''.'') s3;
     (c, s5) \<leftarrow> p_upto 3 is_digit s4;
     (_, s6) \<leftarrow> p_char (CHR ''.'') s5;
     (d, s7) \<leftarrow> p_upto 3 is_digit s6;
     Some (a @ ''.'' @ b @ ''.'' @ c @ ''.'' @ d, s7)
   }"

text \<open>The whole expression; the result is the three groups.\<close>

definition endpoint_p :: "(string \<times> string \<times> string) parser" where
  "endpoint_p s = do {
     (_, s1) \<leftarrow> p_many is_ws s;
     (_, s2) \<leftarrow> p_lit_ci ''endpoint_add_'' s1;
     (ty, s3) \<leftarrow> p_many1 is_word s2;
     (_, s4) \<leftarrow> p_many1 is_ws s3;
     (_, s5) \<leftarrow> p_opt is_quote s4;
     (ip, s6) \<leftarrow> p_ipv4 s5;
     (_, s7) \<leftarrow> p_char (CHR '':'') s6;
     (pd, s8) \<leftarrow> p_upto 5 is_digit s7;
     (_, s9) \<leftarrow> p_opt is_quote s8;
     (_, s10) \<leftarrow> p_rest_of_line s9;
     Some ((ty, ip, pd), s10)
   }"

text \<open>
  One \<open>exec\<close> at a line start and the object built from its match:
  \<open>line: match[0].trim()\<close>, \<open>type: match[1].toLowerCase()\<close>,
  \<open>iface: match[2]\<close>, \<open>port: parseInt(match[3])\<close>.
\<close>

definition endpoint_match :: "endpoint matcher" where
  "endpoint_match =
     to_matcher endpoint_p
       (\<lambda>txt (ty, ip, pd). \<lparr>line = js_trim txt, type = map to_lower ty, iface = ip, port = dec_val pd\<rparr>)"

text \<open>The loop of lines 153--160.\<close>

definition extract_endpoints :: "string \<Rightarrow> endpoint list" where
  "extract_endpoints s = the (exec_all endpoint_match True s)"

section \<open>The max-clients regular expression\<close>

definition maxclients_p :: "string parser" where
  "maxclients_p s = do {
     (_, s1) \<leftarrow> p_many is_ws s;
     (_, s2) \<leftarrow> p_lit_ci ''sv_maxclients'' s1;
     (_, s3) \<leftarrow> p_many1 is_ws s2;
     (ds, s4) \<leftarrow> p_many1 is_digit s3;
     (_, s5) \<leftarrow> p_rest_of_line s4;
     Some (ds, s5)
   }"

text \<open>\<open>maxClients.push(parseInt(match[1]))\<close>.\<close>

definition maxclients_match :: "nat matcher" where
  "maxclients_match = to_matcher maxclients_p (\<lambda>txt ds. dec_val ds)"

text \<open>The loop of lines 161--163.\<close>

definition extract_maxClients :: "string \<Rightarrow> nat list" where
  "extract_maxClients s = the (exec_all maxclients_match True s)"

section \<open>Directive lines as they are written\<close>

text \<open>
  An IPv4 address written as a dotted quad, and the directive lines that the
  remediation messages of \<open>getFXServerPort\<close> ask the operator to write
  (lines 171 and 199--201): \<open>endpoint_add_<type> "<iface>:<port>"\<close> and
  \<open>sv_maxclients <n>\<close>.
\<close>

definition ip_text :: "nat \<Rightarrow> nat \<Rightarrow> nat \<Rightarrow> nat \<Rightarrow> string" where
  "ip_text a b c d =
     dec_string a @ ''.'' @ dec_string b @ ''.'' @ dec_string c @ ''.'' @ dec_string d"

definition endpoint_directive :: "string \<Rightarrow> string \<Rightarrow> nat \<Rightarrow> string" where
  "endpoint_directive ty ip p =
     ''endpoint_add_'' @ ty @ CHR '' '' # CHR 0x22 # ip @ CHR '':'' # dec_string p @ [CHR 0x22]"

definition maxclients_directive :: "nat \<Rightarrow> string" where
  "maxclients_directive n = ''sv_maxclients'' @ CHR '' '' # dec_string n"

text \<open>The property every extracted endpoint has.\<close>

definition wf_endpoint :: "endpoint \<Rightarrow> bool" where
  "wf_endpoint e \<longleftrightarrow>
     port e < 100000 \<and> type e \<noteq> [] \<and> (\<forall>c \<in> set (iface e). is_digit c \<or> c = CHR ''.'')"

text \<open>
  A configuration written as endpoint directive lines, each given by its
  transport, its four address bytes and its port.
\<close>

type_synonym endpoint_spec = "string \<times> (nat \<times> nat \<times> nat \<times> nat) \<times> nat"

definition valid_spec :: "endpoint_spec \<Rightarrow> bool" where
  "valid_spec = (\<lambda>(ty, (a, b, c, d), p). ty \<noteq> [] \<and> (\<forall>x \<in> set ty. is_word x)
     \<and> a < 1000 \<and> b < 1000 \<and> c < 1000 \<and> d < 1000 \<and> p < 100000)"

definition spec_line :: "endpoint_spec \<Rightarrow> string" where
  "spec_line = (\<lambda>(ty, (a, b, c, d), p). endpoint_directive ty (ip_text a b c d) p)"

definition spec_endpoint :: "endpoint_spec \<Rightarrow> endpoint" where
  "spec_endpoint = (\<lambda>(ty, (a, b, c, d), p).
     \<lparr>line = endpoint_directive ty (ip_text a b c d) p, type = map to_lower ty,
      iface = ip_text a b c d, port = p\<rparr>)"

definition directive_lines :: "endpoint_spec list \<Rightarrow> string" where
  "directive_lines ds = concat (map (\<lambda>d. spec_line d @ [CHR 0x0A]) ds)"

section \<open>The loops return\<close>

lemma ip_text_loopback: "ip_text 127 0 0 1 = ''127.0.0.1''"
  by (simp add: ip_text_def dec_string.simps)

lemma endpoint_p_shrinks: "endpoint_p s = Some (v, r) \<Longrightarrow> length r < length s"
  by (fastforce simp: endpoint_p_def p_ipv4_def bind_eq_Some_conv split: prod.splits
      dest!: parser_shrinks)

lemma maxclients_p_shrinks: "maxclients_p s = Some (v, r) \<Longrightarrow> length r < length s"
  by (fastforce simp: maxclients_p_def bind_eq_Some_conv split: prod.splits dest!: parser_shrinks)

lemma endpoint_match_consuming: "consuming endpoint_match"
  unfolding endpoint_match_def by (rule to_matcher_consuming) (rule endpoint_p_shrinks)

lemma maxclients_match_consuming: "consuming maxclients_match"
  unfolding maxclients_match_def by (rule to_matcher_consuming) (rule maxclients_p_shrinks)

lemma exec_endpoints [simp]: "exec_all endpoint_match True s = Some (extract_endpoints s)"
  using exec_all_total [OF endpoint_match_consuming] by (fastforce simp: extract_endpoints_def)

lemma exec_maxclients [simp]: "exec_all maxclients_match True s = Some (extract_maxClients s)"
  using exec_all_total [OF maxclients_match_consuming] by (fastforce simp: extract_maxClients_def)

section \<open>What the endpoint expression captures\<close>

lemma p_ipv4_out:
  "p_ipv4 s = Some (ip, r) \<Longrightarrow> \<forall>c \<in> set ip. is_digit c \<or> c = CHR ''.''"
  by (fastforce simp: p_ipv4_def bind_eq_Some_conv split: prod.splits dest!: parser_outputs)

lemma endpoint_p_out:
  assumes "endpoint_p s = Some ((ty, ip, pd), r)"
  shows "ty \<noteq> [] \<and> pd \<noteq> [] \<and> length pd \<le> 5 \<and> (\<forall>c \<in> set pd. is_digit c)
    \<and> (\<forall>c \<in> set ip. is_digit c \<or> c = CHR ''.'')"
  using assms
  by (fastforce simp: endpoint_p_def bind_eq_Some_conv split: prod.splits
      dest!: parser_outputs p_ipv4_out)

lemma endpoint_match_wf: "endpoint_match s = Some (e, n) \<Longrightarrow> wf_endpoint e"
proof -
  assume m: "endpoint_match s = Some (e, n)"
  then obtain ty ip pd r where p: "endpoint_p s = Some ((ty, ip, pd), r)"
    and e: "e = \<lparr>line = js_trim (take n s), type = map to_lower ty, iface = ip, port = dec_val pd\<rparr>"
    by (auto simp: endpoint_match_def to_matcher_def split: option.splits)
  from endpoint_p_out [OF p] have "dec_val pd < 10 ^ length pd" and "length pd \<le> 5"
    by (auto intro: dec_val_bound)
  then have "dec_val pd < 10 ^ 5"
    by (meson order_less_le_trans power_increasing zero_less_numeral one_le_numeral)
  with endpoint_p_out [OF p] show ?thesis by (simp add: wf_endpoint_def e)
qed

section \<open>Directive lines are read back\<close>

lemma js_char_facts [simp]:
  "\<not> is_digit (CHR ''.'')" "\<not> is_digit (CHR '':'')" "\<not> is_digit (CHR 0x22)"
  "\<not> is_word (CHR '' '')" "is_ws (CHR '' '')" "\<not> is_ws (CHR 0x22)" "is_quote (CHR 0x22)"
  "\<not> is_lt (CHR 0x22)" "\<not> is_ws (CHR ''e'')" "\<not> is_ws (CHR ''s'')" "is_lt (CHR 0x0A)"
  by (simp_all add: js_char_defs)

lemma dec_string_short:
  "n < 10 ^ k \<Longrightarrow> 0 < k \<Longrightarrow> dec_string n \<noteq> [] \<and> length (dec_string n) \<le> k
    \<and> (\<forall>c \<in> set (dec_string n). is_digit c)"
  by (simp add: length_dec_string dec_string_digits)

lemma p_ipv4_ip_text:
  assumes "a < 1000" "b < 1000" "c < 1000" "d < 1000" and t: "takeWhile is_digit t = []"
  shows "p_ipv4 (ip_text a b c d @ t) = Some (ip_text a b c d, t)"
proof -
  have three: "x < 1000 \<Longrightarrow> dec_string x \<noteq> [] \<and> length (dec_string x) \<le> 3
      \<and> (\<forall>c \<in> set (dec_string x). is_digit c)" for x :: nat
    by (rule dec_string_short) simp_all
  have split: "ip_text a b c d @ t = dec_string a @ CHR ''.'' # (dec_string b @ CHR ''.'' #
      (dec_string c @ CHR ''.'' # (dec_string d @ t)))"
    by (simp add: ip_text_def)
  have sa: "p_upto 3 is_digit (dec_string a @ CHR ''.'' # (dec_string b @ CHR ''.'' #
      (dec_string c @ CHR ''.'' # (dec_string d @ t)))) = Some (dec_string a, CHR ''.'' #
      (dec_string b @ CHR ''.'' # (dec_string c @ CHR ''.'' # (dec_string d @ t))))"
    using three [OF assms(1)] by (intro p_upto_append) simp_all
  have sb: "p_upto 3 is_digit (dec_string b @ CHR ''.'' # (dec_string c @ CHR ''.'' #
      (dec_string d @ t))) = Some (dec_string b, CHR ''.'' # (dec_string c @ CHR ''.'' #
      (dec_string d @ t)))"
    using three [OF assms(2)] by (intro p_upto_append) simp_all
  have sc: "p_upto 3 is_digit (dec_string c @ CHR ''.'' # (dec_string d @ t)) =
      Some (dec_string c, CHR ''.'' # (dec_string d @ t))"
    using three [OF assms(3)] by (intro p_upto_append) simp_all
  have sd: "p_upto 3 is_digit (dec_string d @ t) = Some (dec_string d, t)"
    using three [OF assms(4)] t by (intro p_upto_append) simp_all
  show ?thesis
    unfolding split p_ipv4_def
    by (simp only: sa sb sc sd p_char_Cons Option.bind_lunit case_prod_conv) (simp add: ip_text_def)
qed

lemma endpoint_p_directive:
  assumes ty: "ty \<noteq> []" "\<forall>c \<in> set ty. is_word c"
    and ip: "a < 1000" "b < 1000" "c < 1000" "d < 1000" and p: "p < 100000"
    and t: "takeWhile (\<lambda>c. \<not> is_lt c) t = []"
  shows "endpoint_p (endpoint_directive ty (ip_text a b c d) p @ t) =
    Some ((ty, ip_text a b c d, dec_string p), t)"
proof -
  let ?ip = "ip_text a b c d"
  let ?R7 = "CHR 0x22 # t"
  let ?R5 = "CHR '':'' # (dec_string p @ ?R7)"
  let ?R2 = "CHR '' '' # CHR 0x22 # (?ip @ ?R5)"
  have split: "endpoint_directive ty ?ip p @ t = ''endpoint_add_'' @ (ty @ ?R2)"
    by (simp add: endpoint_directive_def)
  have s1: "p_many is_ws (''endpoint_add_'' @ (ty @ ?R2)) = Some ([], ''endpoint_add_'' @ (ty @ ?R2))"
    by (rule p_many_stop) simp
  have s2: "p_lit_ci ''endpoint_add_'' (''endpoint_add_'' @ (ty @ ?R2)) = Some ((), ty @ ?R2)"
    by (rule p_lit_ci_append) (simp add: js_char_defs)
  have s3: "p_many1 is_word (ty @ ?R2) = Some (ty, ?R2)"
    using ty by (intro p_many1_append) simp_all
  have s4: "p_many1 is_ws ?R2 = Some ('' '', CHR 0x22 # (?ip @ ?R5))"
    by (rule p_many1_Cons) simp_all
  have s5: "p_opt is_quote (CHR 0x22 # (?ip @ ?R5)) = Some ((), ?ip @ ?R5)"
    by (rule p_opt_Cons) simp
  have s6: "p_ipv4 (?ip @ ?R5) = Some (?ip, ?R5)"
    using ip by (intro p_ipv4_ip_text) simp_all
  have s8: "p_upto 5 is_digit (dec_string p @ ?R7) = Some (dec_string p, ?R7)"
    using dec_string_short [of p 5] p by (intro p_upto_append) simp_all
  have s9: "p_opt is_quote ?R7 = Some ((), t)"
    by (rule p_opt_Cons) simp
  have s10: "p_rest_of_line t = Some ([], t)"
    using t by (rule p_rest_of_line_stop)
  show ?thesis
    unfolding split endpoint_p_def
    by (simp only: s1 s2 s3 s4 s5 s6 p_char_Cons s8 s9 s10 Option.bind_lunit case_prod_conv)
qed

lemma endpoint_directive_no_lt:
  "\<forall>c \<in> set ty. is_word c \<Longrightarrow>
   \<forall>x \<in> set (endpoint_directive ty (ip_text a b c d) p). \<not> is_lt x"
  by (auto simp: endpoint_directive_def ip_text_def) (simp_all add: is_lt_def)

lemma endpoint_match_directive:
  assumes "ty \<noteq> []" "\<forall>c \<in> set ty. is_word c"
    and "a < 1000" "b < 1000" "c < 1000" "d < 1000" and "p < 100000"
    and "takeWhile (\<lambda>c. \<not> is_lt c) t = []"
  shows "endpoint_match (endpoint_directive ty (ip_text a b c d) p @ t) =
    Some (\<lparr>line = endpoint_directive ty (ip_text a b c d) p, type = map to_lower ty,
           iface = ip_text a b c d, port = p\<rparr>, length (endpoint_directive ty (ip_text a b c d) p))"
proof -
  have "js_trim (endpoint_directive ty (ip_text a b c d) p) = endpoint_directive ty (ip_text a b c d) p"
    by (rule js_trim_id) (simp_all add: endpoint_directive_def)
  then show ?thesis
    using endpoint_p_directive [OF assms]
    by (simp add: endpoint_match_def to_matcher_def)
qed

lemma maxclients_match_directive:
  assumes t: "takeWhile (\<lambda>c. \<not> is_lt c) t = []"
  shows "maxclients_match (maxclients_directive n @ t) = Some (n, length (maxclients_directive n))"
proof -
  let ?R = "CHR '' '' # (dec_string n @ t)"
  have split: "maxclients_directive n @ t = ''sv_maxclients'' @ ?R"
    by (simp add: maxclients_directive_def)
  have s1: "p_many is_ws (''sv_maxclients'' @ ?R) = Some ([], ''sv_maxclients'' @ ?R)"
    by (rule p_many_stop) simp
  have s2: "p_lit_ci ''sv_maxclients'' (''sv_maxclients'' @ ?R) = Some ((), ?R)"
    by (rule p_lit_ci_append) (simp add: js_char_defs)
  have s3: "p_many1 is_ws ?R = Some ('' '', dec_string n @ t)"
    by (rule p_many1_Cons) (simp_all add: takeWhile_eq_Nil_iff is_digit_not_ws dec_string_digits)
  have s4: "p_many1 is_digit (dec_string n @ t) = Some (dec_string n, t)"
    using t by (intro p_many1_append) (simp_all add: dec_string_digits takeWhile_not_lt_digit)
  have "maxclients_p (maxclients_directive n @ t) = Some (dec_string n, t)"
    unfolding split maxclients_p_def
    by (simp only: s1 s2 s3 s4 p_rest_of_line_stop [OF t] Option.bind_lunit case_prod_conv)
  then show ?thesis by (simp add: maxclients_match_def to_matcher_def)
qed

lemma maxclients_match_endpoint_directive: "maxclients_match (endpoint_directive ty ip p @ t) = None"
  by (simp add: maxclients_match_def to_matcher_def maxclients_p_def endpoint_directive_def
      p_many_def p_lit_ci_def js_char_defs)

lemma endpoint_match_maxclients_directive: "endpoint_match (maxclients_directive n @ t) = None"
  by (simp add: endpoint_match_def to_matcher_def endpoint_p_def maxclients_directive_def
      p_many_def p_lit_ci_def js_char_defs)

lemma maxclients_directive_no_lt: "\<forall>x \<in> set (maxclients_directive n). \<not> is_lt x"
  by (auto simp: maxclients_directive_def) (simp_all add: is_lt_def)

section \<open>Extraction of configurations written line by line\<close>

lemma extract_endpoints_directive_line:
  assumes "ty \<noteq> []" "\<forall>c \<in> set ty. is_word c"
    and "a < 1000" "b < 1000" "c < 1000" "d < 1000" and "p < 100000"
  shows "extract_endpoints (endpoint_directive ty (ip_text a b c d) p @ CHR 0x0A # t) =
    \<lparr>line = endpoint_directive ty (ip_text a b c d) p, type = map to_lower ty,
     iface = ip_text a b c d, port = p\<rparr> # extract_endpoints t"
proof -
  have "endpoint_match (endpoint_directive ty (ip_text a b c d) p @ CHR 0x0A # t) =
    Some (\<lparr>line = endpoint_directive ty (ip_text a b c d) p, type = map to_lower ty,
           iface = ip_text a b c d, port = p\<rparr>, length (endpoint_directive ty (ip_text a b c d) p))"
    using assms by (intro endpoint_match_directive) simp_all
  from exec_all_match_line [where m = endpoint_match and t = t
      and l = "endpoint_directive ty (ip_text a b c d) p" and c = "CHR 0x0A",
      OF this] assms(2) show ?thesis
    by (simp add: endpoint_directive_no_lt endpoint_directive_def)
qed

lemma extract_maxClients_endpoint_line:
  "\<forall>c \<in> set ty. is_word c \<Longrightarrow>
   extract_maxClients (endpoint_directive ty (ip_text a b c d) p @ CHR 0x0A # t) = extract_maxClients t"
  using exec_all_reject_line [where m = maxclients_match and t = t
      and l = "endpoint_directive ty (ip_text a b c d) p" and c = "CHR 0x0A",
      OF maxclients_match_endpoint_directive endpoint_directive_no_lt]
  by simp

lemma extract_maxClients_directive_line:
  "extract_maxClients (maxclients_directive n @ CHR 0x0A # t) = n # extract_maxClients t"
proof -
  have "maxclients_match (maxclients_directive n @ CHR 0x0A # t) =
      Some (n, length (maxclients_directive n))"
    by (rule maxclients_match_directive) simp
  from exec_all_match_line [where m = maxclients_match and t = t
      and l = "maxclients_directive n" and c = "CHR 0x0A", OF this]
    maxclients_directive_no_lt show ?thesis
    by (simp add: maxclients_directive_def)
qed

lemma extract_endpoints_maxclients_line:
  "extract_endpoints (maxclients_directive n @ CHR 0x0A # t) = extract_endpoints t"
  using exec_all_reject_line [where m = endpoint_match and t = t
      and l = "maxclients_directive n" and c = "CHR 0x0A",
      OF endpoint_match_maxclients_directive maxclients_directive_no_lt]
  by simp

lemma directive_lines_Cons:
  "directive_lines (d # ds) @ t = spec_line d @ CHR 0x0A # (directive_lines ds @ t)"
  by (simp add: directive_lines_def)

lemma extract_endpoints_spec_line:
  "valid_spec d \<Longrightarrow> extract_endpoints (spec_line d @ CHR 0x0A # t) = spec_endpoint d # extract_endpoints t"
  by (cases d) (auto simp: valid_spec_def spec_line_def spec_endpoint_def
      intro!: extract_endpoints_directive_line)

text \<open>The definitions that evaluate an extraction on a concrete text.\<close>

lemmas extract_eval = extract_endpoints_def extract_maxClients_def exec_all.simps
  endpoint_match_def maxclients_match_def to_matcher_def endpoint_p_def maxclients_p_def p_ipv4_def
  p_many_def p_many1_def p_upto_def p_char_def p_opt_def p_lit_ci_def p_rest_of_line_def
  js_trim_def dec_val_def digit_val_def js_char_defs Let_def

section \<open>Properties of the extractor\<close>

text \<open>
  C5: Both \<open>while (match = regex.exec(rawCfgFile))\<close> loops of
  \<open>getFXServerPort\<close> return, from every scan position and on every text:
  no match of either expression is empty, so \<open>lastIndex\<close> always moves on.
\<close>

theorem extraction_loops_return:
  "(\<exists>r. exec_all endpoint_match bol s = Some r) \<and> (\<exists>r. exec_all maxclients_match bol s = Some r)"
  using exec_all_total [OF endpoint_match_consuming] exec_all_total [OF maxclients_match_consuming]
  by blast



text \<open>
  C4: Extraction preserves the order of the lines: a configuration written
  as endpoint directive lines, followed by any text, yields the records of
  those lines in order, then what the rest of the text yields.
\<close>

theorem extract_endpoints_lines:
  "\<forall>d \<in> set ds. valid_spec d \<Longrightarrow>
   extract_endpoints (directive_lines ds @ t) = map spec_endpoint ds @ extract_endpoints t"
proof (induction ds)
  case Nil
  then show ?case by (simp add: directive_lines_def)
next
  case (Cons d ds)
  then show ?case by (simp add: directive_lines_Cons extract_endpoints_spec_line)
qed

theorem extract_endpoints_lines_witness:
  "extract_endpoints (directive_lines [(''tcp'', (0, 0, 0, 0), 30120), (''UDP'', (127, 0, 0, 1), 30120)]
       @ ''sv_maxclients 32'')
     = map spec_endpoint [(''tcp'', (0, 0, 0, 0), 30120), (''UDP'', (127, 0, 0, 1), 30120)]
       @ extract_endpoints ''sv_maxclients 32''"
proof -
  have h: "\<forall>d \<in> set [(''tcp'', (0, 0, 0, 0), 30120), (''UDP'', (127, 0, 0, 1), 30120)]. valid_spec d"
    by (simp add: valid_spec_def js_char_defs)
  show ?thesis by (rule extract_endpoints_lines [OF h])
qed



end
