(* ===== verification/Cfg_Validate.thy ===== *)
theory Cfg_Validate
  imports Cfg_Extract
begin

text \<open>
  The policy checks of \<open>getFXServerPort\<close> (\<open>src/src/extras/helpers.js\<close>,
  lines 143--229) on the extracted endpoints and max-clients values, in the
  order of the code: the \<open>stop monitor\<close> check, the max-clients cap of the
  deployer defaults, one TCP and one UDP endpoint, one port for all
  endpoints, the range 40120--40130 reserved for txAdmin, and then either the
  forced interface and port of the hosting provider or a TCP endpoint on
  \<open>0.0.0.0\<close> or \<open>127.0.0.1\<close>.  The fields of \<open>GlobalData\<close> the function reads
  are the record \<open>global_data\<close>; each \<open>throw\<close> is a constructor of
  \<open>fx_error\<close> and \<open>fx_error_message\<close> is the message it carries.
\<close>

section \<open>Data\<close>

text \<open>
  \<open>GlobalData.deployerDefaults\<close>, \<open>GlobalData.forceInterface\<close> and
  \<open>GlobalData.forceFXServerPort\<close>; \<open>None\<close> is an absent (undefined) value.
\<close>

record deployer_defaults =
  maxClients :: "nat option"

record global_data =
  deployerDefaults :: "deployer_defaults option"
  forceInterface :: "string option"
  forceFXServerPort :: "nat option"

text \<open>One constructor per \<open>throw\<close> of \<open>getFXServerPort\<close>, in source order.\<close>

datatype fx_error =
    StopMonitor
  | RegexMatchError
  | MissingMaxClients nat
  | MaxClientsExceeded nat
  | MissingTCPEndpoint
  | MissingUDPEndpoint
  | PortMismatch
  | ReservedPort
  | ForcedPortMismatch
  | ForcedInterfaceMismatch string
  | MissingLoopback
  | MissingValidTCP

section \<open>The checks\<close>

text \<open>
  \<open>GlobalData.deployerDefaults && GlobalData.deployerDefaults.maxClients\<close>:
  the cap is in force when it is present and truthy, that is non-zero.
\<close>

definition active_max_clients :: "global_data \<Rightarrow> nat option" where
  "active_max_clients g =
     (case deployerDefaults g of
        None \<Rightarrow> None
      | Some dd \<Rightarrow> (case maxClients dd of None \<Rightarrow> None | Some n \<Rightarrow> if n = 0 then None else Some n))"

text \<open>\<open>if (GlobalData.forceInterface)\<close>: a present, non-empty string.\<close>

definition active_force_interface :: "global_data \<Rightarrow> string option" where
  "active_force_interface g =
     (case forceInterface g of None \<Rightarrow> None | Some i \<Rightarrow> if i = [] then None else Some i)"

text \<open>Lines 169--176.\<close>

definition check_max_clients :: "global_data \<Rightarrow> nat list \<Rightarrow> fx_error option" where
  "check_max_clients g mcs =
     (case active_max_clients g of
        None \<Rightarrow> None
      | Some cap \<Rightarrow>
          if mcs = [] then Some (MissingMaxClients cap)
          else if list_ex (\<lambda>mc. cap < mc) mcs then Some (MaxClientsExceeded cap)
          else None)"

text \<open>
  Lines 204--219, the branch where an interface is forced: the first port
  must be the forced one (a strict comparison, so an undefined forced port
  never matches), every endpoint must be on the forced interface or on
  loopback (the first offender is reported), and some TCP endpoint must be
  on loopback.
\<close>

definition check_forced_iface :: "string \<Rightarrow> nat option \<Rightarrow> endpoint list \<Rightarrow> nat \<Rightarrow> fx_error option" where
  "check_forced_iface fi fport eps firstPort =
     (if fport \<noteq> Some firstPort then Some ForcedPortMismatch
      else case find (\<lambda>m. iface m \<noteq> fi \<and> iface m \<noteq> ''127.0.0.1'') eps of
             Some bad \<Rightarrow> Some (ForcedInterfaceMismatch (iface bad))
           | None \<Rightarrow>
               if find (\<lambda>m. type m = ''tcp'' \<and> iface m = ''127.0.0.1'') eps = None
               then Some MissingLoopback else None)"

text \<open>
  Lines 168--228 on the extracted lists.  \<open>endpoints[0]\<close> is read only
  after a TCP endpoint was found, so the list is not empty there.
\<close>

definition validate_endpoints :: "global_data \<Rightarrow> endpoint list \<Rightarrow> nat list \<Rightarrow> fx_error + nat" where
  "validate_endpoints g eps mcs =
     (case check_max_clients g mcs of
        Some e \<Rightarrow> Inl e
      | None \<Rightarrow>
          if find (\<lambda>m. type m = ''tcp'') eps = None then Inl MissingTCPEndpoint
          else if find (\<lambda>m. type m = ''udp'') eps = None then Inl MissingUDPEndpoint
          else
            let firstPort = port (hd eps) in
            if list_ex (\<lambda>m. port m \<noteq> firstPort) eps then Inl PortMismatch
            else if 40120 \<le> firstPort \<and> firstPort \<le> 40130 then Inl ReservedPort
            else case active_force_interface g of
              Some fi \<Rightarrow>
                (case check_forced_iface fi (forceFXServerPort g) eps firstPort of
                   Some e \<Rightarrow> Inl e
                 | None \<Rightarrow> Inr firstPort)
            | None \<Rightarrow>
                if find (\<lambda>m. type m = ''tcp'' \<and> (iface m = ''0.0.0.0'' \<or> iface m = ''127.0.0.1'')) eps = None
                then Inl MissingValidTCP
                else Inr firstPort)"

text \<open>
  The whole function.  The \<open>try\<close> around the two loops (lines 151--166)
  catches nothing: \<open>exec\<close> on a string does not throw, and both loops return
  (\<open>exec_endpoints\<close>, \<open>exec_maxclients\<close>), so \<open>RegexMatchError\<close> is never
  produced.
\<close>

definition getFXServerPort :: "global_data \<Rightarrow> string \<Rightarrow> fx_error + nat" where
  "getFXServerPort g rawCfgFile =
     (if js_includes rawCfgFile ''stop monitor'' then Inl StopMonitor
      else validate_endpoints g (extract_endpoints rawCfgFile) (extract_maxClients rawCfgFile))"

section \<open>Messages\<close>

text \<open>\<open>${x}\<close> of a number that may be undefined.\<close>

definition js_num_text :: "nat option \<Rightarrow> string" where
  "js_num_text x = (case x of None \<Rightarrow> ''undefined'' | Some n \<Rightarrow> dec_string n)"

definition js_str_text :: "string option \<Rightarrow> string" where
  "js_str_text x = (case x of None \<Rightarrow> ''undefined'' | Some s \<Rightarrow> s)"

text \<open>\<open>stdMessage\<close>, lines 197--202: four lines joined by \<open>'\n<br>'\<close>.\<close>

definition std_message :: "global_data \<Rightarrow> string" where
  "std_message g =
     (let fi = js_str_text (forceInterface g); fp = js_num_text (forceFXServerPort g);
          sep = CHR 0x0A # ''<br>'' in
      ''Remove all lines containing <code>endpoint_add</code> and add the lines below to the top of your file.''
      @ sep @ ''<code>endpoint_add_tcp '' @ CHR 0x22 # ''127.0.0.1:'' @ fp @ [CHR 0x22]
      @ sep @ ''endpoint_add_tcp '' @ CHR 0x22 # fi @ CHR '':'' # fp @ [CHR 0x22]
      @ sep @ ''endpoint_add_udp '' @ CHR 0x22 # fi @ CHR '':'' # fp @ CHR 0x22 # '' </code>'')"

text \<open>
  The three directive lines \<open>stdMessage\<close> tells the operator to put at the
  top of the file (lines 199--201, without the HTML around them).
\<close>

definition forced_directives :: "string \<Rightarrow> nat \<Rightarrow> string" where
  "forced_directives fi fp =
     endpoint_directive ''tcp'' ''127.0.0.1'' fp @ CHR 0x0A # endpoint_directive ''tcp'' fi fp
     @ CHR 0x0A # endpoint_directive ''udp'' fi fp @ [CHR 0x0A]"

text \<open>
  The message of each \<open>throw\<close>.  Line 192 interpolates \<open>port\<close>, a name
  that is not bound in \<open>getFXServerPort\<close>: evaluating the template throws a
  \<open>ReferenceError\<close> first, and its message is what the caller receives.
\<close>

definition fx_error_message :: "global_data \<Rightarrow> fx_error \<Rightarrow> string" where
  "fx_error_message g e = (case e of
      StopMonitor \<Rightarrow> ''Remove '' @ CHR 0x22 # ''stop monitor'' @ CHR 0x22 # '' from your config''
    | RegexMatchError \<Rightarrow> ''Regex Match Error''
    | MissingMaxClients cap \<Rightarrow>
        ''Zap-Hosting: please add '' @ CHR 0x27 # ''sv_maxclients '' @ dec_string cap @ CHR 0x27
        # '' to your server.cfg.''
    | MaxClientsExceeded cap \<Rightarrow>
        ''Zap-Hosting: your '' @ CHR 0x27 # ''sv_maxclients'' @ CHR 0x27
        # '' MUST be less or equal than '' @ dec_string cap @ ''.''
    | MissingTCPEndpoint \<Rightarrow> ''You MUST have at least one <code>endpoint_add_tcp</code> in your config''
    | MissingUDPEndpoint \<Rightarrow> ''You MUST have at least one <code>endpoint_add_udp</code> in your config''
    | PortMismatch \<Rightarrow> ''All <code>endpoint_add_*</code> MUST have the same port''
    | ReservedPort \<Rightarrow> ''port is not defined''
    | ForcedPortMismatch \<Rightarrow>
        ''Zap-Hosting: invalid port found.<br>'' @ CHR 0x0A # '' '' @ std_message g
    | ForcedInterfaceMismatch i \<Rightarrow>
        ''Zap-Hosting: invalid interface '' @ CHR 0x27 # i @ CHR 0x27 # ''.<br>'' @ CHR 0x0A # std_message g
    | MissingLoopback \<Rightarrow>
        ''Zap-Hosting: missing interface '' @ CHR 0x27 # ''127.0.0.1'' @ CHR 0x27 # ''.'' @ CHR 0x0A
        # std_message g
    | MissingValidTCP \<Rightarrow> ''You MUST have one <code>endpoint_add_tcp</code> with IP 0.0.0.0 in your config'')"

section \<open>The contract\<close>

text \<open>
  What a successful call promises, as a declarative statement over the
  extracted lists: the rules of the code, unordered.
\<close>

definition fx_port_ok :: "global_data \<Rightarrow> endpoint list \<Rightarrow> nat list \<Rightarrow> nat \<Rightarrow> bool" where
  "fx_port_ok g eps mcs p \<longleftrightarrow>
     (case active_max_clients g of None \<Rightarrow> True | Some cap \<Rightarrow> mcs \<noteq> [] \<and> (\<forall>mc \<in> set mcs. mc \<le> cap))
     \<and> (\<exists>e \<in> set eps. type e = ''tcp'') \<and> (\<exists>e \<in> set eps. type e = ''udp'')
     \<and> (\<forall>e \<in> set eps. port e = p) \<and> \<not> (40120 \<le> p \<and> p \<le> 40130)
     \<and> (case active_force_interface g of
          Some fi \<Rightarrow> forceFXServerPort g = Some p
            \<and> (\<forall>e \<in> set eps. iface e = fi \<or> iface e = ''127.0.0.1'')
            \<and> (\<exists>e \<in> set eps. type e = ''tcp'' \<and> iface e = ''127.0.0.1'')
        | None \<Rightarrow> (\<exists>e \<in> set eps. type e = ''tcp'' \<and> (iface e = ''0.0.0.0'' \<or> iface e = ''127.0.0.1'')))"

section \<open>Lemmas on the checks\<close>

lemma check_max_clients_None:
  "check_max_clients g mcs = None \<longleftrightarrow>
     (case active_max_clients g of None \<Rightarrow> True | Some cap \<Rightarrow> mcs \<noteq> [] \<and> (\<forall>mc \<in> set mcs. mc \<le> cap))"
  by (auto simp: check_max_clients_def list_ex_iff not_le split: option.splits)

lemma check_forced_iface_None:
  "check_forced_iface fi fport eps p = None \<longleftrightarrow>
     fport = Some p \<and> (\<forall>e \<in> set eps. iface e = fi \<or> iface e = ''127.0.0.1'')
     \<and> (\<exists>e \<in> set eps. type e = ''tcp'' \<and> iface e = ''127.0.0.1'')"
  by (auto simp: check_forced_iface_def find_None_iff split: option.splits dest!: find_Some_mem)

lemma uniform_port_iff:
  "eps \<noteq> [] \<Longrightarrow> (\<forall>e \<in> set eps. port e = p) \<longleftrightarrow>
     p = port (hd eps) \<and> \<not> list_ex (\<lambda>m. port m \<noteq> port (hd eps)) eps"
  by (cases eps) (auto simp: list_ex_iff)

lemma std_message_directives:
  "forceInterface g = Some fi \<Longrightarrow> forceFXServerPort g = Some fp \<Longrightarrow>
   std_message g =
     ''Remove all lines containing <code>endpoint_add</code> and add the lines below to the top of your file.''
     @ CHR 0x0A # ''<br><code>'' @ endpoint_directive ''tcp'' ''127.0.0.1'' fp
     @ CHR 0x0A # ''<br>'' @ endpoint_directive ''tcp'' fi fp
     @ CHR 0x0A # ''<br>'' @ endpoint_directive ''udp'' fi fp @ '' </code>''"
  by (simp add: std_message_def endpoint_directive_def js_num_text_def js_str_text_def Let_def)

section \<open>The checks implement the contract\<close>

lemma validate_endpoints_Inr:
  assumes "validate_endpoints g eps mcs = Inr p"
  shows "fx_port_ok g eps mcs p"
proof -
  from assms have mc: "check_max_clients g mcs = None"
    by (auto simp: validate_endpoints_def split: option.splits)
  from assms mc obtain t u where "t \<in> set eps" "type t = ''tcp''" "u \<in> set eps" "type u = ''udp''"
    by (auto simp: validate_endpoints_def find_None_iff split: if_splits)
  then have ne: "eps \<noteq> []" by auto
  from assms mc have p: "p = port (hd eps)" and uni: "\<not> list_ex (\<lambda>m. port m \<noteq> port (hd eps)) eps"
    by (auto simp: validate_endpoints_def Let_def split: if_splits option.splits)
  with assms mc \<open>type t = _\<close> \<open>type u = _\<close> \<open>t \<in> _\<close> \<open>u \<in> _\<close> ne show ?thesis
    unfolding fx_port_ok_def
    by (auto simp: validate_endpoints_def check_max_clients_None [symmetric] check_forced_iface_None
        uniform_port_iff find_None_iff Let_def split: if_splits option.splits)
qed

lemma validate_endpoints_ok_Inr:
  assumes ok: "fx_port_ok g eps mcs p"
  shows "validate_endpoints g eps mcs = Inr p"
proof -
  from ok have mc: "check_max_clients g mcs = None"
    by (simp add: fx_port_ok_def check_max_clients_None)
  from ok have tcp: "find (\<lambda>m. type m = ''tcp'') eps \<noteq> None"
    and udp: "find (\<lambda>m. type m = ''udp'') eps \<noteq> None"
    by (auto simp: fx_port_ok_def find_None_iff)
  then have ne: "eps \<noteq> []" by auto
  with ok have p: "p = port (hd eps)" and uni: "\<not> list_ex (\<lambda>m. port m \<noteq> port (hd eps)) eps"
    by (simp_all add: fx_port_ok_def uniform_port_iff)
  from ok have res: "\<not> (40120 \<le> p \<and> p \<le> 40130)"
    by (simp add: fx_port_ok_def)
  show ?thesis
  proof (cases "active_force_interface g")
    case None
    with ok have "find (\<lambda>m. type m = ''tcp'' \<and> (iface m = ''0.0.0.0'' \<or> iface m = ''127.0.0.1'')) eps \<noteq> None"
      by (auto simp: fx_port_ok_def find_None_iff)
    with None mc tcp udp p uni res show ?thesis
      by (simp add: validate_endpoints_def Let_def)
  next
    case (Some fi)
    with ok p have "check_forced_iface fi (forceFXServerPort g) eps (port (hd eps)) = None"
      by (simp add: fx_port_ok_def check_forced_iface_None)
    with Some mc tcp udp p uni res show ?thesis
      by (simp add: validate_endpoints_def Let_def)
  qed
qed

lemmas validate_eval = getFXServerPort_def validate_endpoints_def check_max_clients_def
  active_max_clients_def active_force_interface_def check_forced_iface_def

text \<open>
  C2: The validator returns the port \<open>p\<close> exactly when the endpoints and
  max-clients values satisfy the contract \<open>fx_port_ok\<close>: the checks of
  lines 168--228 implement the rules of the specification, and reject
  nothing those rules allow.
\<close>

theorem validate_endpoints_contract:
  "validate_endpoints g eps mcs = Inr p \<longleftrightarrow> fx_port_ok g eps mcs p"
  using validate_endpoints_Inr validate_endpoints_ok_Inr by blast

theorem validate_endpoints_contract_witness:
  "validate_endpoints \<lparr>deployerDefaults = None, forceInterface = Some ''1.2.3.4'', forceFXServerPort = Some 30120\<rparr>
     [\<lparr>line = [], type = ''tcp'', iface = ''127.0.0.1'', port = 30120\<rparr>,
      \<lparr>line = [], type = ''tcp'', iface = ''1.2.3.4'', port = 30120\<rparr>,
      \<lparr>line = [], type = ''udp'', iface = ''1.2.3.4'', port = 30120\<rparr>] [] = Inr 30120"
proof -
  have h: "fx_port_ok \<lparr>deployerDefaults = None, forceInterface = Some ''1.2.3.4'', forceFXServerPort = Some 30120\<rparr>
     [\<lparr>line = [], type = ''tcp'', iface = ''127.0.0.1'', port = 30120\<rparr>,
      \<lparr>line = [], type = ''tcp'', iface = ''1.2.3.4'', port = 30120\<rparr>,
      \<lparr>line = [], type = ''udp'', iface = ''1.2.3.4'', port = 30120\<rparr>] [] 30120"
    by (simp add: fx_port_ok_def active_max_clients_def active_force_interface_def)
  show ?thesis using h validate_endpoints_contract by blast
qed

text \<open>
  C8: Under a max-clients cap, a configuration without any
  \<open>sv_maxclients\<close> directive is rejected with the missing-directive error,
  whatever its endpoints are (the cap is checked first).
\<close>

theorem validate_missing_max_clients:
  "active_max_clients g = Some cap \<Longrightarrow> validate_endpoints g eps [] = Inl (MissingMaxClients cap)"
  by (simp add: validate_endpoints_def check_max_clients_def)

theorem validate_missing_max_clients_witness:
  "active_max_clients \<lparr>deployerDefaults = Some \<lparr>maxClients = Some 48\<rparr>, forceInterface = None,
      forceFXServerPort = None\<rparr> = Some 48
   \<and> validate_endpoints \<lparr>deployerDefaults = Some \<lparr>maxClients = Some 48\<rparr>, forceInterface = None,
      forceFXServerPort = None\<rparr> [\<lparr>line = [], type = ''tcp'', iface = ''0.0.0.0'', port = 30120\<rparr>] []
     = Inl (MissingMaxClients 48)"
proof -
  have h: "active_max_clients \<lparr>deployerDefaults = Some \<lparr>maxClients = Some 48\<rparr>, forceInterface = None,
      forceFXServerPort = None\<rparr> = Some 48"
    by (simp add: active_max_clients_def)
  show ?thesis using h validate_missing_max_clients [OF h] by blast
qed

text \<open>
  C9: Under a max-clients cap, any \<open>sv_maxclients\<close> value above the cap
  rejects the configuration, whatever its endpoints are.
\<close>

theorem validate_max_clients_exceeded:
  "active_max_clients g = Some cap \<Longrightarrow> mc \<in> set mcs \<Longrightarrow> cap < mc \<Longrightarrow>
   validate_endpoints g eps mcs = Inl (MaxClientsExceeded cap)"
  by (auto simp: validate_endpoints_def check_max_clients_def list_ex_iff)

theorem validate_max_clients_exceeded_witness:
  "active_max_clients \<lparr>deployerDefaults = Some \<lparr>maxClients = Some 48\<rparr>, forceInterface = None,
      forceFXServerPort = None\<rparr> = Some 48 \<and> (64::nat) \<in> set [32, 64] \<and> (48::nat) < 64
   \<and> validate_endpoints \<lparr>deployerDefaults = Some \<lparr>maxClients = Some 48\<rparr>, forceInterface = None,
      forceFXServerPort = None\<rparr> [] [32, 64] = Inl (MaxClientsExceeded 48)"
proof -
  have h: "active_max_clients \<lparr>deployerDefaults = Some \<lparr>maxClients = Some 48\<rparr>, forceInterface = None,
      forceFXServerPort = None\<rparr> = Some 48"
    by (simp add: active_max_clients_def)
  have "(64::nat) \<in> set [32, 64]" "(48::nat) < 64" by simp_all
  with h show ?thesis using validate_max_clients_exceeded [OF h] by blast
qed

text \<open>
  C10: When the cap passes and both transports are present, an endpoint
  whose port differs from the first endpoint's port rejects the
  configuration with the port-mismatch error.
\<close>

theorem validate_port_mismatch:
  "check_max_clients g mcs = None \<Longrightarrow> t \<in> set eps \<Longrightarrow> type t = ''tcp'' \<Longrightarrow>
   u \<in> set eps \<Longrightarrow> type u = ''udp'' \<Longrightarrow> e \<in> set eps \<Longrightarrow> port e \<noteq> port (hd eps) \<Longrightarrow>
   validate_endpoints g eps mcs = Inl PortMismatch"
  by (auto simp: validate_endpoints_def find_None_iff list_ex_iff Let_def)

theorem validate_port_mismatch_witness:
  "check_max_clients \<lparr>deployerDefaults = None, forceInterface = None, forceFXServerPort = None\<rparr> [] = None \<and> \<lparr>line = [], type = ''tcp'', iface = ''0.0.0.0'', port = 30120\<rparr> \<in> set [\<lparr>line = [], type = ''tcp'', iface = ''0.0.0.0'', port = 30120\<rparr>, \<lparr>line = [], type = ''udp'', iface = ''0.0.0.0'', port = 30120\<rparr>, \<lparr>line = [], type = ''udp'', iface = ''0.0.0.0'', port = 30121\<rparr>] \<and> \<lparr>line = [], type = ''udp'', iface = ''0.0.0.0'', port = 30120\<rparr> \<in> set [\<lparr>line = [], type = ''tcp'', iface = ''0.0.0.0'', port = 30120\<rparr>, \<lparr>line = [], type = ''udp'', iface = ''0.0.0.0'', port = 30120\<rparr>, \<lparr>line = [], type = ''udp'', iface = ''0.0.0.0'', port = 30121\<rparr>] \<and> \<lparr>line = [], type = ''udp'', iface = ''0.0.0.0'', port = 30121\<rparr> \<in> set [\<lparr>line = [], type = ''tcp'', iface = ''0.0.0.0'', port = 30120\<rparr>, \<lparr>line = [], type = ''udp'', iface = ''0.0.0.0'', port = 30120\<rparr>, \<lparr>line = [], type = ''udp'', iface = ''0.0.0.0'', port = 30121\<rparr>]
   \<and> port \<lparr>line = [], type = ''udp'', iface = ''0.0.0.0'', port = 30121\<rparr> \<noteq> port (hd [\<lparr>line = [], type = ''tcp'', iface = ''0.0.0.0'', port = 30120\<rparr>, \<lparr>line = [], type = ''udp'', iface = ''0.0.0.0'', port = 30120\<rparr>, \<lparr>line = [], type = ''udp'', iface = ''0.0.0.0'', port = 30121\<rparr>]) \<and> validate_endpoints \<lparr>deployerDefaults = None, forceInterface = None, forceFXServerPort = None\<rparr> [\<lparr>line = [], type = ''tcp'', iface = ''0.0.0.0'', port = 30120\<rparr>, \<lparr>line = [], type = ''udp'', iface = ''0.0.0.0'', port = 30120\<rparr>, \<lparr>line = [], type = ''udp'', iface = ''0.0.0.0'', port = 30121\<rparr>] [] = Inl PortMismatch"
proof -
  have h: "check_max_clients \<lparr>deployerDefaults = None, forceInterface = None, forceFXServerPort = None\<rparr> [] = None" "\<lparr>line = [], type = ''tcp'', iface = ''0.0.0.0'', port = 30120\<rparr> \<in> set [\<lparr>line = [], type = ''tcp'', iface = ''0.0.0.0'', port = 30120\<rparr>, \<lparr>line = [], type = ''udp'', iface = ''0.0.0.0'', port = 30120\<rparr>, \<lparr>line = [], type = ''udp'', iface = ''0.0.0.0'', port = 30121\<rparr>]" "type \<lparr>line = [], type = ''tcp'', iface = ''0.0.0.0'', port = 30120\<rparr> = ''tcp''"
    "\<lparr>line = [], type = ''udp'', iface = ''0.0.0.0'', port = 30120\<rparr> \<in> set [\<lparr>line = [], type = ''tcp'', iface = ''0.0.0.0'', port = 30120\<rparr>, \<lparr>line = [], type = ''udp'', iface = ''0.0.0.0'', port = 30120\<rparr>, \<lparr>line = [], type = ''udp'', iface = ''0.0.0.0'', port = 30121\<rparr>]" "type \<lparr>line = [], type = ''udp'', iface = ''0.0.0.0'', port = 30120\<rparr> = ''udp''" "\<lparr>line = [], type = ''udp'', iface = ''0.0.0.0'', port = 30121\<rparr> \<in> set [\<lparr>line = [], type = ''tcp'', iface = ''0.0.0.0'', port = 30120\<rparr>, \<lparr>line = [], type = ''udp'', iface = ''0.0.0.0'', port = 30120\<rparr>, \<lparr>line = [], type = ''udp'', iface = ''0.0.0.0'', port = 30121\<rparr>]" "port \<lparr>line = [], type = ''udp'', iface = ''0.0.0.0'', port = 30121\<rparr> \<noteq> port (hd [\<lparr>line = [], type = ''tcp'', iface = ''0.0.0.0'', port = 30120\<rparr>, \<lparr>line = [], type = ''udp'', iface = ''0.0.0.0'', port = 30120\<rparr>, \<lparr>line = [], type = ''udp'', iface = ''0.0.0.0'', port = 30121\<rparr>])"
    by (simp_all add: check_max_clients_def active_max_clients_def)
  show ?thesis using h validate_port_mismatch [OF h] by blast
qed

text \<open>
  C11: A uniform port inside the block 40120--40130 reserved for txAdmin is
  rejected, even when every other rule passes.
\<close>

theorem validate_reserved_port:
  "check_max_clients g mcs = None \<Longrightarrow> t \<in> set eps \<Longrightarrow> type t = ''tcp'' \<Longrightarrow>
   u \<in> set eps \<Longrightarrow> type u = ''udp'' \<Longrightarrow> \<forall>e \<in> set eps. port e = p \<Longrightarrow>
   40120 \<le> p \<Longrightarrow> p \<le> 40130 \<Longrightarrow> validate_endpoints g eps mcs = Inl ReservedPort"
proof -
  assume mc: "check_max_clients g mcs = None" and "t \<in> set eps" "type t = ''tcp''"
    and "u \<in> set eps" "type u = ''udp''" and uni: "\<forall>e \<in> set eps. port e = p"
    and lo: "40120 \<le> p" and hi: "p \<le> 40130"
  then have tcp: "find (\<lambda>m. type m = ''tcp'') eps \<noteq> None"
    and udp: "find (\<lambda>m. type m = ''udp'') eps \<noteq> None" and ne: "eps \<noteq> []"
    by (auto simp: find_None_iff)
  from ne uni have "p = port (hd eps)" and "\<not> list_ex (\<lambda>m. port m \<noteq> port (hd eps)) eps"
    by (simp_all add: uniform_port_iff)
  with mc tcp udp lo hi show ?thesis by (simp add: validate_endpoints_def Let_def)
qed

theorem validate_reserved_port_witness:
  "validate_endpoints \<lparr>deployerDefaults = None, forceInterface = None, forceFXServerPort = None\<rparr> [\<lparr>line = [], type = ''tcp'', iface = ''0.0.0.0'', port = 40125\<rparr>, \<lparr>line = [], type = ''udp'', iface = ''0.0.0.0'', port = 40125\<rparr>] [] = Inl ReservedPort"
proof -
  have h: "check_max_clients \<lparr>deployerDefaults = None, forceInterface = None, forceFXServerPort = None\<rparr> [] = None" "\<lparr>line = [], type = ''tcp'', iface = ''0.0.0.0'', port = 40125\<rparr> \<in> set [\<lparr>line = [], type = ''tcp'', iface = ''0.0.0.0'', port = 40125\<rparr>, \<lparr>line = [], type = ''udp'', iface = ''0.0.0.0'', port = 40125\<rparr>]" "type \<lparr>line = [], type = ''tcp'', iface = ''0.0.0.0'', port = 40125\<rparr> = ''tcp''"
    "\<lparr>line = [], type = ''udp'', iface = ''0.0.0.0'', port = 40125\<rparr> \<in> set [\<lparr>line = [], type = ''tcp'', iface = ''0.0.0.0'', port = 40125\<rparr>, \<lparr>line = [], type = ''udp'', iface = ''0.0.0.0'', port = 40125\<rparr>]" "type \<lparr>line = [], type = ''udp'', iface = ''0.0.0.0'', port = 40125\<rparr> = ''udp''" "\<forall>e \<in> set [\<lparr>line = [], type = ''tcp'', iface = ''0.0.0.0'', port = 40125\<rparr>, \<lparr>line = [], type = ''udp'', iface = ''0.0.0.0'', port = 40125\<rparr>]. port e = 40125"
    "(40120::nat) \<le> 40125" "(40125::nat) \<le> 40130"
    by (simp_all add: check_max_clients_def active_max_clients_def)
  show ?thesis using h validate_reserved_port [OF h] by blast
qed

text \<open>
  C12: Under a forced interface, with the forced port in use, the first
  endpoint bound to neither the forced interface nor loopback is the one the
  error names.
\<close>

theorem validate_first_bad_interface:
  "check_max_clients g mcs = None \<Longrightarrow> t \<in> set eps \<Longrightarrow> type t = ''tcp'' \<Longrightarrow>
   u \<in> set eps \<Longrightarrow> type u = ''udp'' \<Longrightarrow> \<forall>e \<in> set eps. port e = p \<Longrightarrow>
   \<not> (40120 \<le> p \<and> p \<le> 40130) \<Longrightarrow> active_force_interface g = Some fi \<Longrightarrow>
   forceFXServerPort g = Some p \<Longrightarrow> eps = pre @ bad # post \<Longrightarrow>
   \<forall>e \<in> set pre. iface e = fi \<or> iface e = ''127.0.0.1'' \<Longrightarrow>
   iface bad \<noteq> fi \<Longrightarrow> iface bad \<noteq> ''127.0.0.1'' \<Longrightarrow>
   validate_endpoints g eps mcs = Inl (ForcedInterfaceMismatch (iface bad))"
proof -
  assume mc: "check_max_clients g mcs = None" and "t \<in> set eps" "type t = ''tcp''"
    and "u \<in> set eps" "type u = ''udp''" and uni: "\<forall>e \<in> set eps. port e = p"
    and res: "\<not> (40120 \<le> p \<and> p \<le> 40130)" and fi: "active_force_interface g = Some fi"
    and fp: "forceFXServerPort g = Some p" and eps: "eps = pre @ bad # post"
    and pre: "\<forall>e \<in> set pre. iface e = fi \<or> iface e = ''127.0.0.1''"
    and b1: "iface bad \<noteq> fi" and b2: "iface bad \<noteq> ''127.0.0.1''"
  then have tcp: "find (\<lambda>m. type m = ''tcp'') eps \<noteq> None"
    and udp: "find (\<lambda>m. type m = ''udp'') eps \<noteq> None" and ne: "eps \<noteq> []"
    by (auto simp: find_None_iff)
  from ne uni have p: "p = port (hd eps)" and u: "\<not> list_ex (\<lambda>m. port m \<noteq> port (hd eps)) eps"
    by (simp_all add: uniform_port_iff)
  from pre b1 b2 have "find (\<lambda>m. iface m \<noteq> fi \<and> iface m \<noteq> ''127.0.0.1'') eps = Some bad"
    unfolding eps by (induction pre) auto
  with fp p have "check_forced_iface fi (forceFXServerPort g) eps (port (hd eps)) =
      Some (ForcedInterfaceMismatch (iface bad))"
    by (simp add: check_forced_iface_def)
  with mc tcp udp p u res fi show ?thesis by (simp add: validate_endpoints_def Let_def)
qed

theorem validate_first_bad_interface_witness:
  "validate_endpoints \<lparr>deployerDefaults = None, forceInterface = Some ''1.2.3.4'', forceFXServerPort = Some 30120\<rparr> ([\<lparr>line = [], type = ''tcp'', iface = ''127.0.0.1'', port = 30120\<rparr>] @ \<lparr>line = [], type = ''udp'', iface = ''9.9.9.9'', port = 30120\<rparr> # [\<lparr>line = [], type = ''udp'', iface = ''8.8.8.8'', port = 30120\<rparr>]) [] = Inl (ForcedInterfaceMismatch ''9.9.9.9'')"
proof -
  have h: "check_max_clients \<lparr>deployerDefaults = None, forceInterface = Some ''1.2.3.4'', forceFXServerPort = Some 30120\<rparr> [] = None" "\<lparr>line = [], type = ''tcp'', iface = ''127.0.0.1'', port = 30120\<rparr> \<in> set ([\<lparr>line = [], type = ''tcp'', iface = ''127.0.0.1'', port = 30120\<rparr>] @ \<lparr>line = [], type = ''udp'', iface = ''9.9.9.9'', port = 30120\<rparr> # [\<lparr>line = [], type = ''udp'', iface = ''8.8.8.8'', port = 30120\<rparr>])" "type \<lparr>line = [], type = ''tcp'', iface = ''127.0.0.1'', port = 30120\<rparr> = ''tcp''"
    "\<lparr>line = [], type = ''udp'', iface = ''9.9.9.9'', port = 30120\<rparr> \<in> set ([\<lparr>line = [], type = ''tcp'', iface = ''127.0.0.1'', port = 30120\<rparr>] @ \<lparr>line = [], type = ''udp'', iface = ''9.9.9.9'', port = 30120\<rparr> # [\<lparr>line = [], type = ''udp'', iface = ''8.8.8.8'', port = 30120\<rparr>])" "type \<lparr>line = [], type = ''udp'', iface = ''9.9.9.9'', port = 30120\<rparr> = ''udp''"
    "\<forall>e \<in> set ([\<lparr>line = [], type = ''tcp'', iface = ''127.0.0.1'', port = 30120\<rparr>] @ \<lparr>line = [], type = ''udp'', iface = ''9.9.9.9'', port = 30120\<rparr> # [\<lparr>line = [], type = ''udp'', iface = ''8.8.8.8'', port = 30120\<rparr>]). port e = 30120" "\<not> (40120 \<le> (30120::nat) \<and> (30120::nat) \<le> 40130)"
    "active_force_interface \<lparr>deployerDefaults = None, forceInterface = Some ''1.2.3.4'', forceFXServerPort = Some 30120\<rparr> = Some ''1.2.3.4''" "forceFXServerPort \<lparr>deployerDefaults = None, forceInterface = Some ''1.2.3.4'', forceFXServerPort = Some 30120\<rparr> = Some 30120"
    "[\<lparr>line = [], type = ''tcp'', iface = ''127.0.0.1'', port = 30120\<rparr>] @ \<lparr>line = [], type = ''udp'', iface = ''9.9.9.9'', port = 30120\<rparr> # [\<lparr>line = [], type = ''udp'', iface = ''8.8.8.8'', port = 30120\<rparr>] = [\<lparr>line = [], type = ''tcp'', iface = ''127.0.0.1'', port = 30120\<rparr>] @ \<lparr>line = [], type = ''udp'', iface = ''9.9.9.9'', port = 30120\<rparr> # [\<lparr>line = [], type = ''udp'', iface = ''8.8.8.8'', port = 30120\<rparr>]"
    "\<forall>e \<in> set [\<lparr>line = [], type = ''tcp'', iface = ''127.0.0.1'', port = 30120\<rparr>]. iface e = ''1.2.3.4'' \<or> iface e = ''127.0.0.1''"
    "iface \<lparr>line = [], type = ''udp'', iface = ''9.9.9.9'', port = 30120\<rparr> \<noteq> ''1.2.3.4''" "iface \<lparr>line = [], type = ''udp'', iface = ''9.9.9.9'', port = 30120\<rparr> \<noteq> ''127.0.0.1''"
    by (simp_all add: check_max_clients_def active_max_clients_def active_force_interface_def)
  show ?thesis using validate_first_bad_interface [OF h] by simp
qed

text \<open>
  C13: When an interface is forced but \<open>GlobalData.forceFXServerPort\<close> is
  undefined, no configuration is accepted: the strict comparison of line 205
  fails for every port.
\<close>

theorem forced_port_undefined_rejects:
  "active_force_interface g = Some fi \<Longrightarrow> forceFXServerPort g = None \<Longrightarrow>
   validate_endpoints g eps mcs \<noteq> Inr p"
  using validate_endpoints_Inr by (fastforce simp: fx_port_ok_def)

theorem forced_port_undefined_rejects_witness:
  "active_force_interface \<lparr>deployerDefaults = None, forceInterface = Some ''1.2.3.4'', forceFXServerPort = None\<rparr> = Some ''1.2.3.4'' \<and> forceFXServerPort \<lparr>deployerDefaults = None, forceInterface = Some ''1.2.3.4'', forceFXServerPort = None\<rparr> = None
   \<and> validate_endpoints \<lparr>deployerDefaults = None, forceInterface = Some ''1.2.3.4'', forceFXServerPort = None\<rparr> [\<lparr>line = [], type = ''tcp'', iface = ''127.0.0.1'', port = 30120\<rparr>, \<lparr>line = [], type = ''tcp'', iface = ''1.2.3.4'', port = 30120\<rparr>, \<lparr>line = [], type = ''udp'', iface = ''1.2.3.4'', port = 30120\<rparr>] [] \<noteq> Inr 30120"
proof -
  have h: "active_force_interface \<lparr>deployerDefaults = None, forceInterface = Some ''1.2.3.4'', forceFXServerPort = None\<rparr> = Some ''1.2.3.4''" "forceFXServerPort \<lparr>deployerDefaults = None, forceInterface = Some ''1.2.3.4'', forceFXServerPort = None\<rparr> = None"
    by (simp_all add: active_force_interface_def)
  show ?thesis using h forced_port_undefined_rejects [OF h] by blast
qed

text \<open>
  C16: A max-clients cap of 0 is no cap: \<open>deployerDefaults.maxClients\<close> is
  tested for truthiness, so the validator behaves as if no deployer defaults
  were set.
\<close>

theorem zero_cap_is_no_cap:
  "deployerDefaults g = Some dd \<Longrightarrow> maxClients dd = Some 0 \<Longrightarrow>
   validate_endpoints g eps mcs = validate_endpoints (g\<lparr>deployerDefaults := None\<rparr>) eps mcs"
proof -
  assume "deployerDefaults g = Some dd" "maxClients dd = Some 0"
  then have "check_max_clients g mcs = None" "check_max_clients (g\<lparr>deployerDefaults := None\<rparr>) mcs = None"
    by (simp_all add: check_max_clients_def active_max_clients_def)
  moreover have "active_force_interface (g\<lparr>deployerDefaults := None\<rparr>) = active_force_interface g"
    by (simp add: active_force_interface_def)
  ultimately show ?thesis unfolding validate_endpoints_def by (simp add: Let_def split: option.splits)
qed

theorem zero_cap_is_no_cap_witness:
  "validate_endpoints \<lparr>deployerDefaults = Some \<lparr>maxClients = Some 0\<rparr>, forceInterface = None, forceFXServerPort = None\<rparr> [] [64] = validate_endpoints (\<lparr>deployerDefaults = Some \<lparr>maxClients = Some 0\<rparr>, forceInterface = None, forceFXServerPort = None\<rparr>\<lparr>deployerDefaults := None\<rparr>) [] [64]"
proof -
  have h: "deployerDefaults \<lparr>deployerDefaults = Some \<lparr>maxClients = Some 0\<rparr>, forceInterface = None, forceFXServerPort = None\<rparr> = Some \<lparr>maxClients = Some 0\<rparr>" "maxClients \<lparr>maxClients = Some (0::nat)\<rparr> = Some 0"
    by simp_all
  show ?thesis using zero_cap_is_no_cap [OF h] by blast
qed

end
