(* ===== verification/Schedule.thy ===== *)
theory Schedule
  imports Prelude
begin

text \<open>
  \<open>parseSchedule(schedule, filter = true)\<close> of \<open>src/src/extras/helpers.js\<close>
  (lines 66--85): the restart schedule of the monitor, a comma separated string
  or an array of strings, read into objects \<open>{string, hour, minute}\<close>.  Each
  non-empty item is trimmed and run once through
  \<open>/^$|^([01]?[0-9]|2[0-3]):([0-5][0-9])$/gm\<close>; the first match (first start
  position, first alternative, first choice of the optional \<open>[01]\<close>) gives the
  object, where \<open>parseInt\<close> of an unmatched group is \<open>NaN\<close> (\<^const>\<open>None\<close>).
  Items with no match are dropped, or kept verbatim when \<open>filter\<close> is false.
  The assignment \<open>times = ...\<close> has no declaration, so it writes a global
  variable; the model returns the global object updated.
\<close>

section \<open>Data\<close>

text \<open>The argument: a string or an array of strings (line 67 tests \<open>typeof\<close>).\<close>

datatype schedule_input = SchedString string | SchedArray "string list"

text \<open>The pushed object; \<^const>\<open>None\<close> is \<open>NaN\<close>.\<close>

record sched_time =
  string :: string
  hour :: "nat option"
  minute :: "nat option"

text \<open>An entry of \<open>out\<close>: a parsed object, or the raw item when \<open>filter\<close> is false.\<close>

datatype sched_entry = Parsed sched_time | Raw string

text \<open>The global object, of which \<open>parseSchedule\<close> writes the property \<open>times\<close>.\<close>

record js_globals =
  times :: "string list option"

section \<open>The regular expression\<close>

text \<open>
  Character ranges and the multiline \<open>$\<close> (end of input or before a line
  terminator).  \<open>hour_alts\<close> lists, in backtracking order, the ways the
  hour group \<open>([01]?[0-9]|2[0-3])\<close> matches at the start of a string: the
  optional \<open>[01]\<close> taken, then not taken, then the second alternative.
  \<open>minute_tail\<close> is the rest \<open>:([0-5][0-9])$\<close>.  \<open>sched_at\<close>
  tries \<open>^$\<close> first, then the first hour choice whose continuation matches;
  \<open>sched_exec\<close> is \<open>exec\<close> from \<open>lastIndex\<close> 0: every start position in
  turn, the anchor \<open>^\<close> holding at the start and after a line terminator.
\<close>

definition in_range :: "nat \<Rightarrow> nat \<Rightarrow> char \<Rightarrow> bool" where
  "in_range lo hi c \<longleftrightarrow> lo \<le> of_char c \<and> of_char c \<le> hi"

definition is_eol :: "string \<Rightarrow> bool" where
  "is_eol s \<longleftrightarrow> s = [] \<or> is_lt (hd s)"

fun hour_alts :: "string \<Rightarrow> (string \<times> string) list" where
  "hour_alts (a # b # r) =
     (if in_range 48 49 a \<and> is_digit b then [([a, b], r)] else [])
     @ (if is_digit a then [([a], b # r)] else [])
     @ (if a = CHR ''2'' \<and> in_range 48 51 b then [([a, b], r)] else [])"
| "hour_alts [a] = (if is_digit a then [([a], [])] else [])"
| "hour_alts [] = []"

fun minute_tail :: "string \<Rightarrow> string option" where
  "minute_tail (c # m1 # m2 # rest) =
     (if c = CHR '':'' \<and> in_range 48 53 m1 \<and> is_digit m2 \<and> is_eol rest then Some [m1, m2] else None)"
| "minute_tail _ = None"

type_synonym sched_match = "string \<times> (string \<times> string) option"

definition sched_at :: "string \<Rightarrow> sched_match option" where
  "sched_at s =
     (if is_eol s then Some ([], None)
      else (case List.map_filter (\<lambda>(h, r). map_option (\<lambda>mm. (h, mm)) (minute_tail r)) (hour_alts s) of
              [] \<Rightarrow> None
            | (h, mm) # _ \<Rightarrow> Some (h @ CHR '':'' # mm, Some (h, mm))))"

fun sched_exec :: "bool \<Rightarrow> string \<Rightarrow> sched_match option" where
  "sched_exec bol s =
     (case (if bol then sched_at s else None) of
        Some r \<Rightarrow> Some r
      | None \<Rightarrow> (case s of [] \<Rightarrow> None | c # cs \<Rightarrow> sched_exec (is_lt c) cs))"

section \<open>parseSchedule\<close>

text \<open>
  The object pushed for a match (lines 76--80), the body of the \<open>forEach\<close>
  callback for one item (lines 69--82), the items (line 67) and the function,
  whose \<open>forEach\<close> with \<open>out.push\<close> is a left fold.
\<close>

definition sched_time_of :: "sched_match \<Rightarrow> sched_time" where
  "sched_time_of mt = (case mt of (m0, g) \<Rightarrow>
     \<lparr>string = m0, hour = map_option (dec_val \<circ> fst) g, minute = map_option (dec_val \<circ> snd) g\<rparr>)"

definition sched_item :: "bool \<Rightarrow> string \<Rightarrow> sched_entry list" where
  "sched_item filter_on time =
     (if time = [] then []
      else (case sched_exec True (js_trim time) of
              None \<Rightarrow> (if filter_on then [] else [Raw time])
            | Some mt \<Rightarrow> [Parsed (sched_time_of mt)]))"

definition schedule_items :: "schedule_input \<Rightarrow> string list" where
  "schedule_items schedule = (case schedule of SchedString s \<Rightarrow> js_split CHR '','' s | SchedArray a \<Rightarrow> a)"

definition parseSchedule :: "js_globals \<Rightarrow> schedule_input \<Rightarrow> bool \<Rightarrow> js_globals \<times> sched_entry list" where
  "parseSchedule g schedule filter_on =
     (let ts = schedule_items schedule
      in (g\<lparr>times := Some ts\<rparr>, foldl (\<lambda>out time. out @ sched_item filter_on time) [] ts))"

section \<open>Specification\<close>

text \<open>
  The canonical text \<open>hh:mm\<close> of a time, the entry it should give, the entry
  an empty match gives, and what a parsed object may look like: a valid hour
  and minute with the matched text, or the \<open>NaN\<close> object of an empty match.
\<close>

definition two_digits :: "nat \<Rightarrow> string" where
  "two_digits n = [char_of (48 + n div 10), char_of (48 + n mod 10)]"

definition time_text :: "nat \<Rightarrow> nat \<Rightarrow> string" where
  "time_text h m = two_digits h @ CHR '':'' # two_digits m"

definition time_entry :: "nat \<Rightarrow> nat \<Rightarrow> sched_entry" where
  "time_entry h m = Parsed \<lparr>string = time_text h m, hour = Some h, minute = Some m\<rparr>"

definition nan_entry :: sched_entry where
  "nan_entry = Parsed \<lparr>string = [], hour = None, minute = None\<rparr>"

definition wf_sched_time :: "sched_time \<Rightarrow> bool" where
  "wf_sched_time t \<longleftrightarrow> (case (hour t, minute t) of
     (None, None) \<Rightarrow> string t = []
   | (Some h, Some m) \<Rightarrow> h < 24 \<and> m < 60
        \<and> string t \<in> {two_digits h @ CHR '':'' # two_digits m, dec_string h @ CHR '':'' # two_digits m}
   | _ \<Rightarrow> False)"

section \<open>Lemmas\<close>

subsection \<open>Digits\<close>

lemma char_of_digit_val: "is_digit a \<Longrightarrow> char_of (48 + digit_val a) = a"
  by (simp add: is_digit_def digit_val_def)

lemma dec_string_digit_val: "is_digit a \<Longrightarrow> dec_string (digit_val a) = [a]"
  using digit_val_bound [of a] by (subst dec_string.simps) (simp add: char_of_digit_val)

lemma dec_val_two_digits [simp]: "n < 100 \<Longrightarrow> dec_val (two_digits n) = n"
  by (simp add: two_digits_def dec_val_def digit_val_def)

lemma dec_val_pair [simp]: "dec_val [a, b] = 10 * digit_val a + digit_val b"
  by (simp add: dec_val_def)

lemma two_digits_dec_val:
  assumes "is_digit a" "is_digit b"
  shows "two_digits (10 * digit_val a + digit_val b) = [a, b]"
proof -
  have "digit_val a < 10" "digit_val b < 10" using assms by (simp_all add: digit_val_bound)
  then have "(10 * digit_val a + digit_val b) div 10 = digit_val a"
    and "(10 * digit_val a + digit_val b) mod 10 = digit_val b" by simp_all
  then show ?thesis using assms by (simp add: two_digits_def char_of_digit_val)
qed

lemma in_range_digit:
  "in_range lo hi c \<Longrightarrow> 48 \<le> lo \<Longrightarrow> hi \<le> 57 \<Longrightarrow> is_digit c \<and> digit_val c \<le> hi - 48"
  by (auto simp: in_range_def is_digit_def digit_val_def)

lemma two_digits_digits: "n < 100 \<Longrightarrow> \<forall>c \<in> set (two_digits n). is_digit c"
  by (simp add: two_digits_def)

lemma is_digit_not_colon [simp]: "is_digit c \<Longrightarrow> c \<noteq> CHR '':''"
  by (auto simp: is_digit_def)

subsection \<open>The groups and the match\<close>

lemma hour_alts_cases:
  assumes "(h, r) \<in> set (hour_alts s)"
  shows "(\<exists>a. h = [a] \<and> is_digit a) \<or> (\<exists>a b. h = [a, b] \<and> is_digit a \<and> is_digit b \<and> dec_val h < 24)"
proof (cases s rule: hour_alts.cases)
  case (1 a b r')
  with assms consider "h = [a, b]" "in_range 48 49 a" "is_digit b"
    | "h = [a]" "is_digit a"
    | "h = [a, b]" "a = CHR ''2''" "in_range 48 51 b"
    by (auto split: if_splits)
  then show ?thesis
  proof cases
    case 1
    with in_range_digit [of 48 49 a] digit_val_bound [of b] show ?thesis by auto
  next
    case 2
    then show ?thesis by blast
  next
    case 3
    moreover have "digit_val (CHR ''2'') = 2" by (simp add: digit_val_def)
    ultimately show ?thesis using in_range_digit [of 48 51 b] by (auto simp: is_digit_def)
  qed
qed (use assms in \<open>auto split: if_splits\<close>)

lemma hour_alts_wf:
  assumes "(h, r) \<in> set (hour_alts s)"
  shows "dec_val h < 24 \<and> (h = two_digits (dec_val h) \<or> h = dec_string (dec_val h))"
  using hour_alts_cases [OF assms]
proof
  assume "\<exists>a. h = [a] \<and> is_digit a"
  then obtain a where "h = [a]" "is_digit a" by blast
  then show ?thesis using digit_val_bound [of a] by (simp add: dec_string_digit_val)
next
  assume "\<exists>a b. h = [a, b] \<and> is_digit a \<and> is_digit b \<and> dec_val h < 24"
  then obtain a b where "h = [a, b]" "is_digit a" "is_digit b" "dec_val h < 24" by blast
  then show ?thesis by (simp add: two_digits_dec_val)
qed

lemma minute_tail_cases:
  "minute_tail r = Some mm \<Longrightarrow> \<exists>a b. mm = [a, b] \<and> in_range 48 53 a \<and> is_digit b"
  by (cases r rule: minute_tail.cases) (auto split: if_splits)

lemma minute_tail_wf:
  assumes "minute_tail r = Some mm"
  shows "dec_val mm < 60 \<and> mm = two_digits (dec_val mm)"
proof -
  obtain a b where mm: "mm = [a, b]" "in_range 48 53 a" "is_digit b"
    using minute_tail_cases [OF assms] by blast
  then have "is_digit a" "digit_val a \<le> 5" "digit_val b < 10"
    using in_range_digit [of 48 53 a] digit_val_bound [of b] by simp_all
  with mm show ?thesis by (simp add: two_digits_dec_val)
qed

lemma sched_at_wf:
  assumes "sched_at s = Some mt"
  shows "wf_sched_time (sched_time_of mt)"
proof (cases "is_eol s")
  case True
  with assms have "mt = ([], None)" by (simp add: sched_at_def)
  then show ?thesis by (simp add: sched_time_of_def wf_sched_time_def)
next
  case False
  with assms obtain h mm rest where
    mf: "List.map_filter (\<lambda>(h, r). map_option (\<lambda>mm. (h, mm)) (minute_tail r)) (hour_alts s) = (h, mm) # rest"
    and mt: "mt = (h @ CHR '':'' # mm, Some (h, mm))"
    by (auto simp: sched_at_def split: list.splits)
  from map_filter_Cons_mem [OF mf] obtain r where
    "(h, r) \<in> set (hour_alts s)" "minute_tail r = Some mm" by auto
  with hour_alts_wf minute_tail_wf have
    "dec_val h < 24" "h = two_digits (dec_val h) \<or> h = dec_string (dec_val h)"
    "dec_val mm < 60" "mm = two_digits (dec_val mm)" by blast+
  with mt show ?thesis by (auto simp: sched_time_of_def wf_sched_time_def)
qed

lemma sched_exec_at: "sched_exec bol s = Some mt \<Longrightarrow> \<exists>s'. sched_at s' = Some mt"
  by (induction bol s rule: sched_exec.induct) (auto split: if_splits option.splits list.splits)

lemma sched_exec_no_bol: "\<forall>c \<in> set s. \<not> is_lt c \<Longrightarrow> sched_exec False s = None"
  by (induction s) simp_all

subsection \<open>Times written as \<open>hh:mm\<close>\<close>

lemma sched_at_two_digits:
  assumes "h < 100" "m < 100" "is_eol rest"
  shows "sched_at (two_digits h @ CHR '':'' # two_digits m @ rest) =
    (if h < 24 \<and> m < 60
     then Some (two_digits h @ CHR '':'' # two_digits m, Some (two_digits h, two_digits m)) else None)"
proof -
  have "h div 10 < 10" "m div 10 < 10" using assms by simp_all
  moreover have "h < 24 \<longleftrightarrow> h div 10 \<le> 1 \<or> h div 10 = 2 \<and> h mod 10 \<le> 3"
    and "m < 60 \<longleftrightarrow> m div 10 \<le> 5" by presburger+
  ultimately show ?thesis using assms
    by (auto simp: sched_at_def two_digits_def is_eol_def in_range_def char_of_eq_iff
                   take_bit_nat_eq_self)
qed

lemma time_text_trim [simp]: "h < 100 \<Longrightarrow> m < 100 \<Longrightarrow> js_trim (time_text h m) = time_text h m"
  by (rule js_trim_id) (simp_all add: time_text_def two_digits_def)

lemma time_text_no_lt:
  assumes "h < 100" "m < 100"
  shows "\<forall>c \<in> set (time_text h m). \<not> is_lt c"
proof -
  have "\<not> is_lt CHR '':''" by (simp add: is_lt_def)
  then show ?thesis using two_digits_digits [OF assms(1)] two_digits_digits [OF assms(2)]
    by (auto simp: time_text_def)
qed

lemma time_text_no_comma: "h < 100 \<Longrightarrow> m < 100 \<Longrightarrow> CHR '','' \<notin> set (time_text h m)"
  using two_digits_digits [of h] two_digits_digits [of m] by (auto simp: time_text_def is_digit_def)

lemma sched_exec_time_text:
  assumes "h < 24" "m < 60" "is_eol rest"
  shows "sched_exec True (time_text h m @ rest) = Some (time_text h m, Some (two_digits h, two_digits m))"
  using sched_at_two_digits [of h m rest] assms by (simp add: time_text_def)

lemma sched_exec_time_text_reject:
  assumes "h < 100" "m < 100" "\<not> (h < 24 \<and> m < 60)"
  shows "sched_exec True (time_text h m) = None"
proof -
  have "sched_at (time_text h m) = None"
    using sched_at_two_digits [of h m "[]"] assms by (simp add: time_text_def is_eol_def)
  moreover obtain c cs where cs: "time_text h m = c # cs" by (simp add: time_text_def two_digits_def)
  moreover have "\<not> is_lt c" "sched_exec False cs = None"
    using time_text_no_lt [OF assms(1,2)] cs by (simp_all del: sched_exec.simps add: sched_exec_no_bol)
  ultimately show ?thesis by simp
qed

subsection \<open>Items and the output list\<close>

lemma sched_item_Parsed:
  "Parsed t \<in> set (sched_item f time) \<Longrightarrow> \<exists>mt. sched_exec True (js_trim time) = Some mt \<and> t = sched_time_of mt"
  by (auto simp: sched_item_def simp del: sched_exec.simps split: if_splits option.splits)
     (metis option.inject)

lemma sched_item_time_text:
  assumes "h < 24" "m < 60" "is_eol rest" "js_trim (time_text h m @ rest) = time_text h m @ rest"
  shows "sched_item f (time_text h m @ rest) = [time_entry h m]"
proof -
  have "sched_exec True (js_trim (time_text h m @ rest)) = Some (time_text h m, Some (two_digits h, two_digits m))"
    unfolding assms(4) by (rule sched_exec_time_text [OF assms(1-3)])
  moreover have "time_text h m @ rest \<noteq> []" by (simp add: time_text_def)
  moreover have "sched_time_of (time_text h m, Some (two_digits h, two_digits m)) =
      \<lparr>string = time_text h m, hour = Some h, minute = Some m\<rparr>"
    using assms(1,2) by (simp add: sched_time_of_def)
  ultimately show ?thesis by (simp add: sched_item_def time_entry_def del: sched_exec.simps)
qed

lemma js_trim_all_ws: "\<forall>c \<in> set s. is_ws c \<Longrightarrow> js_trim s = []"
  by (auto simp: js_trim_def dest: set_dropWhileD)

lemma schedule_items_single:
  "CHR '','' \<notin> set s \<Longrightarrow> schedule_items (SchedString s) = [s]"
  using js_split_join [of "[s]" "CHR '',''"] by (simp add: schedule_items_def)

lemma length_sched_item_raw: "length (sched_item False t) = (if t = [] then 0 else 1)"
  by (simp add: sched_item_def del: sched_exec.simps split: option.split)

lemma parseSchedule_out:
  "snd (parseSchedule g sch f) = concat (map (sched_item f) (schedule_items sch))"
  by (simp add: parseSchedule_def foldl_append_concat Let_def)

lemma length_sched_items_raw:
  "length (concat (map (sched_item False) ts)) = length (filter (\<lambda>t. t \<noteq> []) ts)"
  by (induction ts) (simp_all add: length_sched_item_raw)

section \<open>Properties of parseSchedule\<close>



text \<open>
  C18.  Rendering any list of valid times as \<open>hh:mm\<close> and joining them with
  commas, \<open>parseSchedule\<close> returns exactly those times, in order.
\<close>

theorem parseSchedule_time_texts:
  assumes "\<forall>(h, m) \<in> set hms. h < 24 \<and> m < 60"
  shows "snd (parseSchedule g (SchedString (js_join '','' (map (\<lambda>(h, m). time_text h m) hms))) f) =
    map (\<lambda>(h, m). time_entry h m) hms"
proof (cases "hms = []")
  case True
  then show ?thesis by (simp add: parseSchedule_out schedule_items_def sched_item_def)
next
  case False
  have "\<forall>x \<in> set (map (\<lambda>(h, m). time_text h m) hms). CHR '','' \<notin> set x"
    using assms time_text_no_comma by fastforce
  with False have "schedule_items (SchedString (js_join '','' (map (\<lambda>(h, m). time_text h m) hms))) =
      map (\<lambda>(h, m). time_text h m) hms"
    by (simp add: schedule_items_def js_split_join)
  moreover have "\<forall>(h, m) \<in> set hms. sched_item f (time_text h m) = [time_entry h m]"
    using assms sched_item_time_text [where rest = "[]"] by (auto simp: is_eol_def)
  ultimately show ?thesis
    by (simp add: parseSchedule_out comp_def case_prod_beta concat_map_singleton)
qed

theorem parseSchedule_time_texts_witness:
  "snd (parseSchedule \<lparr>times = None\<rparr> (SchedString ''07:05,23:59'') True) =
     [time_entry 7 5, time_entry 23 59]"
  using parseSchedule_time_texts [of "[(7, 5), (23, 59)]" "\<lparr>times = None\<rparr>" True]
  by (simp add: time_text_def two_digits_def)

text \<open>
  C19.  With the default \<open>filter = true\<close> no raw item is returned: items
  the expression does not match are dropped.
\<close>

theorem parseSchedule_filter_drops_raw:
  "Raw r \<notin> set (snd (parseSchedule g sch True))"
  by (auto simp: parseSchedule_out sched_item_def simp del: sched_exec.simps split: if_splits option.splits)

text \<open>
  C20.  With \<open>filter = false\<close> every non-empty item gives exactly one entry,
  so the output is as long as the list of non-empty items.
\<close>

theorem parseSchedule_keeps_items:
  "length (snd (parseSchedule g sch False)) = length (filter (\<lambda>t. t \<noteq> []) (schedule_items sch))"
  by (simp add: parseSchedule_out length_sched_items_raw)

text \<open>
  C21.  A two-digit time with an hour of 24 or more or a minute of 60 or more
  is rejected: dropped by default, returned raw with \<open>filter = false\<close>.
\<close>

theorem parseSchedule_rejects_out_of_range:
  assumes "h < 100" "m < 100" "\<not> (h < 24 \<and> m < 60)"
  shows "snd (parseSchedule g (SchedString (time_text h m)) True) = []
       \<and> snd (parseSchedule g (SchedString (time_text h m)) False) = [Raw (time_text h m)]"
proof -
  have "schedule_items (SchedString (time_text h m)) = [time_text h m]"
    using assms(1,2) by (simp add: schedule_items_single time_text_no_comma)
  moreover have "time_text h m \<noteq> []" by (simp add: time_text_def)
  ultimately show ?thesis using sched_exec_time_text_reject [OF assms] assms(1,2)
    by (simp add: parseSchedule_out sched_item_def del: sched_exec.simps)
qed


theorem parseSchedule_rejects_out_of_range_witness:
  "snd (parseSchedule \<lparr>times = None\<rparr> (SchedString ''24:00'') True) = []
     \<and> snd (parseSchedule \<lparr>times = None\<rparr> (SchedString ''24:00'') False) = [Raw ''24:00'']"
  using parseSchedule_rejects_out_of_range [of 24 0 "\<lparr>times = None\<rparr>"]
  by (simp add: time_text_def two_digits_def)

text \<open>
  C22.  An item of white space only, as the tail of \<open>04:00, \<close>, is trimmed
  to the empty string, which \<open>^$\<close> matches: the result holds an object with
  empty text and \<open>NaN\<close> hour and minute.
\<close>

theorem parseSchedule_blank_item_nan:
  assumes "s \<noteq> []" "\<forall>c \<in> set s. is_ws c"
  shows "snd (parseSchedule g (SchedString s) f) = [nan_entry]"
proof -
  have "CHR '','' \<notin> set s" using assms(2) by (auto simp: is_ws_def)
  then have "schedule_items (SchedString s) = [s]" by (rule schedule_items_single)
  moreover have "js_trim s = []" using assms(2) by (rule js_trim_all_ws)
  ultimately show ?thesis using assms(1)
    by (simp add: parseSchedule_out sched_item_def sched_at_def is_eol_def sched_time_of_def nan_entry_def)
qed


theorem parseSchedule_blank_item_nan_witness:
  "snd (parseSchedule \<lparr>times = None\<rparr> (SchedString '' '') True) = [nan_entry]"
  using parseSchedule_blank_item_nan [of "'' ''"] by (simp add: is_ws_def)

text \<open>
  C23.  The \<open>m\<close> flag makes \<open>$\<close> match before a line break, so an item
  whose first line is a valid time is accepted whatever the following lines hold.
\<close>

theorem parseSchedule_time_then_other_line:
  assumes "h < 24" "m < 60" "x \<noteq> []" "\<not> is_ws (last x)"
  shows "snd (parseSchedule g (SchedArray [time_text h m @ CHR 0x0A # x]) True) = [time_entry h m]"
proof -
  have "js_trim (time_text h m @ CHR 0x0A # x) = time_text h m @ CHR 0x0A # x"
    using assms by (intro js_trim_id) (simp_all add: time_text_def two_digits_def)
  then have "sched_item True (time_text h m @ CHR 0x0A # x) = [time_entry h m]"
    using assms(1,2) by (intro sched_item_time_text) (simp_all add: is_eol_def is_lt_def)
  then show ?thesis by (simp add: parseSchedule_out schedule_items_def)
qed


theorem parseSchedule_time_then_other_line_witness:
  "snd (parseSchedule \<lparr>times = None\<rparr> (SchedArray [''12:30'' @ CHR 0x0A # ''restart'']) True) =
     [time_entry 12 30]"
  using parseSchedule_time_then_other_line [of 12 30 "''restart''" "\<lparr>times = None\<rparr>"]
  by (simp add: time_text_def two_digits_def is_ws_def)

end
