(* ===== verification/Paths.thy ===== *)
theory Paths
  imports Prelude
begin

text \<open>
  Node's \<open>path\<close> module on POSIX (\<open>path.posix\<close> of Node's \<open>lib/path.js\<close>), which
  \<open>resolveCFGFilePath\<close> and \<open>findLikelyCFGPath\<close> call: \<open>isAbsolute\<close>,
  \<open>normalizeString\<close> (the segment loop: empty and \<open>.\<close> segments vanish,
  \<open>..\<close> drops the previous segment, or is kept above a relative root),
  \<open>normalize\<close>, \<open>join\<close> and \<open>resolve\<close>, the current directory of
  \<open>resolve\<close> being a parameter.  The loop of \<open>normalizeString\<close> is written
  over the segments of \<^const>\<open>js_split\<close> instead of character by character.
  The lemmas: segments are never empty and hold no slash, normalisation keeps a
  path absolute or relative, \<open>resolve\<close> with an absolute current directory
  is absolute, and normalising a normal path changes nothing.
\<close>

section \<open>Operations\<close>

definition path_isAbsolute :: "string \<Rightarrow> bool" where
  "path_isAbsolute p \<longleftrightarrow> p \<noteq> [] \<and> hd p = CHR ''/''"

definition norm_step :: "bool \<Rightarrow> string list \<Rightarrow> string \<Rightarrow> string list" where
  "norm_step above_root acc seg =
     (if seg = [] \<or> seg = ''.'' then acc
      else if seg = ''..'' then
        (case acc of
           s # rest \<Rightarrow> if s \<noteq> ''..'' then rest else if above_root then ''..'' # acc else acc
         | [] \<Rightarrow> if above_root then [''..''] else [])
      else seg # acc)"

definition norm_segs :: "bool \<Rightarrow> string \<Rightarrow> string list" where
  "norm_segs above_root p = rev (foldl (norm_step above_root) [] (js_split CHR ''/'' p))"

definition normalizeString :: "bool \<Rightarrow> string \<Rightarrow> string" where
  "normalizeString above_root p = js_join ''/'' (norm_segs above_root p)"

definition path_normalize :: "string \<Rightarrow> string" where
  "path_normalize p =
     (if p = [] then ''.''
      else (let is_abs = path_isAbsolute p; trail = last p = CHR ''/''; r = normalizeString (\<not> is_abs) p in
            if r = [] then (if is_abs then ''/'' else if trail then ''./'' else ''.'')
            else (if is_abs then CHR ''/'' # r else r) @ (if trail then ''/'' else [])))"

definition path_join :: "string list \<Rightarrow> string" where
  "path_join args =
     (let ne = filter (\<lambda>a. a \<noteq> []) args in if ne = [] then ''.'' else path_normalize (js_join ''/'' ne))"

fun resolve_scan :: "string list \<Rightarrow> string \<Rightarrow> string \<times> bool" where
  "resolve_scan [] acc = (acc, False)"
| "resolve_scan (p # ps) acc =
     (if p = [] then resolve_scan ps acc
      else if path_isAbsolute p then (p @ ''/'' @ acc, True)
      else resolve_scan ps (p @ ''/'' @ acc))"

definition path_resolve :: "string \<Rightarrow> string list \<Rightarrow> string" where
  "path_resolve cwd args =
     (case resolve_scan (rev args @ [cwd]) [] of (rp, ab) \<Rightarrow>
        (let r = normalizeString (\<not> ab) rp in
         if ab then CHR ''/'' # r else if r = [] then ''.'' else r))"

text \<open>A segment that normalisation keeps as it is.\<close>

definition normal_seg :: "string \<Rightarrow> bool" where
  "normal_seg s \<longleftrightarrow> s \<noteq> [] \<and> s \<noteq> ''.'' \<and> s \<noteq> ''..'' \<and> CHR ''/'' \<notin> set s"

section \<open>Lemmas\<close>

lemma js_split_sep_free: "x \<in> set (js_split d s) \<Longrightarrow> d \<notin> set x"
proof (induction s arbitrary: x)
  case Nil
  then show ?case by simp
next
  case (Cons c cs)
  show ?case
  proof (cases "c = d")
    case True
    with Cons show ?thesis by auto
  next
    case False
    obtain r rs where r: "js_split d cs = r # rs" by (cases "js_split d cs") auto
    with Cons.prems False have "x = c # r \<or> x \<in> set rs" by (simp add: Let_def)
    with Cons.IH r False show ?thesis by auto
  qed
qed

lemma norm_step_normal:
  assumes "\<forall>s \<in> set acc. normal_seg s" "CHR ''/'' \<notin> set seg"
  shows "\<forall>s \<in> set (norm_step False acc seg). normal_seg s"
proof -
  have "set (norm_step False acc seg) \<subseteq> set acc \<or> norm_step False acc seg = seg # acc \<and> normal_seg seg"
    unfolding norm_step_def normal_seg_def using assms(2)
    by (cases acc) (simp_all, auto)
  with assms(1) show ?thesis by auto
qed

lemma foldl_norm_step_normal:
  "\<forall>s \<in> set acc. normal_seg s \<Longrightarrow> \<forall>x \<in> set xs. CHR ''/'' \<notin> set x \<Longrightarrow>
     \<forall>s \<in> set (foldl (norm_step False) acc xs). normal_seg s"
proof (induction xs arbitrary: acc)
  case (Cons x xs)
  then show ?case using norm_step_normal [of acc x] by simp
qed simp

lemma norm_segs_normal: "\<forall>s \<in> set (norm_segs False p). normal_seg s"
  using foldl_norm_step_normal [of "[]" "js_split CHR ''/'' p"] js_split_sep_free
  by (simp add: norm_segs_def)

lemma foldl_norm_step_push:
  "\<forall>s \<in> set xs. normal_seg s \<Longrightarrow> foldl (norm_step ab) acc xs = rev xs @ acc"
  by (induction xs arbitrary: acc) (auto simp: norm_step_def normal_seg_def)

lemma norm_step_seg_ok:
  assumes "\<forall>s \<in> set acc. s \<noteq> [] \<and> CHR ''/'' \<notin> set s" "CHR ''/'' \<notin> set seg"
  shows "\<forall>s \<in> set (norm_step ab acc seg). s \<noteq> [] \<and> CHR ''/'' \<notin> set s"
proof -
  have "set (norm_step ab acc seg) \<subseteq> insert ''..'' (set acc) \<or> norm_step ab acc seg = seg # acc \<and> seg \<noteq> []"
    unfolding norm_step_def by (cases acc) (simp_all, auto)
  with assms show ?thesis by auto
qed

lemma norm_segs_seg_ok: "\<forall>s \<in> set (norm_segs ab p). s \<noteq> [] \<and> CHR ''/'' \<notin> set s"
proof -
  have "\<forall>s \<in> set (foldl (norm_step ab) [] (js_split CHR ''/'' p)). s \<noteq> [] \<and> CHR ''/'' \<notin> set s"
  proof (rule foldl_invariant [where P = "\<lambda>acc. \<forall>s \<in> set acc. s \<noteq> [] \<and> CHR ''/'' \<notin> set s"])
    fix acc x
    assume a: "\<forall>s \<in> set acc. s \<noteq> [] \<and> CHR ''/'' \<notin> set s" and x: "x \<in> set (js_split CHR ''/'' p)"
    show "\<forall>s \<in> set (norm_step ab acc x). s \<noteq> [] \<and> CHR ''/'' \<notin> set s"
      using a js_split_sep_free [OF x] by (rule norm_step_seg_ok)
  qed simp
  then show ?thesis by (simp add: norm_segs_def)
qed

lemma hd_js_join: "xs \<noteq> [] \<Longrightarrow> hd xs \<noteq> [] \<Longrightarrow> hd (js_join sep xs) = hd (hd xs)"
  by (cases "(sep, xs)" rule: js_join.cases) simp_all

lemma normalizeString_hd: "normalizeString ab p \<noteq> [] \<Longrightarrow> hd (normalizeString ab p) \<noteq> CHR ''/''"
proof -
  assume ne: "normalizeString ab p \<noteq> []"
  then have segs: "norm_segs ab p \<noteq> []" by (auto simp: normalizeString_def)
  with norm_segs_seg_ok [of ab p] have "hd (norm_segs ab p) \<noteq> []" "CHR ''/'' \<notin> set (hd (norm_segs ab p))"
    by simp_all
  then have "hd (hd (norm_segs ab p)) \<noteq> CHR ''/''" by (metis hd_in_set)
  with segs \<open>hd (norm_segs ab p) \<noteq> []\<close> show ?thesis by (simp add: normalizeString_def hd_js_join)
qed

lemma path_normalize_isAbsolute: "path_isAbsolute (path_normalize p) \<longleftrightarrow> path_isAbsolute p"
  using normalizeString_hd [of "\<not> path_isAbsolute p" p]
  by (auto simp: path_normalize_def Let_def path_isAbsolute_def)

lemma path_isAbsolute_append: "a \<noteq> [] \<Longrightarrow> path_isAbsolute (a @ b) \<longleftrightarrow> path_isAbsolute a"
  by (simp add: path_isAbsolute_def)

lemma path_join_isAbsolute:
  "path_isAbsolute (path_join [a, b]) \<longleftrightarrow> (if a = [] then path_isAbsolute b else path_isAbsolute a)"
proof -
  have "\<not> path_isAbsolute ''.''" by (simp add: path_isAbsolute_def)
  then show ?thesis
    by (simp add: path_join_def path_normalize_isAbsolute path_isAbsolute_append)
       (simp add: path_isAbsolute_def)
qed

lemma path_isAbsolute_Nil [simp]: "\<not> path_isAbsolute []"
  by (simp add: path_isAbsolute_def)

lemma resolve_scan_abs: "\<exists>p \<in> set ps. path_isAbsolute p \<Longrightarrow> snd (resolve_scan ps acc)"
  by (induction ps acc rule: resolve_scan.induct) auto

lemma path_resolve_abs: "path_isAbsolute cwd \<Longrightarrow> path_isAbsolute (path_resolve cwd args)"
proof -
  assume "path_isAbsolute cwd"
  then have "snd (resolve_scan (rev args @ [cwd]) [])" by (intro resolve_scan_abs) auto
  then show ?thesis
    by (cases "resolve_scan (rev args @ [cwd]) []") (simp add: path_resolve_def path_isAbsolute_def Let_def)
qed

lemma js_split_snoc_sep: "js_split d (x @ [d]) = js_split d x @ [[]]"
proof (induction x)
  case (Cons c cs)
  obtain r rs where "js_split d cs = r # rs" by (cases "js_split d cs") auto
  with Cons show ?case by (simp add: Let_def)
qed simp

lemma norm_segs_snoc_sep: "norm_segs ab (x @ ''/'') = norm_segs ab x"
  by (simp add: norm_segs_def js_split_snoc_sep norm_step_def)

lemma norm_segs_idem:
  "norm_segs False (CHR ''/'' # js_join ''/'' (norm_segs False x)) = norm_segs False x"
proof (cases "norm_segs False x = []")
  case True
  then show ?thesis by (simp add: norm_segs_def norm_step_def)
next
  case False
  have "js_split CHR ''/'' (js_join ''/'' (norm_segs False x)) = norm_segs False x"
    using False norm_segs_normal [of x] by (intro js_split_join) (auto simp: normal_seg_def)
  then show ?thesis
    using norm_segs_normal [of x]
    by (simp add: norm_segs_def [of False "CHR ''/'' # _"] norm_step_def foldl_norm_step_push)
qed

end
