(* ===== verification/FileSys.thy ===== *)
theory FileSys
  imports Paths
begin

text \<open>
  The file helpers of \<open>src/src/extras/helpers.js\<close>: \<open>getCFGFileData\<close>
  (lines 95--117), \<open>resolveCFGFilePath\<close> (lines 126--128) and
  \<open>findLikelyCFGPath\<close> (lines 237--255).  The file system is a map from
  the segments of a normalised absolute path to an inode: a regular file with
  its text (\<^const>\<open>None\<close> when reading it fails), a directory, a symbolic
  link with its target, or another kind of file.  \<open>existsSync\<close> and
  \<open>readFileSync\<close> follow links, at most 40 of them (Linux's \<open>MAXSYMLINKS\<close>;
  a longer chain is \<open>ELOOP\<close>, so the path does not exist); \<open>lstatSync\<close>
  does not follow the last one and throws \<open>ENOENT\<close> on a missing path.
  Paths are looked up after lexical normalisation, which is what the kernel
  does when no directory on the path is a link.  \<open>getCFGFileData_at\<close>
  takes the file system seen by each of its three calls into \<open>fs\<close>, so that
  a change between the calls can be stated; \<open>getCFGFileData\<close> is the call
  on one file system.  \<open>findLikelyCFGPath\<close> returns \<^const>\<open>None\<close> for
  the code's \<open>false\<close>.
\<close>

section \<open>Definitions\<close>

datatype inode = RegFile "string option" | Directory | Symlink string | Special

type_synonym fs = "string list \<Rightarrow> inode option"

definition fs_key :: "string \<Rightarrow> string list" where
  "fs_key p = norm_segs False p"

definition link_target :: "string list \<Rightarrow> string \<Rightarrow> string list" where
  "link_target k t =
     (if path_isAbsolute t then fs_key t else fs_key (js_join ''/'' ([] # butlast k) @ ''/'' @ t))"

fun follow :: "nat \<Rightarrow> fs \<Rightarrow> string list \<Rightarrow> inode option" where
  "follow 0 fs k = None"
| "follow (Suc n) fs k = (case fs k of Some (Symlink t) \<Rightarrow> follow n fs (link_target k t) | x \<Rightarrow> x)"

definition max_symlinks :: nat where
  "max_symlinks = 40"

definition existsSync :: "fs \<Rightarrow> string \<Rightarrow> bool" where
  "existsSync fs p \<longleftrightarrow> follow (Suc max_symlinks) fs (fs_key p) \<noteq> None"

definition lstatSync :: "fs \<Rightarrow> string \<Rightarrow> inode option" where
  "lstatSync fs p = fs (fs_key p)"

definition readFileSync :: "fs \<Rightarrow> string \<Rightarrow> string option" where
  "readFileSync fs p = (case follow (Suc max_symlinks) fs (fs_key p) of Some (RegFile c) \<Rightarrow> c | _ \<Rightarrow> None)"

definition is_file :: "inode \<Rightarrow> bool" where
  "is_file n \<longleftrightarrow> (case n of RegFile _ \<Rightarrow> True | _ \<Rightarrow> False)"

datatype cfg_error = NotAbsolute | NotFound | NotAFile | LstatENOENT | CannotRead

text \<open>The message of each error (lines 98, 103, 108, 115; Node's own message
  for the \<open>ENOENT\<close> that \<open>lstatSync\<close> throws).\<close>

definition cfg_error_message :: "string \<Rightarrow> cfg_error \<Rightarrow> string" where
  "cfg_error_message p e = (case e of
     NotAbsolute \<Rightarrow> ''File path must be absolute.''
   | NotFound \<Rightarrow> ''File doesn'' @ CHR 0x27 # ''t exist or its unreadable.''
   | NotAFile \<Rightarrow> ''File doesn'' @ CHR 0x27 # ''t exist or its unreadable. Make sure to include the CFG file in the path, and not just the directory that contains it.''
   | LstatENOENT \<Rightarrow> ''ENOENT: no such file or directory, lstat '' @ CHR 0x27 # p @ [CHR 0x27]
   | CannotRead \<Rightarrow> ''Cannot read CFG file.'')"

definition getCFGFileData_at :: "(nat \<Rightarrow> fs) \<Rightarrow> string \<Rightarrow> cfg_error + string" where
  "getCFGFileData_at fs_at cfgPath =
     (if \<not> path_isAbsolute cfgPath then Inl NotAbsolute
      else if \<not> existsSync (fs_at 0) cfgPath then Inl NotFound
      else (case lstatSync (fs_at 1) cfgPath of
              None \<Rightarrow> Inl LstatENOENT
            | Some st \<Rightarrow>
                if \<not> is_file st then Inl NotAFile
                else (case readFileSync (fs_at 2) cfgPath of
                        None \<Rightarrow> Inl CannotRead
                      | Some c \<Rightarrow> Inr c)))"

definition getCFGFileData :: "fs \<Rightarrow> string \<Rightarrow> cfg_error + string" where
  "getCFGFileData fs cfgPath = getCFGFileData_at (\<lambda>_. fs) cfgPath"

definition resolveCFGFilePath :: "string \<Rightarrow> string \<Rightarrow> string \<Rightarrow> string" where
  "resolveCFGFilePath cwd cfgPath serverDataPath =
     (if path_isAbsolute cfgPath then cfgPath else path_resolve cwd [serverDataPath, cfgPath])"

definition cfg_attempts :: "string list" where
  "cfg_attempts = [''server.cfg'', ''server.cfg.txt'', ''server.cfg.cfg'', ''server.txt'', ''server'', ''../server.cfg'']"

fun find_cfg :: "fs \<Rightarrow> string \<Rightarrow> string list \<Rightarrow> string option" where
  "find_cfg fs sdp [] = None"
| "find_cfg fs sdp (a # as) =
     (let cfgPath = path_join [sdp, a] in
      case getCFGFileData fs cfgPath of Inr _ \<Rightarrow> Some cfgPath | Inl _ \<Rightarrow> find_cfg fs sdp as)"

definition findLikelyCFGPath :: "fs \<Rightarrow> string \<Rightarrow> string option" where
  "findLikelyCFGPath fs serverDataPath = find_cfg fs serverDataPath cfg_attempts"

section \<open>Lemmas\<close>

lemma follow_Some_fs: "follow n fs k \<noteq> None \<Longrightarrow> fs k \<noteq> None"
  by (cases n) (auto split: option.splits)

lemma follow_file [simp]: "fs k = Some (RegFile c) \<Longrightarrow> follow (Suc n) fs k = Some (RegFile c)"
  by simp

lemma existsSync_lstat: "existsSync fs p \<Longrightarrow> lstatSync fs p \<noteq> None"
  unfolding existsSync_def lstatSync_def by (rule follow_Some_fs)

lemma is_file_iff: "is_file n \<longleftrightarrow> (\<exists>c. n = RegFile c)"
  by (cases n) (simp_all add: is_file_def)

lemma getCFGFileData_cases:
  "getCFGFileData fs p =
     (if \<not> path_isAbsolute p then Inl NotAbsolute
      else if \<not> existsSync fs p then Inl NotFound
      else (case lstatSync fs p of
              Some (RegFile (Some c)) \<Rightarrow> Inr c
            | Some (RegFile None) \<Rightarrow> Inl CannotRead
            | _ \<Rightarrow> Inl NotAFile))"
proof -
  have "existsSync fs p \<Longrightarrow> lstatSync fs p = Some (RegFile c) \<Longrightarrow> readFileSync fs p = c" for c
    by (simp add: readFileSync_def lstatSync_def)
  then show ?thesis using existsSync_lstat [of fs p]
    by (auto simp: getCFGFileData_def getCFGFileData_at_def is_file_def
             split: option.splits inode.splits)
qed

lemma find_cfg_Cons:
  "find_cfg fs sdp (a # as) =
     (if isl (getCFGFileData fs (path_join [sdp, a])) then find_cfg fs sdp as else Some (path_join [sdp, a]))"
  by (simp add: Let_def split: sum.split)

lemma find_cfg_Some:
  "find_cfg fs sdp as = Some p \<longleftrightarrow>
     (\<exists>pre a post. as = pre @ a # post \<and> p = path_join [sdp, a] \<and> \<not> isl (getCFGFileData fs p)
        \<and> (\<forall>b \<in> set pre. isl (getCFGFileData fs (path_join [sdp, b]))))"
proof (induction as)
  case Nil
  then show ?case by simp
next
  case (Cons a as)
  show ?case
  proof (cases "isl (getCFGFileData fs (path_join [sdp, a]))")
    case True
    then have "find_cfg fs sdp (a # as) = find_cfg fs sdp as"
      by (simp only: find_cfg_Cons if_True)
    moreover have "(\<exists>pre b post. a # as = pre @ b # post \<and> p = path_join [sdp, b]
          \<and> \<not> isl (getCFGFileData fs p) \<and> (\<forall>c \<in> set pre. isl (getCFGFileData fs (path_join [sdp, c]))))
      \<longleftrightarrow> (\<exists>pre b post. as = pre @ b # post \<and> p = path_join [sdp, b]
          \<and> \<not> isl (getCFGFileData fs p) \<and> (\<forall>c \<in> set pre. isl (getCFGFileData fs (path_join [sdp, c]))))"
      (is "?L \<longleftrightarrow> ?R")
    proof
      assume ?L
      then obtain pre b post where l: "a # as = pre @ b # post" "p = path_join [sdp, b]"
        "\<not> isl (getCFGFileData fs p)" "\<forall>c \<in> set pre. isl (getCFGFileData fs (path_join [sdp, c]))"
        by blast
      with True obtain pre' where pre: "pre = a # pre'" by (cases pre) auto
      with l have "as = pre' @ b # post" "\<forall>c \<in> set pre'. isl (getCFGFileData fs (path_join [sdp, c]))"
        by simp_all
      with l(2,3) show ?R by blast
    next
      assume ?R
      then obtain pre b post where "as = pre @ b # post" "p = path_join [sdp, b]"
        "\<not> isl (getCFGFileData fs p)" "\<forall>c \<in> set pre. isl (getCFGFileData fs (path_join [sdp, c]))"
        by blast
      with True have "a # as = (a # pre) @ b # post"
        "\<forall>c \<in> set (a # pre). isl (getCFGFileData fs (path_join [sdp, c]))" by simp_all
      with \<open>p = path_join [sdp, b]\<close> \<open>\<not> isl (getCFGFileData fs p)\<close> show ?L by blast
    qed
    ultimately show ?thesis using Cons.IH by simp
  next
    case False
    then have "find_cfg fs sdp (a # as) = Some (path_join [sdp, a])"
      by (simp only: find_cfg_Cons if_False)
    moreover have "(\<exists>pre b post. a # as = pre @ b # post \<and> p = path_join [sdp, b]
          \<and> \<not> isl (getCFGFileData fs p) \<and> (\<forall>c \<in> set pre. isl (getCFGFileData fs (path_join [sdp, c]))))
      \<longleftrightarrow> p = path_join [sdp, a]" (is "?L \<longleftrightarrow> _")
    proof
      assume ?L
      then obtain pre b post where l: "a # as = pre @ b # post" "p = path_join [sdp, b]"
        "\<forall>c \<in> set pre. isl (getCFGFileData fs (path_join [sdp, c]))"
        by blast
      with False have "pre = []" by (cases pre) auto
      with l show "p = path_join [sdp, a]" by simp
    next
      assume p: "p = path_join [sdp, a]"
      show ?L by (rule exI [of _ "[]"], rule exI [of _ a], rule exI [of _ as]) (simp add: p False)
    qed
    ultimately show ?thesis by auto
  qed
qed

lemma find_cfg_relative:
  "\<not> path_isAbsolute sdp \<Longrightarrow> \<forall>a \<in> set as. \<not> path_isAbsolute a \<Longrightarrow> find_cfg fs sdp as = None"
  by (induction as) (simp_all add: Let_def getCFGFileData_cases path_join_isAbsolute)

lemma cfg_attempts_relative: "\<forall>a \<in> set cfg_attempts. \<not> path_isAbsolute a"
  by (simp add: cfg_attempts_def path_isAbsolute_def)

lemma resolve_scan_rel:
  "path_isAbsolute sdp \<Longrightarrow> \<not> path_isAbsolute cfg \<Longrightarrow>
     resolve_scan [cfg, sdp, cwd] [] = (sdp @ ''/'' @ (if cfg = [] then [] else cfg @ ''/''), True)"
  by (cases cfg) (simp_all add: path_isAbsolute_def)

lemma resolveCFGFilePath_rel:
  assumes "path_isAbsolute sdp" "\<not> path_isAbsolute cfgPath"
  shows "resolveCFGFilePath cwd cfgPath sdp =
    CHR ''/'' # normalizeString False (sdp @ ''/'' @ (if cfgPath = [] then [] else cfgPath @ ''/''))"
  using assms resolve_scan_rel [OF assms, of cwd]
  by (simp add: resolveCFGFilePath_def path_resolve_def)

lemma resolveCFGFilePath_key:
  assumes "path_isAbsolute sdp" "\<not> path_isAbsolute cfgPath"
  shows "fs_key (resolveCFGFilePath cwd cfgPath sdp) = fs_key (sdp @ ''/'' @ cfgPath)"
proof -
  have "norm_segs False (sdp @ ''/'' @ (if cfgPath = [] then [] else cfgPath @ ''/'')) =
      norm_segs False (sdp @ ''/'' @ cfgPath)"
    using norm_segs_snoc_sep [of False "sdp @ ''/'' @ cfgPath"] by simp
  then show ?thesis
    by (simp add: resolveCFGFilePath_rel [OF assms] fs_key_def normalizeString_def norm_segs_idem)
qed

text \<open>On absolute paths \<open>getCFGFileData\<close> depends only on the file they name.\<close>

lemma getCFGFileData_same_key:
  "fs_key p = fs_key q \<Longrightarrow> path_isAbsolute p \<Longrightarrow> path_isAbsolute q \<Longrightarrow> getCFGFileData fs p = getCFGFileData fs q"
  by (simp add: getCFGFileData_cases existsSync_def lstatSync_def)

section \<open>Properties\<close>

text \<open>
  C24.  \<open>getCFGFileData\<close> returns the text \<open>c\<close> exactly when the path is
  absolute and names a regular file, not a link, whose contents read as \<open>c\<close>.
\<close>

theorem getCFGFileData_contract:
  "getCFGFileData fs p = Inr c \<longleftrightarrow> path_isAbsolute p \<and> lstatSync fs p = Some (RegFile (Some c))"
  by (auto simp: getCFGFileData_cases existsSync_def lstatSync_def split: option.splits inode.splits)

text \<open>
  C25.  The errors of \<open>getCFGFileData\<close> in the order of its checks: a
  relative path, a path that does not exist, a regular file that cannot be
  read, and anything else that is not a regular file.  On one file system the
  raw \<open>ENOENT\<close> of \<open>lstatSync\<close> never escapes.
\<close>

theorem getCFGFileData_errors:
  "getCFGFileData fs p = Inl e \<longleftrightarrow>
     (if \<not> path_isAbsolute p then e = NotAbsolute
      else if \<not> existsSync fs p then e = NotFound
      else if lstatSync fs p = Some (RegFile None) then e = CannotRead
      else e = NotAFile \<and> (\<forall>c. lstatSync fs p \<noteq> Some (RegFile (Some c))))"
  by (auto simp: getCFGFileData_cases split: option.splits inode.splits)

text \<open>
  C26.  A configuration file reached through a symbolic link is rejected with
  the message for a directory, although \<open>readFileSync\<close> would read it:
  \<open>lstatSync\<close> describes the link itself.
\<close>

theorem getCFGFileData_symlink_rejected:
  assumes "path_isAbsolute p" "lstatSync fs p = Some (Symlink t)" "readFileSync fs p = Some c"
  shows "getCFGFileData fs p = Inl NotAFile"
proof -
  have "existsSync fs p"
    using assms(3) by (auto simp: existsSync_def readFileSync_def split: option.splits)
  with assms(1,2) show ?thesis by (simp add: getCFGFileData_cases)
qed

theorem getCFGFileData_symlink_rejected_witness:
  "getCFGFileData (\<lambda>k. if k = [''srv'', ''server.cfg''] then Some (Symlink ''/etc/s.cfg'')
       else if k = [''etc'', ''s.cfg''] then Some (RegFile (Some ''sv_maxclients 8'')) else None)
     ''/srv/server.cfg'' = Inl NotAFile"
proof (rule getCFGFileData_symlink_rejected)
  show "path_isAbsolute ''/srv/server.cfg''" by code_simp
  show "lstatSync (\<lambda>k. if k = [''srv'', ''server.cfg''] then Some (Symlink ''/etc/s.cfg'')
       else if k = [''etc'', ''s.cfg''] then Some (RegFile (Some ''sv_maxclients 8'')) else None)
     ''/srv/server.cfg'' = Some (Symlink ''/etc/s.cfg'')" by code_simp
  show "readFileSync (\<lambda>k. if k = [''srv'', ''server.cfg''] then Some (Symlink ''/etc/s.cfg'')
       else if k = [''etc'', ''s.cfg''] then Some (RegFile (Some ''sv_maxclients 8'')) else None)
     ''/srv/server.cfg'' = Some ''sv_maxclients 8''" by code_simp
qed

text \<open>
  C27.  The three calls into \<open>fs\<close> are separate steps: a file removed
  after \<open>existsSync\<close> and before \<open>lstatSync\<close> makes \<open>getCFGFileData\<close>
  throw Node's raw \<open>ENOENT\<close> error instead of one of its own messages.
\<close>

theorem getCFGFileData_race_lstat:
  assumes "path_isAbsolute p" "existsSync fs p"
  shows "getCFGFileData_at (\<lambda>i. if i = 0 then fs else fs(fs_key p := None)) p = Inl LstatENOENT"
  using assms by (simp add: getCFGFileData_at_def lstatSync_def)

theorem getCFGFileData_race_lstat_witness:
  "getCFGFileData_at (\<lambda>i. if i = 0 then (\<lambda>k. if k = [''srv'', ''server.cfg''] then Some (RegFile (Some [])) else None)
       else (\<lambda>k. if k = [''srv'', ''server.cfg''] then Some (RegFile (Some [])) else None)(fs_key ''/srv/server.cfg'' := None))
     ''/srv/server.cfg'' = Inl LstatENOENT"
proof (rule getCFGFileData_race_lstat)
  show "path_isAbsolute ''/srv/server.cfg''" by code_simp
  show "existsSync (\<lambda>k. if k = [''srv'', ''server.cfg''] then Some (RegFile (Some [])) else None) ''/srv/server.cfg''"
    by code_simp
qed

text \<open>
  C28.  \<open>findLikelyCFGPath\<close> returns the first of the six candidate names,
  joined to the data folder, that \<open>getCFGFileData\<close> accepts, and only that.
\<close>

theorem findLikelyCFGPath_first:
  "findLikelyCFGPath fs sdp = Some p \<longleftrightarrow>
     (\<exists>pre a post. cfg_attempts = pre @ a # post \<and> p = path_join [sdp, a] \<and> \<not> isl (getCFGFileData fs p)
        \<and> (\<forall>b \<in> set pre. isl (getCFGFileData fs (path_join [sdp, b]))))"
  unfolding findLikelyCFGPath_def by (rule find_cfg_Some)

theorem findLikelyCFGPath_first_witness:
  "findLikelyCFGPath (\<lambda>k. if k = [''srv'', ''data'', ''server.cfg.txt''] then Some (RegFile (Some [])) else None)
     ''/srv/data'' = Some ''/srv/data/server.cfg.txt''"
proof -
  have "cfg_attempts = [''server.cfg''] @ ''server.cfg.txt'' # [''server.cfg.cfg'', ''server.txt'', ''server'', ''../server.cfg'']"
    by (simp add: cfg_attempts_def)
  moreover have "''/srv/data/server.cfg.txt'' = path_join [''/srv/data'', ''server.cfg.txt'']" by code_simp
  moreover have "\<not> isl (getCFGFileData (\<lambda>k. if k = [''srv'', ''data'', ''server.cfg.txt''] then Some (RegFile (Some [])) else None)
      ''/srv/data/server.cfg.txt'')" by code_simp
  moreover have "\<forall>b \<in> set [''server.cfg'']. isl (getCFGFileData (\<lambda>k. if k = [''srv'', ''data'', ''server.cfg.txt''] then Some (RegFile (Some [])) else None)
      (path_join [''/srv/data'', b]))" by code_simp
  ultimately show ?thesis using findLikelyCFGPath_first by blast
qed

text \<open>
  C29.  With a relative data folder every candidate path is relative, so
  \<open>getCFGFileData\<close> rejects each and \<open>findLikelyCFGPath\<close> returns \<open>false\<close>.
\<close>

theorem findLikelyCFGPath_relative:
  assumes "\<not> path_isAbsolute sdp"
  shows "findLikelyCFGPath fs sdp = None"
  using assms cfg_attempts_relative by (simp add: findLikelyCFGPath_def find_cfg_relative)

theorem findLikelyCFGPath_relative_witness:
  "findLikelyCFGPath (\<lambda>k. Some (RegFile (Some []))) ''data'' = None"
  using findLikelyCFGPath_relative [of "''data''"] by (simp add: path_isAbsolute_def)

text \<open>
  C30.  When the process runs in an absolute directory \<open>resolveCFGFilePath\<close>
  returns an absolute path, and an absolute configuration path unchanged.
\<close>

theorem resolveCFGFilePath_absolute:
  assumes "path_isAbsolute cwd"
  shows "path_isAbsolute (resolveCFGFilePath cwd cfgPath sdp)
       \<and> (path_isAbsolute cfgPath \<longrightarrow> resolveCFGFilePath cwd cfgPath sdp = cfgPath)"
  using assms path_resolve_abs by (simp add: resolveCFGFilePath_def)

theorem resolveCFGFilePath_absolute_witness:
  "path_isAbsolute (resolveCFGFilePath ''/home/fx'' ''server.cfg'' ''data'')
     \<and> resolveCFGFilePath ''/home/fx'' ''/srv/server.cfg'' ''data'' = ''/srv/server.cfg''"
  using resolveCFGFilePath_absolute [of "''/home/fx''" "''server.cfg''" "''data''"]
    resolveCFGFilePath_absolute [of "''/home/fx''" "''/srv/server.cfg''" "''data''"]
  by (simp add: path_isAbsolute_def)

end
