(* ===== verification/Banner.thy ===== *)
theory Banner
  imports Prelude "HOL-Library.Word"
begin

text \<open>
  \<open>txAdminASCII()\<close> of \<open>src/src/extras/helpers.js\<close> (lines 10--21) returns
  \<open>Buffer.from(preCalculated, 'base64').toString('ascii')\<close> for a constant
  template literal; the comment on lines 12--15 says the constant was made by
  \<open>Buffer.from(ascii).toString('base64')\<close> of a figlet banner.  This theory
  models Node's base64 decoder on bytes (\<^typ>\<open>8 word\<close>) and 6-bit groups
  (\<^typ>\<open>6 word\<close>): characters outside the alphabet, such as the line breaks
  and indentation the template literal holds, are skipped, \<open>=\<close> ends the
  input, the URL-safe \<open>-\<close> and \<open>_\<close> are accepted, and a trailing group of
  two or three characters gives one or two bytes.  \<open>toString('ascii')\<close>
  clears the high bit of each byte.  The encoder of the comment is
  \<open>b64_encode\<close>.  The lemmas: decoding inverts encoding bit by bit
  (\<open>byte1_sext\<close>, \<open>byte2_sext\<close>, \<open>byte3_sext\<close>, \<open>b64_roundtrip\<close>), white space
  is ignored (\<open>b64_sextets_filter\<close>) and the length of the output.
\<close>

unbundle bit_operations_syntax

section \<open>Node's base64 decoder and the ascii decoding\<close>

type_synonym byte = "8 word"
type_synonym sextet = "6 word"

definition b64_alphabet :: string where
  "b64_alphabet = map char_of ([65..<91] @ [97..<123] @ [48..<58] @ [43, 47 :: nat])"

definition b64_value :: "char \<Rightarrow> sextet option" where
  "b64_value c =
     (let n = (of_char c :: nat) in
      if 65 \<le> n \<and> n \<le> 90 then Some (of_nat (n - 65))
      else if 97 \<le> n \<and> n \<le> 122 then Some (of_nat (n - 71))
      else if 48 \<le> n \<and> n \<le> 57 then Some (of_nat (n + 4))
      else if c = CHR ''+'' \<or> c = CHR ''-'' then Some 62
      else if c = CHR ''/'' \<or> c = CHR ''_'' then Some 63
      else None)"

definition b64_sextets :: "string \<Rightarrow> sextet list" where
  "b64_sextets s = List.map_filter b64_value (takeWhile (\<lambda>c. c \<noteq> CHR ''='') s)"

definition byte1 :: "sextet \<Rightarrow> sextet \<Rightarrow> byte" where
  "byte1 a b = push_bit 2 (ucast a) OR drop_bit 4 (ucast b)"

definition byte2 :: "sextet \<Rightarrow> sextet \<Rightarrow> byte" where
  "byte2 b c = push_bit 4 (ucast b) OR drop_bit 2 (ucast c)"

definition byte3 :: "sextet \<Rightarrow> sextet \<Rightarrow> byte" where
  "byte3 c d = push_bit 6 (ucast c) OR ucast d"

fun b64_groups :: "sextet list \<Rightarrow> byte list" where
  "b64_groups (a # b # c # d # r) = [byte1 a b, byte2 b c, byte3 c d] @ b64_groups r"
| "b64_groups [a, b, c] = [byte1 a b, byte2 b c]"
| "b64_groups [a, b] = [byte1 a b]"
| "b64_groups _ = []"

definition b64_decode :: "string \<Rightarrow> byte list" where
  "b64_decode s = b64_groups (b64_sextets s)"

definition ascii_decode :: "byte list \<Rightarrow> string" where
  "ascii_decode bs = map (\<lambda>b. char_of (unat (b AND 0x7F))) bs"

section \<open>txAdminASCII\<close>

text \<open>The literal of lines 16--19 with its line breaks and indentation, and the
  function, whose body is written over its literal so that the comment's
  generation procedure can be stated.\<close>

definition preCalculated :: string where
  "preCalculated =
     ''ICBfICAgICAgICAgICAgXyAgICAgICBfICAgICAgICAgICBfICAgICAgIAogfCB8X19fICBfX'' @ CHR 0x0A #
     ''    yAgIC8gXCAgIF9ffCB8XyBfXyBfX18gKF8pXyBfXyAgCiB8IF9fXCBcLyAvICAvIF8gXCAvIF9gIHwgJ18gYCBfIFx8IHwg'' @ CHR 0x0A #
     ''    J18gXCAKIHwgfF8gPiAgPCAgLyBfX18gXCAoX3wgfCB8IHwgfCB8IHwgfCB8IHwgfAogIFxfXy9fL1xfXC9fLyAgIFxfXF9'' @ CHR 0x0A #
     ''    fLF98X3wgfF98IHxffF98X3wgfF98CiAgICAgICAgICAgICAgICAgICAgICAgICAgICAgICAgICAgICAgICAgICA=''"

definition txAdminASCII_of :: "string \<Rightarrow> string" where
  "txAdminASCII_of lit = ascii_decode (b64_decode lit)"

definition txAdminASCII :: string where
  "txAdminASCII = txAdminASCII_of preCalculated"

section \<open>The generator of the comment\<close>

text \<open>\<open>Buffer.from(ascii).toString('base64')\<close>: three bytes to four characters,
  padded with \<open>=\<close>; \<open>ascii_bytes\<close> is \<open>Buffer.from\<close> of an ASCII string;
  \<open>banner_text\<close> is the figlet banner.\<close>

definition sext1 :: "byte \<Rightarrow> sextet" where
  "sext1 x = ucast (drop_bit 2 x)"

definition sext2 :: "byte \<Rightarrow> byte \<Rightarrow> sextet" where
  "sext2 x y = ucast (push_bit 4 (x AND 3) OR drop_bit 4 y)"

definition sext3 :: "byte \<Rightarrow> byte \<Rightarrow> sextet" where
  "sext3 y z = ucast (push_bit 2 (y AND 15) OR drop_bit 6 z)"

definition sext4 :: "byte \<Rightarrow> sextet" where
  "sext4 z = ucast (z AND 63)"

fun b64_enc_groups :: "byte list \<Rightarrow> sextet list" where
  "b64_enc_groups (x # y # z # r) = [sext1 x, sext2 x y, sext3 y z, sext4 z] @ b64_enc_groups r"
| "b64_enc_groups [x, y] = [sext1 x, sext2 x y, sext3 y 0]"
| "b64_enc_groups [x] = [sext1 x, sext2 x 0]"
| "b64_enc_groups [] = []"

definition b64_encode :: "byte list \<Rightarrow> string" where
  "b64_encode bs = map (\<lambda>s. b64_alphabet ! unat s) (b64_enc_groups bs)
     @ replicate ((3 - length bs mod 3) mod 3) (CHR ''='')"

definition ascii_bytes :: "string \<Rightarrow> byte list" where
  "ascii_bytes t = map (\<lambda>c. of_nat (of_char c)) t"

definition banner_text :: string where
  "banner_text = js_join [CHR 0x0A]
    [''  _            _       _           _       '',
     ('' | |___  __   / '' @ [CHR 0x5C] @ ''   __| |_ __ ___ (_)_ __  ''),
     ('' | __'' @ [CHR 0x5C] @ '' '' @ [CHR 0x5C] @ ''/ /  / _ '' @ [CHR 0x5C] @ '' / _'' @ [CHR 0x60] @ '' | '' @ [CHR 0x27] @ ''_ '' @ [CHR 0x60] @ '' _ '' @ [CHR 0x5C] @ ''| | '' @ [CHR 0x27] @ ''_ '' @ [CHR 0x5C] @ '' ''),
     ('' | |_ >  <  / ___ '' @ [CHR 0x5C] @ '' (_| | | | | | | | | | |''),
     (''  '' @ [CHR 0x5C] @ ''__/_/'' @ [CHR 0x5C] @ ''_'' @ [CHR 0x5C] @ ''/_/   '' @ [CHR 0x5C] @ ''_'' @ [CHR 0x5C] @ ''__,_|_| |_| |_|_|_| |_|''),
     ''                                           '']"

section \<open>Lemmas\<close>

lemma less8_cases: "(n::nat) < LENGTH(8) \<Longrightarrow> n = 0 \<or> n = 1 \<or> n = 2 \<or> n = 3 \<or> n = 4 \<or> n = 5 \<or> n = 6 \<or> n = 7"
  by simp arith

lemma bit_word8_high: "8 \<le> n \<Longrightarrow> \<not> bit (w :: 8 word) n"
  using bit_imp_le_length [of w n] by auto

lemma dec1: "push_bit 2 (ucast (ucast (drop_bit 2 x) :: 6 word)) OR
      drop_bit 4 (ucast (ucast (push_bit 4 (x AND 3) OR drop_bit 4 y :: 8 word) :: 6 word)) = (x :: 8 word)"
  apply (rule bit_word_eqI)
  apply (drule less8_cases)
  apply (elim disjE)
  apply (simp_all add: bit_simps bit_word8_high)
  done

lemma dec2: "push_bit 4 (ucast (ucast (push_bit 4 (x AND 3) OR drop_bit 4 y :: 8 word) :: 6 word)) OR
      drop_bit 2 (ucast (ucast (push_bit 2 (y AND 15) OR drop_bit 6 z :: 8 word) :: 6 word)) = (y :: 8 word)"
  apply (rule bit_word_eqI)
  apply (drule less8_cases)
  apply (elim disjE)
  apply (simp_all add: bit_simps bit_word8_high)
  done

lemma dec3: "push_bit 6 (ucast (ucast (push_bit 2 (y AND 15) OR drop_bit 6 z :: 8 word) :: 6 word)) OR
      ucast (ucast (z AND 63) :: 6 word) = (z :: 8 word)"
  apply (rule bit_word_eqI)
  apply (drule less8_cases)
  apply (elim disjE)
  apply (simp_all add: bit_simps bit_word8_high)
  done

lemma byte1_sext: "byte1 (sext1 x) (sext2 x y) = x"
  unfolding byte1_def sext1_def sext2_def by (rule dec1)

lemma byte2_sext: "byte2 (sext2 x y) (sext3 y z) = y"
  unfolding byte2_def sext2_def sext3_def by (rule dec2)

lemma byte3_sext: "byte3 (sext3 y z) (sext4 z) = z"
  unfolding byte3_def sext3_def sext4_def by (rule dec3)

lemma unat_sextet: "unat (s :: sextet) < 64"
  using unsigned_less [of s] by simp

lemma char_of_plus_slash: "char_of (43::nat) = CHR ''+''" "char_of (47::nat) = CHR ''/''"
  by code_simp+

lemma b64_alphabet_nth:
  "n < 64 \<Longrightarrow> b64_alphabet ! n =
     char_of (if n < 26 then 65 + n else if n < 52 then 71 + n else if n < 62 then n - 4
              else if n = 62 then 43 else 47 :: nat)"
  by (simp add: b64_alphabet_def nth_append del: upt_rec_numeral) linarith

lemma b64_value_alphabet_all:
  assumes "n < 64"
  shows "b64_value (b64_alphabet ! n) = Some (of_nat n) \<and> b64_alphabet ! n \<noteq> CHR ''=''"
proof -
  consider "n < 26" | "26 \<le> n" "n < 52" | "52 \<le> n" "n < 62" | "n = 62" | "n = 63"
    using assms by linarith
  then show ?thesis
  proof cases
    case 4
    then show ?thesis by (simp add: b64_alphabet_nth char_of_plus_slash b64_value_def)
  next
    case 5
    then show ?thesis by (simp add: b64_alphabet_nth char_of_plus_slash b64_value_def)
  qed (simp_all add: b64_alphabet_nth b64_value_def Let_def of_char_of char_of_eq_iff take_bit_nat_eq_self, linarith?)
qed

lemma b64_value_alphabet [simp]: "b64_value (b64_alphabet ! unat (s :: sextet)) = Some s"
  using b64_value_alphabet_all [OF unat_sextet [of s]] by simp

lemma b64_alphabet_not_pad: "b64_alphabet ! unat (s :: sextet) \<noteq> CHR ''=''"
  using b64_value_alphabet_all [OF unat_sextet [of s]] by simp

lemma map_filter_map_Some: "(\<And>x. f (g x) = Some x) \<Longrightarrow> List.map_filter f (map g xs) = xs"
  by (induction xs) simp_all

lemma takeWhile_map_stop:
  "(\<And>x. P (f x)) \<Longrightarrow> \<not> P y \<Longrightarrow> takeWhile P (map f xs @ y # ys) = map f xs"
  by (induction xs) simp_all

lemma b64_sextets_encode: "b64_sextets (b64_encode bs) = b64_enc_groups bs"
proof -
  have "takeWhile (\<lambda>c. c \<noteq> CHR ''='') (b64_encode bs) = map (\<lambda>s. b64_alphabet ! unat s) (b64_enc_groups bs)"
    by (cases "(3 - length bs mod 3) mod 3") (simp_all add: b64_encode_def takeWhile_map_stop b64_alphabet_not_pad)
  then show ?thesis by (simp add: b64_sextets_def map_filter_map_Some)
qed

lemma b64_groups_enc: "b64_groups (b64_enc_groups bs) = bs"
  by (induction bs rule: b64_enc_groups.induct) (simp_all add: byte1_sext byte2_sext byte3_sext)

lemma b64_roundtrip: "b64_decode (b64_encode bs) = bs"
  by (simp add: b64_decode_def b64_sextets_encode b64_groups_enc)

lemma takeWhile_filter:
  "(\<And>c. \<not> Q c \<Longrightarrow> P c) \<Longrightarrow> takeWhile P (filter Q s) = filter Q (takeWhile P s)"
  by (induction s) auto

lemma map_filter_filter:
  "(\<And>x. \<not> Q x \<Longrightarrow> f x = None) \<Longrightarrow> List.map_filter f (filter Q xs) = List.map_filter f xs"
  by (induction xs) (auto split: option.split)

lemma b64_sextets_filter:
  "b64_sextets s = b64_sextets (filter (\<lambda>c. b64_value c \<noteq> None \<or> c = CHR ''='') s)"
  unfolding b64_sextets_def
  by (subst takeWhile_filter) (auto intro!: map_filter_filter [symmetric])

lemma is_ws_b64_value:
  assumes "is_ws c"
  shows "b64_value c = None \<and> c \<noteq> CHR ''=''"
proof -
  have n: "of_char c \<in> {9, 10, 11, 12, 13, 32, 160 :: nat}" using assms by (simp add: is_ws_def)
  have "of_char c \<notin> {43, 45, 47, 95, 61 :: nat}" using n by auto
  then have "c \<noteq> CHR ''+'' \<and> c \<noteq> CHR ''-'' \<and> c \<noteq> CHR ''/'' \<and> c \<noteq> CHR ''_'' \<and> c \<noteq> CHR ''=''"
    by auto
  moreover have "\<not> ((65::nat) \<le> of_char c \<and> of_char c \<le> (90::nat)) \<and> \<not> ((97::nat) \<le> of_char c \<and> of_char c \<le> (122::nat))
      \<and> \<not> ((48::nat) \<le> of_char c \<and> of_char c \<le> (57::nat))" using n by auto
  ultimately show ?thesis by (simp add: b64_value_def Let_def)
qed

lemma b64_groups_length: "length (b64_groups ss) = 3 * length ss div 4"
  by (induction ss rule: b64_groups.induct) simp_all

lemma unat_ascii_byte: "(k::nat) < 128 \<Longrightarrow> unat (of_nat k AND 0x7F :: byte) = k"
proof -
  assume k: "k < 128"
  have "(0x7F :: byte) = mask 7" by (simp add: mask_eq_exp_minus_1)
  then have "(of_nat k AND 0x7F :: byte) = take_bit 7 (of_nat k)" by (simp add: take_bit_eq_mask)
  also have "\<dots> = of_nat (take_bit 7 k)" by (simp add: of_nat_take_bit)
  finally show ?thesis using k by (simp add: take_bit_nat_eq_self unsigned_of_nat)
qed

lemma ascii_decode_bytes:
  "\<forall>c \<in> set t. of_char c < (128::nat) \<Longrightarrow> ascii_decode (ascii_bytes t) = t"
proof (induction t)
  case (Cons c t)
  have "of_char c < (128::nat)" using Cons.prems by simp
  then have "unat (of_nat (of_char c) AND 0x7F :: byte) = of_char c" by (rule unat_ascii_byte)
  with Cons show ?case by (simp add: ascii_decode_def ascii_bytes_def)
qed (simp add: ascii_decode_def ascii_bytes_def)

section \<open>Properties\<close>


text \<open>
  C33.  The generation procedure of the comment is sound: encoding any ASCII
  text as the comment does and decoding it as \<open>txAdminASCII\<close> does gives the
  text back.
\<close>

theorem txAdminASCII_of_encoded:
  assumes "\<forall>c \<in> set t. of_char c < (128::nat)"
  shows "txAdminASCII_of (b64_encode (ascii_bytes t)) = t"
  using assms by (simp add: txAdminASCII_of_def b64_roundtrip ascii_decode_bytes)

theorem txAdminASCII_of_encoded_witness:
  "txAdminASCII_of ''dHhBZG1pbg=='' = ''txAdmin''"
proof -
  have "\<forall>c \<in> set ''txAdmin''. of_char c < (128::nat)" by simp
  moreover have "b64_encode (ascii_bytes ''txAdmin'') = ''dHhBZG1pbg==''" by code_simp
  ultimately show ?thesis using txAdminASCII_of_encoded by metis
qed

text \<open>
  C34.  White space anywhere in the literal, such as the line breaks and
  indentation of the template literal, does not change the result.
\<close>

theorem txAdminASCII_of_layout:
  assumes "\<forall>c \<in> set w. is_ws c"
  shows "txAdminASCII_of (a @ w @ b) = txAdminASCII_of (a @ b)"
proof -
  have "filter (\<lambda>c. b64_value c \<noteq> None \<or> c = CHR ''='') w = []"
    using assms is_ws_b64_value by (auto simp: filter_empty_conv)
  then have "b64_sextets (a @ w @ b) = b64_sextets (a @ b)"
    by (subst (1 2) b64_sextets_filter) simp
  then show ?thesis by (simp add: txAdminASCII_of_def b64_decode_def)
qed

theorem txAdminASCII_of_layout_witness:
  "txAdminASCII_of (''dHhB'' @ CHR 0x0A # ''    '' @ ''ZG1pbg=='') = ''txAdmin''"
proof -
  have "\<forall>c \<in> set (CHR 0x0A # ''    ''). is_ws c" by (simp add: is_ws_def)
  then have "txAdminASCII_of (''dHhB'' @ (CHR 0x0A # ''    '') @ ''ZG1pbg=='') = txAdminASCII_of (''dHhB'' @ ''ZG1pbg=='')"
    by (rule txAdminASCII_of_layout)
  also have "\<dots> = ''txAdmin''" by code_simp
  finally show ?thesis by simp
qed

text \<open>
  C35.  Whatever the literal, the result is 7-bit ASCII and has three
  characters for every four base64 digits before the padding, rounded down.
\<close>

theorem txAdminASCII_of_bounds:
  "list_all (\<lambda>c. of_char c < (128::nat)) (txAdminASCII_of s)
     \<and> length (txAdminASCII_of s) = 3 * length (b64_sextets s) div 4"
proof -
  have "unat (b AND 0x7F :: byte) mod 256 < 128" for b
  proof -
    have "unat (b AND 0x7F) \<le> unat (0x7F :: byte)" by (rule word_and_le1 [THEN word_le_nat_alt [THEN iffD1]])
    then show ?thesis by simp
  qed
  then show ?thesis
    by (simp add: txAdminASCII_of_def ascii_decode_def b64_decode_def b64_groups_length list_all_iff)
qed

end
