(* ===== verification/Deps.thy ===== *)
theory Deps
  imports FileSys
begin

text \<open>
  \<open>dependencyChecker()\<close> of \<open>src/src/extras/helpers.js\<close> (lines 28--57):
  unless \<open>APP_ENV\<close> is \<open>webpack\<close>, it reads \<open>package.json\<close> of the resource,
  takes the keys of its \<open>dependencies\<close>, tries \<open>require.resolve\<close> on each
  and, when some fail, prints them and exits; any exception of the reading,
  parsing or key listing is printed and also exits.  \<open>JSON.parse\<close> and
  \<open>require.resolve\<close> are parameters of the model (the interface the checker
  relies on), the file is read through the file-system model of
  \<open>FileSys\<close>, and the effects are the printed lines and the exit.
\<close>

section \<open>Data\<close>

text \<open>A value of \<open>JSON.parse\<close>; an object keeps its members in the order and
  with the repetitions of the text.  Numbers are not used by the checker.\<close>

datatype json = JNull | JBool bool | JNum int | JStr string | JArr "json list" | JObj "(string \<times> json) list"

text \<open>What the checker does that the rest of the program sees: the lines it
  prints with \<open>console.log\<close> and whether it calls \<open>process.exit()\<close>.\<close>

record dep_effect =
  log :: "string list"
  exit_called :: bool

section \<open>The library calls\<close>

text \<open>\<open>fs.readFileSync\<close> on the file system of \<open>FileSys\<close> with the
  message of its error.\<close>

definition readFileSync_result :: "fs \<Rightarrow> string \<Rightarrow> string + string" where
  "readFileSync_result fs p =
     (case follow (Suc max_symlinks) fs (fs_key p) of
        Some (RegFile (Some c)) \<Rightarrow> Inr c
      | Some (RegFile None) \<Rightarrow> Inl (''EACCES: permission denied, open '' @ CHR 0x27 # p @ [CHR 0x27])
      | Some Directory \<Rightarrow> Inl ''EISDIR: illegal operation on a directory, read''
      | Some Special \<Rightarrow> Inl (''ENXIO: no such device or address, open '' @ CHR 0x27 # p @ [CHR 0x27])
      | _ \<Rightarrow> Inl (''ENOENT: no such file or directory, open '' @ CHR 0x27 # p @ [CHR 0x27]))"

text \<open>\<open>parsedFile.dependencies\<close>: the last member of that name of an object,
  \<open>undefined\<close> (\<^const>\<open>None\<close>) for other values, a \<open>TypeError\<close> for \<open>null\<close>.\<close>

definition dependencies_of :: "json \<Rightarrow> string + json option" where
  "dependencies_of v =
     (case v of
        JNull \<Rightarrow> Inl (''Cannot read properties of null (reading '' @ CHR 0x27 # ''dependencies'' @ CHR 0x27 # '')'')
      | JObj kvs \<Rightarrow> Inr (map_of (rev kvs) ''dependencies'')
      | _ \<Rightarrow> Inr None)"

text \<open>\<open>Object.keys\<close>: the own keys of an object, those that are array indices
  first in ascending order, then the others in the order they were first
  created; the indices of a string or an array; none for a number or a
  boolean; a \<open>TypeError\<close> for \<open>undefined\<close> and \<open>null\<close>.\<close>

definition is_array_index :: "string \<Rightarrow> bool" where
  "is_array_index k \<longleftrightarrow> k \<noteq> [] \<and> list_all is_digit k \<and> (k = ''0'' \<or> hd k \<noteq> CHR ''0'')
     \<and> dec_val k < 4294967295"

definition first_occurrences :: "'a list \<Rightarrow> 'a list" where
  "first_occurrences xs = rev (remdups (rev xs))"

definition own_keys :: "string list \<Rightarrow> string list" where
  "own_keys ks =
     (let ds = first_occurrences ks in
      sort_key dec_val (filter is_array_index ds) @ filter (\<lambda>k. \<not> is_array_index k) ds)"

definition object_keys :: "json option \<Rightarrow> string + string list" where
  "object_keys d =
     (case d of
        None \<Rightarrow> Inl ''Cannot convert undefined or null to object''
      | Some JNull \<Rightarrow> Inl ''Cannot convert undefined or null to object''
      | Some (JStr s) \<Rightarrow> Inr (map dec_string [0..<length s])
      | Some (JArr xs) \<Rightarrow> Inr (map dec_string [0..<length xs])
      | Some (JObj kvs) \<Rightarrow> Inr (own_keys (map fst kvs))
      | Some _ \<Rightarrow> Inr [])"

section \<open>dependencyChecker\<close>

text \<open>Lines 34--36, the three steps whose exceptions the outer \<open>catch\<close>
  reports; \<open>JSON.parse\<close> is a parameter, giving a value or the message of
  its \<open>SyntaxError\<close>.\<close>

definition package_list :: "string \<Rightarrow> fs \<Rightarrow> (string \<Rightarrow> string + json) \<Rightarrow> string + string list" where
  "package_list resPath fs parse =
     (case readFileSync_result fs (resPath @ ''/package.json'') of
        Inl e \<Rightarrow> Inl e
      | Inr rawFile \<Rightarrow>
          (case parse rawFile of
             Inl e \<Rightarrow> Inl e
           | Inr parsedFile \<Rightarrow>
               (case dependencies_of parsedFile of
                  Inl e \<Rightarrow> Inl e
                | Inr d \<Rightarrow> object_keys d)))"

text \<open>Lines 37--44: \<open>forEach\<close> with \<open>require.resolve\<close>, whose failure pushes
  the package; the resolver is a parameter.\<close>

definition missing_packages :: "(string \<Rightarrow> bool) \<Rightarrow> string list \<Rightarrow> string list" where
  "missing_packages resolvable packages =
     foldl (\<lambda>missing p. if resolvable p then missing else missing @ [p]) [] packages"

text \<open>The five lines of lines 46--50.\<close>

definition missing_report :: "string list \<Rightarrow> string list" where
  "missing_report missing =
     [''[txAdmin:PreCheck] Cannot start txAdmin due to missing dependencies.'',
      ''[txAdmin:PreCheck] Make sure you executed '' @ CHR 0x27 # ''npm i'' @ CHR 0x27 # ''.'',
      ''[txAdmin:PreCheck] The following packages are missing: '' @ js_join '', '' missing,
      [],
      ''[txAdmin:PreCheck] GO THE THE GITHUB RELEASES PAGE AND DOWNLOAD THE COMPILED ZIP FILE INSTEAD OF THE SOURCE'']"

text \<open>The function: \<open>APP_ENV\<close>, the resource path
  \<open>GetResourcePath(GetCurrentResourceName())\<close>, the file system, the parser
  and the resolver are its inputs.\<close>

definition dependencyChecker ::
  "string option \<Rightarrow> string \<Rightarrow> fs \<Rightarrow> (string \<Rightarrow> string + json) \<Rightarrow> (string \<Rightarrow> bool) \<Rightarrow> dep_effect" where
  "dependencyChecker app_env resPath fs parse resolvable =
     (if app_env = Some ''webpack'' then \<lparr>log = [], exit_called = False\<rparr>
      else (case package_list resPath fs parse of
              Inl msg \<Rightarrow> \<lparr>log = [''[txAdmin:PreCheck] Error reading or parsing package.json: '' @ msg],
                         exit_called = True\<rparr>
            | Inr packages \<Rightarrow>
                (let missing = missing_packages resolvable packages in
                 if missing \<noteq> [] then \<lparr>log = missing_report missing, exit_called = True\<rparr>
                 else \<lparr>log = [], exit_called = False\<rparr>)))"

section \<open>Lemmas\<close>

lemma foldl_missing:
  "foldl (\<lambda>missing p. if resolvable p then missing else missing @ [p]) acc ps
     = acc @ filter (\<lambda>p. \<not> resolvable p) ps"
  by (induction ps arbitrary: acc) simp_all

lemma missing_packages_eq: "missing_packages resolvable ps = filter (\<lambda>p. \<not> resolvable p) ps"
  by (simp add: missing_packages_def foldl_missing)

lemma distinct_first_occurrences [simp]: "distinct (first_occurrences xs)"
  by (simp add: first_occurrences_def)

lemma set_first_occurrences [simp]: "set (first_occurrences xs) = set xs"
  by (simp add: first_occurrences_def)

lemma own_keys_distinct: "distinct (own_keys ks) \<and> set (own_keys ks) = set ks"
  by (auto simp: own_keys_def Let_def)

lemma dec_string_inj: "inj dec_string"
  by (rule inj_on_inverseI [where g = dec_val]) simp

lemma object_keys_distinct: "object_keys d = Inr ks \<Longrightarrow> distinct ks"
  using own_keys_distinct inj_on_subset [OF dec_string_inj subset_UNIV]
  by (auto simp: object_keys_def distinct_map split: option.splits json.splits)

lemma package_list_distinct: "package_list r fs parse = Inr ks \<Longrightarrow> distinct ks"
  by (auto simp: package_list_def split: sum.splits intro: object_keys_distinct)

text \<open>A resource whose \<open>package.json\<close> lists \<open>express\<close> twice and \<open>left-pad\<close>.\<close>

lemma example_package_read:
  "readFileSync_result (\<lambda>k. if k = [''res'', ''package.json''] then Some (RegFile (Some ''{}'')) else None)
     ''/res/package.json'' = Inr ''{}''"
  by code_simp

lemma example_object_keys:
  "object_keys (Some (JObj [(''express'', JStr ''4''), (''left-pad'', JStr ''1''), (''express'', JStr ''5'')]))
     = Inr [''express'', ''left-pad'']"
  by (simp add: object_keys_def own_keys_def is_array_index_def first_occurrences_def js_char_defs)

lemma example_package_list:
  "package_list ''/res'' (\<lambda>k. if k = [''res'', ''package.json''] then Some (RegFile (Some ''{}'')) else None)
     (\<lambda>_. Inr (JObj [(''dependencies'', JObj [(''express'', JStr ''4''), (''left-pad'', JStr ''1''), (''express'', JStr ''5'')])]))
     = Inr [''express'', ''left-pad'']"
  by (simp add: package_list_def example_package_read dependencies_of_def example_object_keys)

section \<open>Properties\<close>

text \<open>
  C36.  The checker exits exactly when \<open>APP_ENV\<close> is not \<open>webpack\<close> and
  either reading, parsing or listing the dependencies fails or some listed
  package does not resolve.
\<close>

theorem dependencyChecker_exits:
  "exit_called (dependencyChecker env r fs parse res) \<longleftrightarrow>
     env \<noteq> Some ''webpack'' \<and>
     (case package_list r fs parse of Inl _ \<Rightarrow> True | Inr ps \<Rightarrow> \<exists>p \<in> set ps. \<not> res p)"
  by (auto simp: dependencyChecker_def missing_packages_eq Let_def filter_empty_conv split: sum.splits)

theorem dependencyChecker_exits_witness:
  "exit_called (dependencyChecker None ''/res''
     (\<lambda>k. if k = [''res'', ''package.json''] then Some (RegFile (Some ''{}'')) else None)
     (\<lambda>_. Inr (JObj [(''dependencies'', JObj [(''express'', JStr ''4''), (''left-pad'', JStr ''1''), (''express'', JStr ''5'')])]))
     (\<lambda>p. p = ''express''))"
  using dependencyChecker_exits example_package_list by simp

text \<open>
  C37.  The \<open>forEach\<close> loop reports exactly the packages that do not resolve,
  in the order of the manifest: the checker's output equals the report of
  \<^const>\<open>filter\<close> on the package list.
\<close>

theorem dependencyChecker_reports_missing:
  assumes "env \<noteq> Some ''webpack''" "package_list r fs parse = Inr ps"
  shows "dependencyChecker env r fs parse res =
    (if filter (\<lambda>p. \<not> res p) ps = [] then \<lparr>log = [], exit_called = False\<rparr>
     else \<lparr>log = missing_report (filter (\<lambda>p. \<not> res p) ps), exit_called = True\<rparr>)"
  using assms by (simp add: dependencyChecker_def missing_packages_eq Let_def)

theorem dependencyChecker_reports_missing_witness:
  "dependencyChecker None ''/res''
     (\<lambda>k. if k = [''res'', ''package.json''] then Some (RegFile (Some ''{}'')) else None)
     (\<lambda>_. Inr (JObj [(''dependencies'', JObj [(''express'', JStr ''4''), (''left-pad'', JStr ''1''), (''express'', JStr ''5'')])]))
     (\<lambda>p. p = ''express'') = \<lparr>log = missing_report [''left-pad''], exit_called = True\<rparr>"
  using dependencyChecker_reports_missing [OF _ example_package_list] by simp



text \<open>
  C39.  A \<open>package.json\<close> without a \<open>dependencies\<close> member, which declares
  no dependency and so has none missing, makes the checker print a
  \<open>TypeError\<close> as a reading or parsing error and exit.
\<close>

theorem dependencyChecker_no_dependencies_field:
  assumes "env \<noteq> Some ''webpack''" "readFileSync_result fs (r @ ''/package.json'') = Inr raw"
    "parse raw = Inr (JObj kvs)" "map_of (rev kvs) ''dependencies'' = None"
  shows "dependencyChecker env r fs parse res =
    \<lparr>log = [''[txAdmin:PreCheck] Error reading or parsing package.json: Cannot convert undefined or null to object''],
     exit_called = True\<rparr>"
  using assms by (simp add: dependencyChecker_def package_list_def dependencies_of_def object_keys_def)

theorem dependencyChecker_no_dependencies_field_witness:
  "dependencyChecker None ''/res''
     (\<lambda>k. if k = [''res'', ''package.json''] then Some (RegFile (Some ''{}'')) else None)
     (\<lambda>_. Inr (JObj [(''name'', JStr ''monitor'')])) (\<lambda>p. True) =
    \<lparr>log = [''[txAdmin:PreCheck] Error reading or parsing package.json: Cannot convert undefined or null to object''],
     exit_called = True\<rparr>"
  using dependencyChecker_no_dependencies_field [where env = None and r = "''/res''" and raw = "''{}''"] example_package_read by simp

end
