(* ===== verification/Spec2Isabelle.thy ===== *)
theory Spec2Isabelle
  imports Cfg_Validate Schedule FileSys Banner Deps
begin

text \<open>
  \<^bold>\<open>A verification development for txAdmin's server-configuration helpers\<close>
  (\<open>src/src/extras/helpers.js\<close>).

  \<^bold>\<open>The program.\<close>  The file exports seven helpers.  The one with decision
  logic is \<open>getFXServerPort(rawCfgFile)\<close> (lines 143--229): it rejects a
  configuration that contains \<open>stop monitor\<close>, scans the text with two
  global, multiline, case-insensitive regular expressions for
  \<open>endpoint_add_<type> <ip>:<port>\<close> and \<open>sv_maxclients <n>\<close> directives
  (the directive extractor), and runs an ordered list of checks on what it
  found against the hosting policy kept in \<open>GlobalData\<close> (the policy
  validator); it returns the one port the game server will use or throws
  the first violated rule's message.  The other helpers are
  \<open>txAdminASCII\<close> (a base64 banner), \<open>dependencyChecker\<close> (package presence,
  exits the process), \<open>parseSchedule\<close> (splits \<open>"hh:mm, ..."\<close> strings),
  \<open>getCFGFileData\<close> and \<open>resolveCFGFilePath\<close> (path checks and file
  reading) and \<open>findLikelyCFGPath\<close> (tries six candidate names in order).

  \<^bold>\<open>Theories.\<close>
  \<^item> \<open>Prelude\<close>: the JavaScript character classes on 8-bit characters
    (\<open>is_ws\<close> for \<open>\s\<close> and \<open>trim\<close>, \<open>is_lt\<close>, \<open>is_digit\<close>, \<open>is_word\<close>,
    \<open>to_lower\<close>), \<open>parseInt\<close> of a digit string (\<open>dec_val\<close>), the decimal
    text of a number (\<open>dec_string\<close>, with the round trip
    \<open>dec_val_dec_string\<close>), \<open>String.prototype.trim\<close> (\<open>js_trim\<close>) and
    \<open>includes\<close> (\<open>js_includes\<close>, equal to the substring relation by
    \<open>js_includes_iff\<close>), \<open>String.prototype.split\<close> on one character
    (\<open>js_split\<close>) and \<open>Array.prototype.join\<close> (\<open>js_join\<close>), with the round
    trip \<open>js_split_join\<close>.
  \<^item> \<open>Regex_Scan\<close>: the pieces of a regular expression as string parsers
    (\<open>p_many\<close>, \<open>p_many1\<close>, \<open>p_upto\<close>, \<open>p_char\<close>, \<open>p_opt\<close>, \<open>p_lit_ci\<close>,
    \<open>p_rest_of_line\<close>) and the loop \<open>while (match = re.exec(text))\<close> of a
    \<open>gm\<close> expression as \<open>exec_all\<close>, a \<^theory_text>\<open>partial_function\<close> in the
    option monad: at each \<open>^\<close> position the matcher is tried, a match is
    recorded and the scan resumes after it (\<open>lastIndex\<close>), otherwise the scan
    moves one character.  An empty match would repeat forever in JavaScript
    and is \<open>None\<close> here; \<open>exec_all_total\<close> proves the loop returns for every
    matcher whose matches are non-empty.  No fuel is involved.
  \<^item> \<open>Cfg_Extract\<close>: the two regular expressions of lines 146--147 as the
    parsers \<open>endpoint_p\<close> and \<open>maxclients_p\<close>, the object of lines 154--159 as
    the record \<open>endpoint\<close>, and the two loops as \<open>extract_endpoints\<close> and
    \<open>extract_maxClients\<close>.  Its lemmas: the loops return
    (\<open>extraction_loops_return\<close>), every extracted endpoint is well formed
    (\<open>extracted_endpoint_wf\<close>: port below 100000, non-empty type, an
    interface of digits and dots), directive lines are read back in order
    (\<open>extract_endpoints_lines\<close>, built on the per-line lemmas
    \<open>endpoint_match_directive\<close>, \<open>maxclients_match_directive\<close> and the
    scanner lemmas \<open>exec_all_match_line\<close>, \<open>exec_all_reject_line\<close>).
  \<^item> \<open>Cfg_Validate\<close>: \<open>GlobalData\<close> as the record \<open>global_data\<close>, the
    thrown errors as the datatype \<open>fx_error\<close> with their messages
    (\<open>fx_error_message\<close>, \<open>std_message\<close>), the checks
    (\<open>check_max_clients\<close>, \<open>check_forced_iface\<close>, \<open>validate_endpoints\<close>) and
    the whole function \<open>getFXServerPort\<close>.  The abstract contract
    \<open>fx_port_ok\<close> states the rules without their order;
    \<open>validate_endpoints_contract\<close> proves the checks implement it exactly.
    The error lemmas show the fail-fast order: which error each violated
    rule produces when the rules before it pass.
  \<^item> \<open>Schedule\<close>: \<open>parseSchedule\<close> (lines 66--85).  The argument is
    the datatype \<open>schedule_input\<close> (string or array), the pushed objects
    the record \<open>sched_time\<close> (\<open>None\<close> for \<open>NaN\<close>), the global object that
    the undeclared \<open>times\<close> is written to the record \<open>js_globals\<close>.  The
    expression \<open>/^$|^([01]?[0-9]|2[0-3]):([0-5][0-9])$/gm\<close> is
    \<open>sched_exec\<close>: every start position, \<open>^$\<close> before the time
    alternative, the hour choices in backtracking order (\<open>hour_alts\<close>).
    Its lemmas: every returned object is well formed
    (\<open>parsed_times_wf\<close>), valid times joined by commas are read back in
    order (\<open>parseSchedule_time_texts\<close>), the \<open>filter\<close> flag drops or keeps
    the unmatched items, times out of range are rejected, a blank item gives a
    \<open>NaN\<close> object and a time followed by other lines is accepted.
  \<^item> \<open>Paths\<close>: Node's \<open>path.posix\<close> (\<open>isAbsolute\<close>, \<open>normalizeString\<close>,
    \<open>normalize\<close>, \<open>join\<close>, \<open>resolve\<close>), a library the file helpers call,
    with the lemmas that normalising keeps a path absolute or relative
    (\<open>path_normalize_isAbsolute\<close>, \<open>path_join_isAbsolute\<close>), that
    \<open>resolve\<close> is absolute (\<open>path_resolve_abs\<close>) and that normalising is
    idempotent (\<open>norm_segs_idem\<close>).
  \<^item> \<open>FileSys\<close>: the file system as a map from normalised paths to inodes
    (regular file with its text or an unreadable one, directory, link,
    other), Node's \<open>existsSync\<close>, \<open>lstatSync\<close> and \<open>readFileSync\<close> on it,
    and the helpers \<open>getCFGFileData\<close> (lines 95--117),
    \<open>resolveCFGFilePath\<close> (lines 126--128) and \<open>findLikelyCFGPath\<close>
    (lines 237--255).  \<open>getCFGFileData_at\<close> gives each of the three calls
    into \<open>fs\<close> its own file-system state, so that a change between the calls
    is a hypothesis of a lemma.  Its lemmas: the result and every error of
    \<open>getCFGFileData\<close>, a linked configuration is rejected, a removal between
    \<open>existsSync\<close> and \<open>lstatSync\<close> lets a raw \<open>ENOENT\<close> escape,
    \<open>findLikelyCFGPath\<close> returns the first accepted candidate and nothing for
    a relative folder, \<open>resolveCFGFilePath\<close> is absolute.
  \<^item> \<open>Banner\<close>: \<open>txAdminASCII\<close> (lines 10--21) over a model of Node's
    lenient base64 decoder on \<^typ>\<open>8 word\<close> bytes and \<^typ>\<open>6 word\<close>
    digits, with the encoder of the comment on lines 12--15.  Its lemmas: the
    bitwise inverse laws \<open>byte1_sext\<close>--\<open>byte3_sext\<close> and the round trip
    \<open>b64_roundtrip\<close>; its properties: the banner, the soundness of the
    generation procedure, independence of the literal's layout and the 7-bit
    bound of the result.
  \<^item> \<open>Deps\<close>: \<open>dependencyChecker\<close> (lines 28--57) with \<open>JSON.parse\<close> and
    \<open>require.resolve\<close> as parameters, \<open>package.json\<close> read through the
    \<open>FileSys\<close> model, \<open>Object.keys\<close> written out, and the printed lines
    and \<open>process.exit\<close> as the result.  Its properties: when it exits, that
    the loop reports exactly the unresolvable packages, once each, and that a
    manifest without \<open>dependencies\<close> makes it exit.
  \<^item> this theory: the properties of the whole \<open>getFXServerPort\<close>, and the
    composition of \<open>resolveCFGFilePath\<close> with \<open>getCFGFileData\<close>.

  \<^bold>\<open>Correspondence with the code.\<close>  JavaScript strings are \<^typ>\<open>string\<close>;
  the model covers texts whose characters are below 256 (Latin-1), where
  \<open>\s\<close> is TAB, LF, VT, FF, CR, SPACE and NO-BREAK SPACE and the line
  terminators are LF and CR.  Numbers read by \<open>parseInt\<close> are \<^typ>\<open>nat\<close>,
  exact (JavaScript loses precision beyond \<open>2^53\<close>, which only an
  \<open>sv_maxclients\<close> value of sixteen or more digits reaches).  The regular
  expressions are matched greedily without giving back characters; the
  header of \<open>Cfg_Extract\<close> explains why that is the backtracking matcher's
  first match for these two expressions.  Absent \<open>GlobalData\<close> fields are
  \<open>None\<close>; truthiness is written out (a cap of 0 and an empty forced
  interface are off).  \<open>GlobalData.forceFXServerPort\<close> is taken to be a
  number, so \<open>!==\<close> is inequality of \<^typ>\<open>nat option\<close>.  The unbound
  \<open>port\<close> in the message of line 192 is modelled by the \<open>ReferenceError\<close>
  message that replaces it.

  \<^bold>\<open>Bounds.\<close>  Link chains are followed at most 40 times, Linux's
  \<open>MAXSYMLINKS\<close>; a longer chain is \<open>ELOOP\<close>, which \<open>existsSync\<close>
  reports as a missing path.  No other bound or fuel is used: every loop of the
  code is a structural recursion or \<open>exec_all\<close>, whose return is proved.

  \<^bold>\<open>Not modelled.\<close>  The module export object (lines 259--267) only
  names the functions.  Node's libraries are modelled, not verified: the
  file system looks paths up after lexical normalisation, which is the
  kernel's lookup when no directory on the path is a link; permissions are
  modelled only as a regular file that cannot be read; \<open>JSON.parse\<close>,
  \<open>require.resolve\<close>, \<open>GetResourcePath\<close> and the current directory are
  parameters; strings are Latin-1 text, so \<open>Buffer\<close>'s UTF-8 conversion of
  the file contents is the identity of the model.
\<close>

section \<open>The whole function\<close>

text \<open>
  C1: \<open>getFXServerPort\<close> returns the port \<open>p\<close> exactly when the text has
  no \<open>stop monitor\<close> and the endpoints and max-clients values extracted from
  it satisfy the contract \<open>fx_port_ok\<close>.
\<close>

theorem getFXServerPort_contract:
  "getFXServerPort g raw = Inr p \<longleftrightarrow>
     \<not> js_includes raw ''stop monitor'' \<and> fx_port_ok g (extract_endpoints raw) (extract_maxClients raw) p"
proof -
  have "getFXServerPort g raw = Inr p \<longleftrightarrow> \<not> js_includes raw ''stop monitor''
      \<and> validate_endpoints g (extract_endpoints raw) (extract_maxClients raw) = Inr p"
    by (simp add: getFXServerPort_def)
  then show ?thesis using validate_endpoints_Inr validate_endpoints_ok_Inr by blast
qed

theorem getFXServerPort_contract_witness:
  "getFXServerPort \<lparr>deployerDefaults = None, forceInterface = None, forceFXServerPort = None\<rparr>
     (''endpoint_add_tcp \"0.0.0.0:30120\"'' @ CHR 0x0A # ''endpoint_add_udp \"0.0.0.0:30120\"'') = Inr 30120"
proof -
  have h: "\<not> js_includes (''endpoint_add_tcp \"0.0.0.0:30120\"'' @ CHR 0x0A # ''endpoint_add_udp \"0.0.0.0:30120\"'') ''stop monitor''
    \<and> fx_port_ok \<lparr>deployerDefaults = None, forceInterface = None, forceFXServerPort = None\<rparr> (extract_endpoints (''endpoint_add_tcp \"0.0.0.0:30120\"'' @ CHR 0x0A # ''endpoint_add_udp \"0.0.0.0:30120\"'')) (extract_maxClients (''endpoint_add_tcp \"0.0.0.0:30120\"'' @ CHR 0x0A # ''endpoint_add_udp \"0.0.0.0:30120\"'')) 30120"
    by (simp add: extract_eval fx_port_ok_def active_max_clients_def active_force_interface_def)
  show ?thesis using h getFXServerPort_contract by blast
qed

text \<open>
  C3: The corrective directives that the forced-interface messages print
  (\<open>stdMessage\<close>, lines 197--202) are accepted: written at the top of a
  configuration whose other lines bind no endpoint and satisfy the
  max-clients cap, they make \<open>getFXServerPort\<close> return the forced port,
  provided that port is a five-digit number outside the reserved block.
\<close>

theorem forced_directives_accepted:
  assumes fi: "active_force_interface g = Some (ip_text a b c d)" and fp: "forceFXServerPort g = Some p"
    and ip: "a < 1000" "b < 1000" "c < 1000" "d < 1000"
    and p: "p < 100000" "\<not> (40120 \<le> p \<and> p \<le> 40130)"
    and rest: "extract_endpoints rest = []" "check_max_clients g (extract_maxClients rest) = None"
    and sm: "\<not> js_includes (forced_directives (ip_text a b c d) p @ rest) ''stop monitor''"
  shows "getFXServerPort g (forced_directives (ip_text a b c d) p @ rest) = Inr p"
proof -
  let ?fi = "ip_text a b c d"
  let ?e1 = "\<lparr>line = endpoint_directive ''tcp'' (ip_text 127 0 0 1) p, type = ''tcp'',
              iface = ip_text 127 0 0 1, port = p\<rparr>"
  let ?e2 = "\<lparr>line = endpoint_directive ''tcp'' ?fi p, type = ''tcp'', iface = ?fi, port = p\<rparr>"
  let ?e3 = "\<lparr>line = endpoint_directive ''udp'' ?fi p, type = ''udp'', iface = ?fi, port = p\<rparr>"
  have cfg: "forced_directives ?fi p @ rest =
      endpoint_directive ''tcp'' (ip_text 127 0 0 1) p @ CHR 0x0A # (endpoint_directive ''tcp'' ?fi p
      @ CHR 0x0A # (endpoint_directive ''udp'' ?fi p @ CHR 0x0A # rest))"
    unfolding forced_directives_def ip_text_loopback by simp
  have word: "\<forall>x \<in> set ''tcp''. is_word x" "\<forall>x \<in> set ''udp''. is_word x"
    by (simp_all add: js_char_defs)
  have eps: "extract_endpoints (forced_directives ?fi p @ rest) = [?e1, ?e2, ?e3]"
    unfolding cfg using ip p rest word
    by (simp add: extract_endpoints_directive_line to_lower_def)
  have mcs: "extract_maxClients (forced_directives ?fi p @ rest) = extract_maxClients rest"
    unfolding cfg using word by (simp add: extract_maxClients_endpoint_line)
  have "fx_port_ok g [?e1, ?e2, ?e3] (extract_maxClients rest) p"
    using fi fp p rest(2) unfolding ip_text_loopback by (simp add: fx_port_ok_def check_max_clients_None)
  then have "validate_endpoints g [?e1, ?e2, ?e3] (extract_maxClients rest) = Inr p"
    by (rule validate_endpoints_ok_Inr)
  with sm eps mcs show ?thesis by (simp add: getFXServerPort_def)
qed

theorem forced_directives_accepted_witness:
  "getFXServerPort \<lparr>deployerDefaults = None, forceInterface = Some ''1.2.3.4'', forceFXServerPort = Some 30120\<rparr> (forced_directives (ip_text 1 2 3 4) 30120 @ ''sv_maxclients 32'') = Inr 30120"
proof -
  have h: "active_force_interface \<lparr>deployerDefaults = None, forceInterface = Some ''1.2.3.4'', forceFXServerPort = Some 30120\<rparr> = Some (ip_text 1 2 3 4)" "forceFXServerPort \<lparr>deployerDefaults = None, forceInterface = Some ''1.2.3.4'', forceFXServerPort = Some 30120\<rparr> = Some 30120"
    "(1::nat) < 1000" "(2::nat) < 1000" "(3::nat) < 1000" "(4::nat) < 1000"
    "(30120::nat) < 100000" "\<not> (40120 \<le> (30120::nat) \<and> (30120::nat) \<le> 40130)"
    "extract_endpoints ''sv_maxclients 32'' = []"
    "check_max_clients \<lparr>deployerDefaults = None, forceInterface = Some ''1.2.3.4'', forceFXServerPort = Some 30120\<rparr> (extract_maxClients ''sv_maxclients 32'') = None"
    "\<not> js_includes (forced_directives (ip_text 1 2 3 4) 30120 @ ''sv_maxclients 32'') ''stop monitor''"
    by (simp_all add: ip_text_def active_force_interface_def extract_eval check_max_clients_def
        active_max_clients_def forced_directives_def endpoint_directive_def dec_string.simps)
  show ?thesis by (rule forced_directives_accepted [OF h])
qed

text \<open>
  C7: A configuration containing \<open>stop monitor\<close> anywhere is rejected with
  the forbidden-directive error, whatever else it contains and whatever the
  policy.
\<close>

theorem stop_monitor_rejected: "getFXServerPort g (a @ ''stop monitor'' @ b) = Inl StopMonitor"
proof -
  have "js_includes (a @ ''stop monitor'' @ b) ''stop monitor''"
    unfolding js_includes_iff by blast
  then show ?thesis by (simp add: getFXServerPort_def)
qed

section \<open>Locating and reading the configuration\<close>

text \<open>
  C31.  A relative configuration path resolved against an absolute data
  folder is read exactly when the data folder joined with that path names a
  regular file with readable contents: \<open>resolveCFGFilePath\<close> never makes
  \<open>getCFGFileData\<close> fail for a relative path, and reads the intended file.
\<close>

theorem read_resolved_cfg:
  assumes "path_isAbsolute sdp" "\<not> path_isAbsolute cfgPath"
  shows "getCFGFileData fs (resolveCFGFilePath cwd cfgPath sdp) = Inr c \<longleftrightarrow>
    lstatSync fs (sdp @ ''/'' @ cfgPath) = Some (RegFile (Some c))"
proof -
  have "path_isAbsolute (resolveCFGFilePath cwd cfgPath sdp)" "path_isAbsolute (sdp @ ''/'' @ cfgPath)"
    using assms(1) by (simp_all add: resolveCFGFilePath_rel [OF assms] path_isAbsolute_def)
  then have "getCFGFileData fs (resolveCFGFilePath cwd cfgPath sdp) = getCFGFileData fs (sdp @ ''/'' @ cfgPath)"
    by (intro getCFGFileData_same_key resolveCFGFilePath_key assms)
  then show ?thesis using \<open>path_isAbsolute (sdp @ ''/'' @ cfgPath)\<close>
    by (auto simp: getCFGFileData_cases existsSync_def lstatSync_def split: option.splits inode.splits)
qed

theorem read_resolved_cfg_witness:
  "getCFGFileData (\<lambda>k. if k = [''srv'', ''data'', ''server.cfg''] then Some (RegFile (Some ''sv_maxclients 8'')) else None)
     (resolveCFGFilePath ''/home/fx'' ''cfg/../server.cfg'' ''/srv/data'') = Inr ''sv_maxclients 8''"
proof -
  have "lstatSync (\<lambda>k. if k = [''srv'', ''data'', ''server.cfg''] then Some (RegFile (Some ''sv_maxclients 8'')) else None)
      (''/srv/data'' @ ''/'' @ ''cfg/../server.cfg'') = Some (RegFile (Some ''sv_maxclients 8''))"
    by code_simp
  moreover have "path_isAbsolute ''/srv/data''" "\<not> path_isAbsolute ''cfg/../server.cfg''"
    by (simp_all add: path_isAbsolute_def)
  ultimately show ?thesis using read_resolved_cfg by blast
qed

section \<open>Results of getFXServerPort\<close>

text \<open>No step of the checks produces the error of the \<open>catch\<close> on line 165.\<close>

lemma validate_endpoints_not_regex_error: "validate_endpoints g eps mcs \<noteq> Inl RegexMatchError"
  by (auto simp: validate_endpoints_def check_max_clients_def check_forced_iface_def Let_def
           split: option.splits if_splits)

text \<open>
  C40.  Every result of \<open>getFXServerPort\<close> is well formed: a returned port
  has at most five digits and lies outside the block 40120--40130 reserved
  for txAdmin, and the \<open>Regex Match Error\<close> of the \<open>catch\<close> is never
  thrown.
\<close>

theorem getFXServerPort_result_wf:
  "case getFXServerPort g raw of
     Inl e \<Rightarrow> e \<noteq> RegexMatchError
   | Inr p \<Rightarrow> p < 100000 \<and> \<not> (40120 \<le> p \<and> p \<le> 40130)"
proof (cases "getFXServerPort g raw")
  case (Inl e)
  then show ?thesis using validate_endpoints_not_regex_error
    by (auto simp: getFXServerPort_def split: if_splits)
next
  case (Inr p)
  then have v: "validate_endpoints g (extract_endpoints raw) (extract_maxClients raw) = Inr p"
    by (simp add: getFXServerPort_def split: if_splits)
  then have ok: "fx_port_ok g (extract_endpoints raw) (extract_maxClients raw) p"
    by (rule validate_endpoints_Inr)
  then obtain e where e: "e \<in> set (extract_endpoints raw)" "port e = p"
    by (auto simp: fx_port_ok_def)
  from exec_endpoints [of raw] exec_all_results have "\<forall>x \<in> set (extract_endpoints raw).
      \<exists>s' n. endpoint_match s' = Some (x, n)" by blast
  with e obtain s' n where "endpoint_match s' = Some (e, n)" by blast
  then have "wf_endpoint e" by (rule endpoint_match_wf)
  with e ok Inr show ?thesis by (simp add: wf_endpoint_def fx_port_ok_def)
qed

end
